theory Spec2Isabelle
  imports Main "HOL-Library.Word" "HOL-Library.Monad_Syntax"
begin

section \<open>The MIPS64 Linux loader of GRUB (grub-core/loader/mips64/linux.c)\<close>

text \<open>
  The module keeps its state in file-level statics and offers two commands,
  \<^verbatim>\<open>linux\<close> (\<^verbatim>\<open>grub_cmd_linux\<close>) and \<^verbatim>\<open>initrd\<close> (\<^verbatim>\<open>grub_cmd_initrd\<close>), and two
  hooks handed to the loader framework, \<^verbatim>\<open>grub_linux_boot\<close> and
  \<^verbatim>\<open>grub_linux_unload\<close>.  The embedding below passes the statics around as
  one record, takes the answers of the collaborators that live in other files
  (ELF parser, relocator, initrd helper) from an environment record, and keeps
  the bytes of the argument chunk in the state, addressed by their offset from
  \<^verbatim>\<open>linux_args_addr\<close>.  A store through a pointer that leaves the chunk is
  undefined behaviour in C; the embedding returns \<open>None\<close> there.
\<close>

subsection \<open>Error codes, header fields and collaborator answers\<close>

text \<open>
  \<^verbatim>\<open>grub_err_t\<close> is \<open>GRUB_ERR_NONE\<close> (zero) or one of the non-zero codes.
  The codes that linux.c names are listed; \<open>OTHER_ERROR\<close> stands for every
  other code that a collaborator may report.
\<close>

datatype grub_failure = BAD_ARGUMENT | UNKNOWN_OS | BAD_OS | OTHER_ERROR nat

datatype grub_err_t = GRUB_ERR_NONE | GRUB_ERR grub_failure

abbreviation GRUB_ERR_BAD_ARGUMENT :: grub_err_t where
  "GRUB_ERR_BAD_ARGUMENT \<equiv> GRUB_ERR BAD_ARGUMENT"

abbreviation GRUB_ERR_UNKNOWN_OS :: grub_err_t where
  "GRUB_ERR_UNKNOWN_OS \<equiv> GRUB_ERR UNKNOWN_OS"

abbreviation GRUB_ERR_BAD_OS :: grub_err_t where
  "GRUB_ERR_BAD_OS \<equiv> GRUB_ERR BAD_OS"

text \<open>
  A collaborator that fails has called \<^verbatim>\<open>grub_error\<close> with a non-zero code
  and a message; this pair is what it left in \<^verbatim>\<open>grub_errno\<close> and the
  message buffer.
\<close>

type_synonym grub_error_t = "grub_failure \<times> string"

text \<open>
  Modelled from the spec: the header's format discriminant \<^verbatim>\<open>e_type\<close> and
  the constant \<^verbatim>\<open>ET_EXEC\<close> are declared in grub/elf.h, which is not among
  the sources.  The spec distinguishes "executable" from relocatable and shared
  images; every other value is \<open>ET_OTHER\<close>.
\<close>

datatype elf_type = ET_REL | ET_EXEC | ET_DYN | ET_OTHER nat

text \<open>
  What linux.c reads from an opened image (\<^verbatim>\<open>grub_elf_t\<close>): the header
  fields, the answers of \<^verbatim>\<open>grub_elf_is_elf32/64\<close>, the base and size that
  \<^verbatim>\<open>grub_elf32_size\<close> and \<^verbatim>\<open>grub_elf64_size\<close> compute, the error that
  the size routine recorded in \<^verbatim>\<open>grub_errno\<close> when it returned 0
  (\<open>elf_size_error\<close>; \<open>None\<close> when it returned 0 and recorded nothing, so
  that \<^verbatim>\<open>grub_errno\<close> is what it was before), and the error, if any, of
  \<^verbatim>\<open>grub_elf32_load\<close> and \<^verbatim>\<open>grub_elf64_load\<close> for a given load offset.
\<close>

record elf_image =
  e_type :: elf_type
  e_entry32 :: "32 word"
  e_entry64 :: "64 word"
  grub_elf_is_elf32 :: bool
  grub_elf_is_elf64 :: bool
  grub_elf32_size :: "32 word \<times> 64 word"
  grub_elf64_size :: "64 word \<times> 64 word"
  elf_size_error :: "grub_error_t option"
  grub_elf32_load :: "64 word \<Rightarrow> grub_error_t option"
  grub_elf64_load :: "64 word \<Rightarrow> grub_error_t option"

datatype preference =
    GRUB_RELOCATOR_PREFERENCE_NONE
  | GRUB_RELOCATOR_PREFERENCE_LOW
  | GRUB_RELOCATOR_PREFERENCE_HIGH

text \<open>
  The two kinds of request linux.c makes of the relocator:
  \<^verbatim>\<open>grub_relocator_alloc_chunk_addr (rel, &ch, target, size)\<close> and
  \<^verbatim>\<open>grub_relocator_alloc_chunk_align (rel, &ch, min_addr, max_addr, size, align, preference, 0)\<close>.
\<close>

datatype alloc_request =
    Alloc_chunk_addr "64 word" "64 word"
  | Alloc_chunk_align "64 word" "64 word" "64 word" "64 word" preference

text \<open>
  A granted chunk: the target address the relocator chose for it (the address
  asked for, or one in the range asked for: what the request constrains), the
  address \<^verbatim>\<open>get_virtual_current_address\<close> returns for it (the pointer
  through which the loader reaches it; linux.c reads nothing else of a chunk),
  and the bytes found in it (by offset) when it is handed out.  The pointer
  need not be the target address: lines 104 and 138 translate the other way
  with \<^verbatim>\<open>grub_vtop\<close>.
\<close>

record chunk =
  ch_target :: "64 word"
  ch_addr :: "64 word"
  ch_bytes :: "nat \<Rightarrow> 8 word"

text \<open>
  The collaborators' answers.  A function that fails answers the error \<open>e\<close> it
  reported (\<open>Inl e\<close>, or \<open>Some e\<close> where success yields no value): it returned
  NULL, or the code of \<open>e\<close>, with \<open>e\<close> in \<^verbatim>\<open>grub_errno\<close>.
  \<open>grub_relocator_new\<close> answers \<open>None\<close> when it returns a relocator.
  \<open>grub_initrd_init\<close> answers the context's total size, which
  \<^verbatim>\<open>grub_get_initrd_size\<close> then reads.
\<close>

record environment =
  grub_elf_open :: "string \<Rightarrow> grub_error_t + elf_image"
  grub_relocator_new :: "grub_error_t option"
  grub_relocator_alloc_chunk_addr :: "64 word \<Rightarrow> 64 word \<Rightarrow> grub_error_t + chunk"
  grub_relocator_alloc_chunk_align ::
    "64 word \<Rightarrow> 64 word \<Rightarrow> 64 word \<Rightarrow> 64 word \<Rightarrow> preference \<Rightarrow> grub_error_t + chunk"
  grub_vtop :: "64 word \<Rightarrow> 64 word"
  grub_initrd_init :: "string list \<Rightarrow> grub_error_t + 64 word"
  grub_initrd_load :: "string list \<Rightarrow> 64 word \<Rightarrow> grub_error_t option"

subsection \<open>The module's state\<close>

text \<open>
  The statics of linux.c under their own names (\<^verbatim>\<open>int\<close> is a 32-bit word read
  with \<open>sint\<close>, \<^verbatim>\<open>grub_addr_t\<close>, \<^verbatim>\<open>grub_size_t\<close> and \<^verbatim>\<open>grub_off_t\<close> are
  64-bit words), followed by what the module shares with the rest of GRUB:
  \<^verbatim>\<open>grub_errno\<close> and its message, whether the loader framework currently holds
  this module's boot and unload hooks, the module's reference count, and the
  argument chunk (its size and bytes).  \<open>relocator\<close> is \<open>None\<close> while there is
  no live relocator object, and otherwise lists the chunks granted in it.
\<close>

record linux_state =
  loaded :: bool
  linux_size :: "64 word"
  relocator :: "alloc_request list option"
  target_addr :: "64 word"
  entry_addr :: "64 word"
  linux_argc :: "32 word"
  linux_args_addr :: "64 word"
  rd_addr_arg_off :: "64 word"
  rd_size_arg_off :: "64 word"
  initrd_loaded :: bool
  grub_errno :: grub_err_t
  grub_errmsg :: string
  loader_registered :: bool
  my_mod_refs :: int
  args_chunk_size :: nat
  args_chunk_bytes :: "nat \<Rightarrow> 8 word"

text \<open>
  Modelled from the spec: \<^verbatim>\<open>struct grub_relocator64_state\<close> is declared in
  grub/cpu/relocator.h, which is not among the sources.  It holds the
  general-purpose registers, by their numbers, and the number of the register
  that holds the jump target.
\<close>

record grub_relocator64_state =
  gpr :: "nat \<Rightarrow> 64 word"
  jumpreg :: int

text \<open>The spec's three states of the boot sequencer, read off the two flags.\<close>

datatype boot_state = Unloaded | KernelLoaded | KernelAndRamdiskLoaded

definition boot_state_of :: "linux_state \<Rightarrow> boot_state" where
  "boot_state_of s =
     (if \<not> loaded s then Unloaded
      else if initrd_loaded s then KernelAndRamdiskLoaded
      else KernelLoaded)"

subsection \<open>Helpers from other files\<close>

text \<open>
  Modelled from the spec: the macro \<^verbatim>\<open>ALIGN_UP\<close> is defined in grub/misc.h,
  which is not among the sources.  It rounds its first argument up to the next
  multiple of the second, in the arithmetic of the argument's type (so the
  result wraps around with the word).
\<close>

definition round_up :: "nat \<Rightarrow> nat \<Rightarrow> nat" where
  "round_up n a = ((n + a - 1) div a) * a"

definition ALIGN_UP :: "'a::len word \<Rightarrow> nat \<Rightarrow> 'a word" where
  "ALIGN_UP x a = of_nat (round_up (unat x) a)"

text \<open>
  A C string is represented by its characters before the terminator.
  \<^verbatim>\<open>grub_strlen\<close> returns a \<^verbatim>\<open>grub_size_t\<close>; \<^verbatim>\<open>sizeof\<close> of a string literal
  counts the terminator; \<open>cstring\<close> is the bytes of the string in memory.
\<close>

definition grub_strlen :: "string \<Rightarrow> 64 word" where
  "grub_strlen str = of_nat (length str)"

definition sizeof_str :: "string \<Rightarrow> 64 word" where
  "sizeof_str str = of_nat (length str + 1)"

definition cstring :: "string \<Rightarrow> 8 word list" where
  "cstring str = map of_char str @ [0]"

text \<open>\<^verbatim>\<open>grub_error (n, msg)\<close> records the error and returns its code.\<close>

definition grub_error :: "grub_err_t \<Rightarrow> string \<Rightarrow> linux_state \<Rightarrow> grub_err_t \<times> linux_state" where
  "grub_error n msg s = (n, s\<lparr>grub_errno := n, grub_errmsg := msg\<rparr>)"

text \<open>A collaborator that fails has recorded its error the same way.\<close>

definition reported :: "grub_error_t \<Rightarrow> linux_state \<Rightarrow> linux_state" where
  "reported e s = s\<lparr>grub_errno := GRUB_ERR (fst e), grub_errmsg := snd e\<rparr>"

subsection \<open>Stores into the argument chunk\<close>

text \<open>
  A store of the bytes \<open>bs\<close> at offset \<open>off\<close> from \<^verbatim>\<open>linux_args_addr\<close>.  It
  is defined when all of the bytes lie in the chunk.
\<close>

definition poke :: "(nat \<Rightarrow> 8 word) \<Rightarrow> nat \<Rightarrow> 8 word list \<Rightarrow> nat \<Rightarrow> 8 word" where
  "poke m n bs = (\<lambda>i. if n \<le> i \<and> i < n + length bs then bs ! (i - n) else m i)"

definition write_bytes :: "linux_state \<Rightarrow> 64 word \<Rightarrow> 8 word list \<Rightarrow> linux_state option" where
  "write_bytes s off bs =
     (if unat off + length bs \<le> args_chunk_size s
      then Some (s\<lparr>args_chunk_bytes := poke (args_chunk_bytes s) (unat off) bs\<rparr>)
      else None)"

text \<open>\<^verbatim>\<open>grub_memcpy (dest, src, n)\<close> into the chunk, from the bytes at \<open>src\<close>.\<close>

definition grub_memcpy :: "linux_state \<Rightarrow> 64 word \<Rightarrow> 8 word list \<Rightarrow> 64 word \<Rightarrow> linux_state option" where
  "grub_memcpy s dest src n = write_bytes s dest (take (unat n) src)"

text \<open>
  A \<^verbatim>\<open>grub_uint32_t\<close> in memory, least significant byte first (the target is
  little-endian), and the store and load of one through a pointer into the chunk.
\<close>

definition bytes_of_u32 :: "32 word \<Rightarrow> 8 word list" where
  "bytes_of_u32 v =
     [of_nat (unat v mod 256), of_nat (unat v div 256 mod 256),
      of_nat (unat v div 65536 mod 256), of_nat (unat v div 16777216 mod 256)]"

definition store_u32 :: "linux_state \<Rightarrow> 64 word \<Rightarrow> 32 word \<Rightarrow> linux_state option" where
  "store_u32 s off v = write_bytes s off (bytes_of_u32 v)"

definition load_u32 :: "(nat \<Rightarrow> 8 word) \<Rightarrow> nat \<Rightarrow> 32 word" where
  "load_u32 m i =
     of_nat (unat (m i) + 256 * unat (m (i + 1)) + 65536 * unat (m (i + 2))
             + 16777216 * unat (m (i + 3)))"

text \<open>The bytes at offset \<open>i\<close> are the characters of \<open>str\<close> and its terminator.\<close>

definition string_at :: "(nat \<Rightarrow> 8 word) \<Rightarrow> nat \<Rightarrow> string \<Rightarrow> bool" where
  "string_at m i str = (map m [i ..< i + length str + 1] = cstring str)"

subsection \<open>Boot and unload hooks\<close>

text \<open>
  \<^verbatim>\<open>grub_linux_boot\<close> (lines 52-68) clears the register state, sets three
  registers and the jump register, and hands the state to
  \<^verbatim>\<open>grub_relocator64_boot\<close>.  The embedding returns the state handed over.
  The \<^verbatim>\<open>int\<close> \<^verbatim>\<open>linux_argc\<close> is sign-extended into its 64-bit register.
\<close>

definition grub_linux_boot :: "linux_state \<Rightarrow> grub_relocator64_state" where
  "grub_linux_boot s =
     (let state = \<lparr>gpr = (\<lambda>r. 0), jumpreg = 0\<rparr>;
          state = state\<lparr>gpr := (gpr state)(1 := entry_addr s)\<rparr>;
          state = state\<lparr>gpr := (gpr state)(4 := scast (linux_argc s))\<rparr>;
          state = state\<lparr>gpr := (gpr state)(5 := linux_args_addr s)\<rparr>;
          state = state\<lparr>jumpreg := 1\<rparr>
      in state)"

text \<open>
  \<^verbatim>\<open>grub_linux_unload\<close> (lines 70-79): the relocator is released, the module
  reference dropped, \<^verbatim>\<open>loaded\<close> cleared.
\<close>

definition grub_linux_unload :: "linux_state \<Rightarrow> linux_state" where
  "grub_linux_unload s =
     (let s = s\<lparr>relocator := None\<rparr>;
          s = s\<lparr>my_mod_refs := my_mod_refs s - 1\<rparr>;
          s = s\<lparr>loaded := False\<rparr>
      in s)"

text \<open>
  Modelled from the spec: \<^verbatim>\<open>grub_loader_unset\<close> and \<^verbatim>\<open>grub_loader_set\<close>
  belong to the loader framework (kern/loader.c), which is not among the
  sources.  Unsetting releases what the registered loader holds, through its
  unload hook, and leaves nothing registered as bootable; setting registers the
  hooks, after unloading whatever was registered before.
\<close>

definition grub_loader_unset :: "linux_state \<Rightarrow> linux_state" where
  "grub_loader_unset s =
     (if loader_registered s then (grub_linux_unload s)\<lparr>loader_registered := False\<rparr> else s)"

definition grub_loader_set :: "linux_state \<Rightarrow> linux_state" where
  "grub_loader_set s = (grub_loader_unset s)\<lparr>loader_registered := True\<rparr>"

subsection \<open>Placing the kernel image\<close>

text \<open>
  \<^verbatim>\<open>grub_linux_load32\<close> (lines 81-113).  \<^verbatim>\<open>base\<close> is an \<^verbatim>\<open>Elf32_Addr\<close>,
  widened to 64 bits where it meets a \<^verbatim>\<open>grub_size_t\<close> or \<^verbatim>\<open>grub_addr_t\<close>.
  When the size is 0 the routine returns \<^verbatim>\<open>grub_errno\<close>, whatever it holds:
  the error the size routine recorded, or else the value the command was
  entered with, which is \<^verbatim>\<open>GRUB_ERR_NONE\<close> when no error is pending.
  A chunk that was granted is entered in the relocator.
\<close>

definition grub_linux_load32 ::
  "environment \<Rightarrow> elf_image \<Rightarrow> linux_state \<Rightarrow> grub_err_t \<times> linux_state" where
  "grub_linux_load32 env elf s =
     (let base = fst (grub_elf32_size elf);
          s = s\<lparr>entry_addr := ucast (e_entry32 elf)\<rparr>;
          s = s\<lparr>linux_size := snd (grub_elf32_size elf)\<rparr>
      in if linux_size s = 0
         then (let s = (case elf_size_error elf of None \<Rightarrow> s | Some e \<Rightarrow> reported e s)
               in (grub_errno s, s))
         else
           let s = s\<lparr>target_addr := ucast base\<rparr>;
               s = s\<lparr>linux_size := ALIGN_UP (ucast base + linux_size s - ucast base) 8\<rparr>
           in case grub_relocator_new env of
                Some e \<Rightarrow> (let s = reported e (s\<lparr>relocator := None\<rparr>) in (grub_errno s, s))
              | None \<Rightarrow>
                 let s = s\<lparr>relocator := Some []\<rparr>;
                     target = grub_vtop env (target_addr s)
                 in case grub_relocator_alloc_chunk_addr env target (linux_size s) of
                      Inl e \<Rightarrow> (GRUB_ERR (fst e), reported e s)
                    | Inr ch \<Rightarrow>
                       let s = s\<lparr>relocator := Some [Alloc_chunk_addr target (linux_size s)]\<rparr>;
                           playground = ch_addr ch
                       in case grub_elf32_load elf (playground - ucast base) of
                            Some e \<Rightarrow> (GRUB_ERR (fst e), reported e s)
                          | None \<Rightarrow> (GRUB_ERR_NONE, s))"

text \<open>\<^verbatim>\<open>grub_linux_load64\<close> (lines 115-147): the same with an \<^verbatim>\<open>Elf64_Addr\<close>.\<close>

definition grub_linux_load64 ::
  "environment \<Rightarrow> elf_image \<Rightarrow> linux_state \<Rightarrow> grub_err_t \<times> linux_state" where
  "grub_linux_load64 env elf s =
     (let base = fst (grub_elf64_size elf);
          s = s\<lparr>entry_addr := e_entry64 elf\<rparr>;
          s = s\<lparr>linux_size := snd (grub_elf64_size elf)\<rparr>
      in if linux_size s = 0
         then (let s = (case elf_size_error elf of None \<Rightarrow> s | Some e \<Rightarrow> reported e s)
               in (grub_errno s, s))
         else
           let s = s\<lparr>target_addr := base\<rparr>;
               s = s\<lparr>linux_size := ALIGN_UP (base + linux_size s - base) 8\<rparr>
           in case grub_relocator_new env of
                Some e \<Rightarrow> (let s = reported e (s\<lparr>relocator := None\<rparr>) in (grub_errno s, s))
              | None \<Rightarrow>
                 let s = s\<lparr>relocator := Some []\<rparr>;
                     target = grub_vtop env (target_addr s)
                 in case grub_relocator_alloc_chunk_addr env target (linux_size s) of
                      Inl e \<Rightarrow> (GRUB_ERR (fst e), reported e s)
                    | Inr ch \<Rightarrow>
                       let s = s\<lparr>relocator := Some [Alloc_chunk_addr target (linux_size s)]\<rparr>;
                           playground = ch_addr ch
                       in case grub_elf64_load elf (playground - base) of
                            Some e \<Rightarrow> (GRUB_ERR (fst e), reported e s)
                          | None \<Rightarrow> (GRUB_ERR_NONE, s))"

subsection \<open>The argument chunk\<close>

text \<open>
  The size computation of \<^verbatim>\<open>grub_cmd_linux\<close> (lines 178-197).  \<^verbatim>\<open>size\<close> is
  an \<^verbatim>\<open>int\<close>, every summand a \<^verbatim>\<open>grub_size_t\<close>: each sum is formed in 64
  bits and cut back to 32 on assignment, which is the 32-bit sum with the cut
  summand.  \<^verbatim>\<open>argc\<close> is the length of \<^verbatim>\<open>argv\<close>; the loop from 1 runs over
  its tail.
\<close>

definition rd_start_template :: string where
  "rd_start_template = ''rd_start=0xXXXXXXXXXXXXXXXX''"

definition rd_size_template :: string where
  "rd_size_template = ''rd_size=0xXXXXXXXXXXXXXXXX''"

definition linux_args_size :: "string list \<Rightarrow> 32 word" where
  "linux_args_size argv =
     (let argc = (of_nat (length argv) :: 32 word);
          size = ucast ((scast argc :: 64 word) * 4);
          size = size + ucast (2 * 4 :: 64 word);
          size = size + ucast (4 :: 64 word);
          size = size + ucast (ALIGN_UP (sizeof_str ''a0'') 4);
          size = fold (\<lambda>arg size. size + ucast (ALIGN_UP (grub_strlen arg + 1) 4)) (tl argv) size;
          size = size + ucast (ALIGN_UP (sizeof_str rd_start_template) 4);
          size = size + ucast (ALIGN_UP (sizeof_str rd_size_template) 4)
      in ALIGN_UP size 8)"

text \<open>
  The loop of lines 231-237.  \<open>argv_off\<close> and \<open>args_off\<close> are the pointers
  \<^verbatim>\<open>linux_argv\<close> and \<^verbatim>\<open>linux_args\<close> as offsets from \<^verbatim>\<open>linux_args_addr\<close>.
  The result is the two pointers after the loop and the state.
\<close>

fun copy_args ::
  "string list \<Rightarrow> 64 word \<Rightarrow> 64 word \<Rightarrow> linux_state \<Rightarrow> (64 word \<times> 64 word \<times> linux_state) option" where
  "copy_args [] argv_off args_off s = Some (argv_off, args_off, s)"
| "copy_args (arg # rest) argv_off args_off s =
     do {
       s \<leftarrow> grub_memcpy s args_off (cstring arg) (grub_strlen arg + 1);
       s \<leftarrow> store_u32 s argv_off (ucast (linux_args_addr s + args_off));
       copy_args rest (argv_off + 4) (args_off + ALIGN_UP (grub_strlen arg + 1) 4) s
     }"

text \<open>
  The construction of the pointer table and the strings (lines 223-250), in the
  chunk at \<^verbatim>\<open>linux_args_addr\<close>.  \<^verbatim>\<open>linux_argv + (linux_argc + 1 + 2)\<close> is
  pointer arithmetic on \<^verbatim>\<open>grub_uint32_t *\<close> with an \<^verbatim>\<open>int\<close>.
\<close>

definition build_args :: "string list \<Rightarrow> linux_state \<Rightarrow> linux_state option" where
  "build_args argv s =
     do {
       let argv_off = (0 :: 64 word);
       let args_off = argv_off + 4 * scast (linux_argc s + 1 + 2);
       s \<leftarrow> grub_memcpy s args_off (cstring ''a0'') (sizeof_str ''a0'');
       s \<leftarrow> store_u32 s argv_off (ucast (linux_args_addr s + args_off));
       let argv_off = argv_off + 4;
       let args_off = args_off + ALIGN_UP (sizeof_str ''a0'') 4;
       (argv_off, args_off, s) \<leftarrow> copy_args (tl argv) argv_off args_off s;
       let s = s\<lparr>rd_addr_arg_off := args_off\<rparr>;
       let args_off = args_off + ALIGN_UP (sizeof_str rd_start_template) 4;
       s \<leftarrow> store_u32 s argv_off 0;
       let argv_off = argv_off + 4;
       let s = s\<lparr>rd_size_arg_off := args_off\<rparr>;
       let args_off = args_off + ALIGN_UP (sizeof_str rd_size_template) 4;
       s \<leftarrow> store_u32 s argv_off 0;
       let argv_off = argv_off + 4;
       store_u32 s argv_off 0
     }"

subsection \<open>The linux command\<close>

text \<open>
  \<^verbatim>\<open>grub_cmd_linux\<close> (lines 149-258).  The chunk for the arguments is asked
  for with \<^verbatim>\<open>(0xffffffff - size) + 1\<close>, computed in \<^verbatim>\<open>unsigned int\<close> and
  widened, as the highest start address, and with the \<^verbatim>\<open>int\<close> \<^verbatim>\<open>size\<close>
  sign-extended to \<^verbatim>\<open>grub_size_t\<close> as its size.
\<close>

definition add_chunk :: "alloc_request \<Rightarrow> linux_state \<Rightarrow> linux_state" where
  "add_chunk req s = s\<lparr>relocator := map_option (\<lambda>chunks. chunks @ [req]) (relocator s)\<rparr>"

definition grub_cmd_linux ::
  "environment \<Rightarrow> string list \<Rightarrow> linux_state \<Rightarrow> (grub_err_t \<times> linux_state) option" where
  "grub_cmd_linux env argv s =
     (if length argv = 0
      then Some (grub_error GRUB_ERR_BAD_ARGUMENT ''filename expected'' s)
      else case grub_elf_open env (argv ! 0) of
        Inl e \<Rightarrow> (let s = reported e s in Some (grub_errno s, s))
      | Inr elf \<Rightarrow>
         if e_type elf \<noteq> ET_EXEC
         then Some (grub_error GRUB_ERR_UNKNOWN_OS ''this ELF file is not of the right type'' s)
         else
           let s = grub_loader_unset s;
               s = s\<lparr>loaded := False\<rparr>;
               s = s\<lparr>linux_argc := of_nat (length argv)\<rparr>;
               size = linux_args_size argv;
               (err, s) =
                  (if grub_elf_is_elf32 elf then grub_linux_load32 env elf s
                   else if grub_elf_is_elf64 elf then grub_linux_load64 env elf s
                   else grub_error GRUB_ERR_BAD_OS ''invalid arch-dependent ELF magic'' s)
           in if err \<noteq> GRUB_ERR_NONE then Some (err, s)
              else
                let max_addr = (ucast ((0xffffffff - size) + 1 :: 32 word) :: 64 word);
                    req = Alloc_chunk_align 0 max_addr (scast size) 8 GRUB_RELOCATOR_PREFERENCE_HIGH
                in case grub_relocator_alloc_chunk_align env 0 max_addr (scast size) 8
                          GRUB_RELOCATOR_PREFERENCE_HIGH of
                     Inl e \<Rightarrow> Some (GRUB_ERR (fst e), reported e s)
                   | Inr ch \<Rightarrow>
                      do {
                        let s = add_chunk req s;
                        let s = s\<lparr>linux_args_addr := ch_addr ch,
                                  args_chunk_size := unat (scast size :: 64 word),
                                  args_chunk_bytes := ch_bytes ch\<rparr>;
                        s \<leftarrow> build_args argv s;
                        let s = grub_loader_set s;
                        let s = s\<lparr>initrd_loaded := False\<rparr>;
                        let s = s\<lparr>loaded := True\<rparr>;
                        let s = s\<lparr>my_mod_refs := my_mod_refs s + 1\<rparr>;
                        Some (GRUB_ERR_NONE, s)
                      })"

subsection \<open>The initrd command\<close>

text \<open>
  Modelled from the spec: \<^verbatim>\<open>grub_snprintf\<close> lives in kern/misc.c, which is not
  among the sources.  The two calls format \<open>"rd_start=0x<hex>"\<close> and
  \<open>"rd_size=0x<hex>"\<close>: a prefix and the value in lower-case hexadecimal
  without leading zeros (the spec's example is \<open>"rd_size=0x1000"\<close>).  At most
  \<open>n\<close> bytes are stored, the terminator included.
\<close>

definition hex_digit :: "nat \<Rightarrow> char" where
  "hex_digit d = ''0123456789abcdef'' ! d"

function to_hex :: "nat \<Rightarrow> string" where
  "to_hex n = (if n < 16 then [hex_digit n] else to_hex (n div 16) @ [hex_digit (n mod 16)])"
  by pat_completeness auto
termination
  by (relation "measure id") auto

declare to_hex.simps [simp del]

definition grub_snprintf ::
  "linux_state \<Rightarrow> 64 word \<Rightarrow> 64 word \<Rightarrow> string \<Rightarrow> 64 word \<Rightarrow> linux_state option" where
  "grub_snprintf s dest n prefix val =
     (if n = 0 then Some s
      else write_bytes s dest (cstring (take (unat n - 1) (prefix @ to_hex (unat val)))))"

text \<open>
  The bound of the second \<^verbatim>\<open>grub_snprintf\<close> of \<^verbatim>\<open>grub_cmd_initrd\<close> is the
  \<^verbatim>\<open>sizeof\<close> of a literal with seventeen X (line 306).  \<open>fail\<close> is the
  label of that name: \<^verbatim>\<open>grub_initrd_close\<close> and the return of
  \<^verbatim>\<open>grub_errno\<close>.
\<close>

definition rd_size_bound_template :: string where
  "rd_size_bound_template = ''rd_size=0xXXXXXXXXXXXXXXXXX''"

definition fail :: "linux_state \<Rightarrow> (grub_err_t \<times> linux_state) option" where
  "fail s = Some (grub_errno s, s)"

text \<open>
  Lines 298-312: the two strings are formatted into the reserved regions, their
  addresses stored in the table at \<^verbatim>\<open>linux_argc\<close>, which is incremented after
  each store, and \<^verbatim>\<open>initrd_loaded\<close> is set.
\<close>

definition patch_rd_args :: "linux_state \<Rightarrow> 64 word \<Rightarrow> 64 word \<Rightarrow> linux_state option" where
  "patch_rd_args s initrd_dest sz =
     do {
       s \<leftarrow> grub_snprintf s (rd_addr_arg_off s) (sizeof_str rd_start_template)
              ''rd_start=0x'' initrd_dest;
       s \<leftarrow> store_u32 s (4 * scast (linux_argc s))
              (ucast (linux_args_addr s + rd_addr_arg_off s));
       let s = s\<lparr>linux_argc := linux_argc s + 1\<rparr>;
       s \<leftarrow> grub_snprintf s (rd_size_arg_off s) (sizeof_str rd_size_bound_template)
              ''rd_size=0x'' sz;
       s \<leftarrow> store_u32 s (4 * scast (linux_argc s))
              (ucast (linux_args_addr s + rd_size_arg_off s));
       let s = s\<lparr>linux_argc := linux_argc s + 1\<rparr>;
       let s = s\<lparr>initrd_loaded := True\<rparr>;
       Some s
     }"

text \<open>
  \<^verbatim>\<open>grub_cmd_initrd\<close> (lines 260-318).  \<^verbatim>\<open>size\<close> is a \<^verbatim>\<open>grub_size_t\<close>
  here, so the highest start address \<^verbatim>\<open>(0xffffffff - size) + 1\<close> is computed
  in 64 bits.
\<close>

definition grub_cmd_initrd ::
  "environment \<Rightarrow> string list \<Rightarrow> linux_state \<Rightarrow> (grub_err_t \<times> linux_state) option" where
  "grub_cmd_initrd env argv s =
     (if length argv = 0
      then Some (grub_error GRUB_ERR_BAD_ARGUMENT ''filename expected'' s)
      else if \<not> loaded s
      then Some (grub_error GRUB_ERR_BAD_ARGUMENT ''you need to load the kernel first'' s)
      else if initrd_loaded s
      then Some (grub_error GRUB_ERR_BAD_ARGUMENT ''only one initrd command can be issued.'' s)
      else case grub_initrd_init env argv of
        Inl e \<Rightarrow> fail (reported e s)
      | Inr initrd_size \<Rightarrow>
         let size = initrd_size;
             max_addr = (0xffffffff - size) + 1;
             req = Alloc_chunk_align 0 max_addr size 0x10000 GRUB_RELOCATOR_PREFERENCE_HIGH
         in case grub_relocator_alloc_chunk_align env 0 max_addr size 0x10000
                   GRUB_RELOCATOR_PREFERENCE_HIGH of
              Inl e \<Rightarrow> fail (reported e s)
            | Inr ch \<Rightarrow>
               let s = add_chunk req s;
                   initrd_dest = ch_addr ch
               in case grub_initrd_load env argv initrd_dest of
                    Some e \<Rightarrow> fail (reported e s)
                  | None \<Rightarrow>
                     do {
                       s \<leftarrow> patch_rd_args s initrd_dest size;
                       fail s
                     })"

section \<open>The layout the specification describes\<close>

text \<open>
  The size of the argument blob in the specification's words (section 4.2):
  the pointer table of \<open>cliArgsCount + 1 + 2\<close> slots of 4 bytes, the literal
  \<open>"a0"\<close>, the arguments from the second on, and the two reserved strings of a
  key, \<open>0x\<close> and 16 hexadecimal digits, each string with its terminator and
  aligned to 4, the total aligned to 8.
\<close>

definition blob_size_spec :: "string list \<Rightarrow> nat" where
  "blob_size_spec cliArgs =
     round_up
       ((length cliArgs + 1 + 2) * 4
        + round_up (length ''a0'' + 1) 4
        + (\<Sum>i = 1..<length cliArgs. round_up (length (cliArgs ! i) + 1) 4)
        + round_up (length ''rd_start=0x'' + 16 + 1) 4
        + round_up (length ''rd_size=0x'' + 16 + 1) 4) 8"

text \<open>
  The bytes a list of strings takes in the string table, the strings the table
  holds (the literal \<open>"a0"\<close> in place of the first argument), and the offset of
  the \<open>i\<close>-th of them from the start of the blob.  The offset with
  \<open>i = length argv\<close> is where the first reserved region starts.
\<close>

definition strings_bytes :: "string list \<Rightarrow> nat" where
  "strings_bytes as = (\<Sum>a\<leftarrow>as. round_up (length a + 1) 4)"

definition stored_args :: "string list \<Rightarrow> string list" where
  "stored_args argv = ''a0'' # tl argv"

definition string_offset :: "string list \<Rightarrow> nat \<Rightarrow> nat" where
  "string_offset argv i = 4 * (length argv + 1 + 2) + strings_bytes (take i (stored_args argv))"

section \<open>Example inputs\<close>

text \<open>
  A 64-bit executable image with the base and size of the specification's
  scenario, a relocator that grants every request (an aligned request at the
  highest permitted address that has the alignment asked for), an initrd of
  0x1000 bytes, and the module's state before any command.
\<close>

definition example_image :: elf_image where
  "example_image =
     \<lparr>e_type = ET_EXEC, e_entry32 = 0, e_entry64 = 0xffffffff80200000,
      grub_elf_is_elf32 = False, grub_elf_is_elf64 = True,
      grub_elf32_size = (0, 0), grub_elf64_size = (0x80010000, 0x20000),
      elf_size_error = None,
      grub_elf32_load = (\<lambda>off. None), grub_elf64_load = (\<lambda>off. None)\<rparr>"

definition example_env :: environment where
  "example_env =
     \<lparr>grub_elf_open = (\<lambda>name. Inr example_image),
      grub_relocator_new = None,
      grub_relocator_alloc_chunk_addr =
        (\<lambda>target size. Inr \<lparr>ch_target = target, ch_addr = target, ch_bytes = (\<lambda>i. 0)\<rparr>),
      grub_relocator_alloc_chunk_align =
        (\<lambda>min_addr max_addr size align pref.
           Inr \<lparr>ch_target = max_addr - of_nat (unat max_addr mod unat align),
                ch_addr = max_addr - of_nat (unat max_addr mod unat align),
                ch_bytes = (\<lambda>i. 0)\<rparr>),
      grub_vtop = (\<lambda>a. a),
      grub_initrd_init = (\<lambda>args. Inr 0x1000),
      grub_initrd_load = (\<lambda>args dest. None)\<rparr>"

definition initial_state :: linux_state where
  "initial_state =
     \<lparr>loaded = False, linux_size = 0, relocator = None, target_addr = 0, entry_addr = 0,
      linux_argc = 0, linux_args_addr = 0, rd_addr_arg_off = 0, rd_size_arg_off = 0,
      initrd_loaded = False, grub_errno = GRUB_ERR_NONE, grub_errmsg = [],
      loader_registered = False, my_mod_refs = 0,
      args_chunk_size = 0, args_chunk_bytes = (\<lambda>i. 0)\<rparr>"

definition example_argv :: "string list" where
  "example_argv = [''vmlinux'', ''console=tty'', ''ro'']"

text \<open>The same image marked as a shared object.\<close>

definition shared_image :: elf_image where
  "shared_image = example_image\<lparr>e_type := ET_DYN\<rparr>"

text \<open>
  What the two placement routines read from an image, by its width class: the
  entry address, the base and the span that the size routine computes.
\<close>

definition image_entry :: "elf_image \<Rightarrow> 64 word" where
  "image_entry elf = (if grub_elf_is_elf32 elf then ucast (e_entry32 elf) else e_entry64 elf)"

definition image_base :: "elf_image \<Rightarrow> 64 word" where
  "image_base elf =
     (if grub_elf_is_elf32 elf then ucast (fst (grub_elf32_size elf)) else fst (grub_elf64_size elf))"

definition image_span :: "elf_image \<Rightarrow> 64 word" where
  "image_span elf =
     (if grub_elf_is_elf32 elf then snd (grub_elf32_size elf) else snd (grub_elf64_size elf))"

text \<open>The request for the argument chunk of a given \<^verbatim>\<open>int\<close> size.\<close>

definition args_request :: "32 word \<Rightarrow> alloc_request" where
  "args_request sz =
     Alloc_chunk_align 0 (ucast ((0xffffffff - sz) + 1 :: 32 word)) (scast sz) 8
       GRUB_RELOCATOR_PREFERENCE_HIGH"

text \<open>
  A state without the parts that the construction of the blob writes (the
  bytes of the chunk and the two recorded offsets): what the construction
  leaves as it is.
\<close>

definition core :: "linux_state \<Rightarrow> linux_state" where
  "core s = s\<lparr>args_chunk_bytes := (\<lambda>i. 0), rd_addr_arg_off := 0, rd_size_arg_off := 0\<rparr>"

text \<open>
  The request for the initrd chunk of a given size, and the bytes of the blob
  after the two strings and the two table entries have been stored into it
  (\<open>n\<close> the argument count before, \<open>A\<close> the offset of the first reserved
  region, \<open>base\<close> the address of the blob).
\<close>

definition initrd_request :: "64 word \<Rightarrow> alloc_request" where
  "initrd_request sz =
     Alloc_chunk_align 0 ((0xffffffff - sz) + 1) sz 0x10000 GRUB_RELOCATOR_PREFERENCE_HIGH"

definition patched ::
  "(nat \<Rightarrow> 8 word) \<Rightarrow> 64 word \<Rightarrow> nat \<Rightarrow> nat \<Rightarrow> 64 word \<Rightarrow> 64 word \<Rightarrow> nat \<Rightarrow> 8 word" where
  "patched m base n A dest sz =
     poke (poke (poke (poke m A (cstring (''rd_start=0x'' @ to_hex (unat dest))))
                   (4 * n) (bytes_of_u32 (ucast (base + of_nat A))))
             (A + 28) (cstring (''rd_size=0x'' @ to_hex (unat sz))))
       (4 * n + 4) (bytes_of_u32 (ucast (base + of_nat (A + 28))))"

text \<open>
  The state after the linux command on the example inputs, and the state after
  the initrd command in that state.
\<close>

definition example_loaded :: linux_state where
  "example_loaded = snd (the (grub_cmd_linux example_env example_argv initial_state))"

definition example_attached :: linux_state where
  "example_attached = snd (the (grub_cmd_initrd example_env [''initrd.img''] example_loaded))"

text \<open>
  An argument sequence whose second string has 4294967292 characters, so that
  the sum of the string sizes passes \<open>2 ^ 32\<close>.
\<close>

definition long_argv :: "string list" where
  "long_argv = [''vmlinux'', replicate 4294967292 (CHR ''x'')]"

text \<open>
  The example environment with an initrd helper that cannot open its file,
  with a relocator that grants no request by range, and with an initrd of
  0x100010000 bytes that the relocator places at 0x200000000.
\<close>

definition unreadable_env :: environment where
  "unreadable_env =
     example_env\<lparr>grub_initrd_init := (\<lambda>args. Inl (OTHER_ERROR 1, ''file not found''))\<rparr>"

definition full_env :: environment where
  "full_env =
     example_env\<lparr>grub_relocator_alloc_chunk_align :=
        (\<lambda>min_addr max_addr size align pref. Inl (OTHER_ERROR 2, ''out of memory''))\<rparr>"

definition high_chunk :: chunk where
  "high_chunk = \<lparr>ch_target = 0x200000000, ch_addr = 0x200000000, ch_bytes = (\<lambda>i. 0)\<rparr>"

definition big_env :: environment where
  "big_env =
     example_env\<lparr>grub_initrd_init := (\<lambda>args. Inr 0x100010000),
       grub_relocator_alloc_chunk_align :=
        (\<lambda>min_addr max_addr size align pref. Inr high_chunk)\<rparr>"

text \<open>
  A 32-bit executable image with the same base and span as \<open>example_image\<close>,
  and the example environment opening it.
\<close>

definition example_image32 :: elf_image where
  "example_image32 =
     \<lparr>e_type = ET_EXEC, e_entry32 = 0x80200000, e_entry64 = 0,
      grub_elf_is_elf32 = True, grub_elf_is_elf64 = False,
      grub_elf32_size = (0x80010000, 0x20000), grub_elf64_size = (0, 0),
      elf_size_error = None,
      grub_elf32_load = (\<lambda>off. None), grub_elf64_load = (\<lambda>off. None)\<rparr>"

definition example_env32 :: environment where
  "example_env32 = example_env\<lparr>grub_elf_open := (\<lambda>name. Inr example_image32)\<rparr>"

text \<open>
  The example environment with a relocator that places a chunk asked for by
  range as \<open>example_env\<close> does and hands out a pointer to it in the 64-bit
  unmapped segment (the target address plus 0x9800000000000000), the chunk it
  grants for the example arguments, and the state after the linux command with
  it.
\<close>

definition mapped_env :: environment where
  "mapped_env =
     example_env\<lparr>grub_relocator_alloc_chunk_align :=
        (\<lambda>min_addr max_addr size align pref.
           Inr \<lparr>ch_target = max_addr - of_nat (unat max_addr mod unat align),
                ch_addr = 0x9800000000000000 + (max_addr - of_nat (unat max_addr mod unat align)),
                ch_bytes = (\<lambda>i. 0)\<rparr>)\<rparr>"

definition mapped_chunk :: chunk where
  "mapped_chunk =
     \<lparr>ch_target = 0xffffff98, ch_addr = 0x98000000ffffff98, ch_bytes = (\<lambda>i. 0)\<rparr>"

definition mapped_loaded :: linux_state where
  "mapped_loaded = snd (the (grub_cmd_linux mapped_env example_argv initial_state))"

text \<open>
  An executable image without segments, for which the size routine returns 0:
  once with an error recorded, once with nothing recorded.
\<close>

definition empty_image :: elf_image where
  "empty_image =
     example_image\<lparr>grub_elf64_size := (0, 0),
       elf_size_error := Some (BAD_OS, ''no program headers present'')\<rparr>"

definition empty_env :: environment where
  "empty_env = example_env\<lparr>grub_elf_open := (\<lambda>name. Inr empty_image)\<rparr>"

definition silent_image :: elf_image where
  "silent_image = example_image\<lparr>grub_elf64_size := (0, 0)\<rparr>"

definition silent_env :: environment where
  "silent_env = example_env\<lparr>grub_elf_open := (\<lambda>name. Inr silent_image)\<rparr>"

section \<open>Rounding, words and stores\<close>

lemma round_up_split:
  "0 < a \<Longrightarrow> round_up n a + (n + a - 1) mod a = n + a - 1"
  unfolding round_up_def by (simp add: div_mult_mod_eq)

lemma round_up_ge: "0 < a \<Longrightarrow> n \<le> round_up n a"
proof -
  assume a: "0 < a"
  have "(n + a - 1) mod a < a" using a by simp
  with round_up_split [OF a, of n] show ?thesis by linarith
qed

lemma round_up_less: "0 < a \<Longrightarrow> round_up n a < n + a"
  using round_up_split [of a n] by linarith

lemma round_up_dvd: "a dvd round_up n a"
  by (simp add: round_up_def)

lemma round_up_4_mono: "round_up n 4 \<le> m \<Longrightarrow> n \<le> m"
  using round_up_ge [of 4 n] by simp

lemma unat_ALIGN_UP:
  "round_up (unat x) a < 2 ^ LENGTH('a) \<Longrightarrow> unat (ALIGN_UP x a :: 'a::len word) = round_up (unat x) a"
  by (simp add: ALIGN_UP_def unat_of_nat)

lemma ALIGN_UP_of_nat:
  "n < 2 ^ LENGTH('a) \<Longrightarrow> ALIGN_UP (of_nat n :: 'a::len word) a = of_nat (round_up n a)"
  by (simp add: ALIGN_UP_def unat_of_nat)

lemma poke_outside: "i < n \<or> n + length bs \<le> i \<Longrightarrow> poke m n bs i = m i"
  by (auto simp: poke_def)

lemma poke_inside: "i < length bs \<Longrightarrow> poke m n bs (n + i) = bs ! i"
  by (simp add: poke_def)

lemma u32_digits:
  assumes "x < 4294967296"
  shows "x mod 256 + 256 * (x div 256 mod 256) + 65536 * (x div 65536 mod 256)
     + 16777216 * (x div 16777216 mod 256) = (x::nat)"
proof -
  define a where "a = x div 256"
  define b where "b = a div 256"
  define c where "c = b div 256"
  have 1: "x = 256 * a + x mod 256" unfolding a_def by simp
  have 2: "a = 256 * b + a mod 256" unfolding b_def by simp
  have 3: "b = 256 * c + b mod 256" unfolding c_def by simp
  have db: "x div 65536 = b" unfolding b_def a_def by (simp add: div_mult2_eq [symmetric])
  have dc: "x div 16777216 = c" unfolding c_def b_def a_def by (simp add: div_mult2_eq [symmetric])
  have "c < 256" using assms unfolding dc [symmetric] by (simp add: less_mult_imp_div_less)
  then have 4: "c mod 256 = c" by simp
  show ?thesis
    unfolding db dc 4 a_def [symmetric] using 1 2 3 by linarith
qed

lemma unat_byte: "unat (of_nat (k mod 256) :: 8 word) = k mod 256"
  by (simp add: unat_of_nat)

lemma load_u32_bytes_of_u32:
  "load_u32 (poke m n (bytes_of_u32 v)) n = v"
proof -
  have lt: "unat v < 4294967296" using unsigned_less [of v, where 'a = nat] by simp
  have b: "poke m n (bytes_of_u32 v) (n + j) = bytes_of_u32 v ! j" if "j < 4" for j
    using that by (simp add: poke_inside bytes_of_u32_def)
  have p0: "unat (poke m n (bytes_of_u32 v) n) = unat v mod 256"
    using b [of 0] by (simp add: bytes_of_u32_def unat_byte)
  have p1: "unat (poke m n (bytes_of_u32 v) (n + 1)) = unat v div 256 mod 256"
    using b [of 1] by (simp add: bytes_of_u32_def unat_byte)
  have p2: "unat (poke m n (bytes_of_u32 v) (n + 2)) = unat v div 65536 mod 256"
    using b [of 2] by (simp add: bytes_of_u32_def unat_byte del: mod_div_trivial)
  have p3: "unat (poke m n (bytes_of_u32 v) (n + 3)) = unat v div 16777216 mod 256"
    using b [of 3] by (simp only: bytes_of_u32_def unat_byte nth_Cons_numeral nth_Cons_0 numeral_3_eq_3 nth_Cons_Suc)
  have "load_u32 (poke m n (bytes_of_u32 v)) n = of_nat (unat v)"
    unfolding load_u32_def p0 p1 p2 p3 u32_digits [OF lt] ..
  then show ?thesis by simp
qed

lemma load_u32_cong:
  "(\<And>j. j < 4 \<Longrightarrow> m' (i + j) = m (i + j)) \<Longrightarrow> load_u32 m' i = load_u32 m i"
proof -
  assume h: "\<And>j. j < 4 \<Longrightarrow> m' (i + j) = m (i + j)"
  show ?thesis
    unfolding load_u32_def using h [of 0] h [of 1] h [of 2] h [of 3] by simp
qed

lemma length_cstring: "length (cstring a) = length a + 1"
  by (simp add: cstring_def)

lemma string_at_iff:
  "string_at m i a \<longleftrightarrow> (\<forall>j \<le> length a. m (i + j) = cstring a ! j)"
proof -
  have nth: "map m [i ..< i + length a + 1] ! j = m (i + j)" if "j < length a + 1" for j
    using that by (simp del: upt_Suc)
  have "string_at m i a \<longleftrightarrow> (\<forall>j < length a + 1. map m [i ..< i + length a + 1] ! j = cstring a ! j)"
    unfolding string_at_def by (simp add: list_eq_iff_nth_eq length_cstring del: upt_Suc)
  also have "\<dots> \<longleftrightarrow> (\<forall>j < length a + 1. m (i + j) = cstring a ! j)"
    using nth by (metis (no_types, lifting))
  finally show ?thesis by (simp add: less_Suc_eq_le)
qed

lemma string_at_poke: "string_at (poke m n (cstring a)) n a"
  by (simp add: string_at_iff poke_inside length_cstring)

lemma string_at_cong:
  "(\<And>j. j \<le> length a \<Longrightarrow> m' (i + j) = m (i + j)) \<Longrightarrow> string_at m' i a = string_at m i a"
  by (simp add: string_at_iff)

lemma strings_bytes_simps [simp]:
  "strings_bytes [] = 0"
  "strings_bytes (a # as) = round_up (length a + 1) 4 + strings_bytes as"
  by (simp_all add: strings_bytes_def)

lemma unat_of_nat64: "n < 2 ^ 64 \<Longrightarrow> unat (of_nat n :: 64 word) = n"
  by (simp add: unat_of_nat)

lemma write_bytes_Some:
  "n + length bs \<le> args_chunk_size s \<Longrightarrow> args_chunk_size s < 2 ^ 64 \<Longrightarrow>
   write_bytes s (of_nat n) bs = Some (s\<lparr>args_chunk_bytes := poke (args_chunk_bytes s) n bs\<rparr>)"
  by (simp add: write_bytes_def unat_of_nat64)

lemma length_bytes_of_u32: "length (bytes_of_u32 v) = 4"
  by (simp add: bytes_of_u32_def)

lemma store_u32_Some:
  "n + 4 \<le> args_chunk_size s \<Longrightarrow> args_chunk_size s < 2 ^ 64 \<Longrightarrow>
   store_u32 s (of_nat n) v = Some (s\<lparr>args_chunk_bytes := poke (args_chunk_bytes s) n (bytes_of_u32 v)\<rparr>)"
  by (simp add: store_u32_def write_bytes_Some length_bytes_of_u32)

lemma strlen_plus_1: "grub_strlen a + 1 = of_nat (length a + 1)"
  by (simp add: grub_strlen_def)

lemma grub_memcpy_cstring:
  assumes "n + (length a + 1) \<le> args_chunk_size s" "args_chunk_size s < 2 ^ 64"
  shows "grub_memcpy s (of_nat n) (cstring a) (grub_strlen a + 1)
         = Some (s\<lparr>args_chunk_bytes := poke (args_chunk_bytes s) n (cstring a)\<rparr>)"
proof -
  have "length a + 1 < 2 ^ 64" using assms by linarith
  then have "unat (grub_strlen a + 1) = length a + 1"
    unfolding strlen_plus_1 by (rule unat_of_nat64)
  then have "take (unat (grub_strlen a + 1)) (cstring a) = cstring a"
    by (simp add: length_cstring)
  then show ?thesis
    unfolding grub_memcpy_def using assms by (simp add: write_bytes_Some length_cstring)
qed

lemma ALIGN_UP_strlen:
  assumes "length a + 1 < 2 ^ 64"
  shows "ALIGN_UP (grub_strlen a + 1) 4 = (of_nat (round_up (length a + 1) 4) :: 64 word)"
  unfolding strlen_plus_1 using assms by (intro ALIGN_UP_of_nat) simp

lemma copy_args_step:
  assumes "pv + 4 \<le> ps" "ps + round_up (length a + 1) 4 \<le> args_chunk_size s"
    "args_chunk_size s < 2 ^ 64"
  shows "copy_args (a # rest) (of_nat pv) (of_nat ps) s =
         copy_args rest (of_nat (pv + 4)) (of_nat (ps + round_up (length a + 1) 4))
           (s\<lparr>args_chunk_bytes :=
               poke (poke (args_chunk_bytes s) ps (cstring a)) pv
                 (bytes_of_u32 (ucast (linux_args_addr s + of_nat ps)))\<rparr>)"
proof -
  have ge: "length a + 1 \<le> round_up (length a + 1) 4" by (rule round_up_ge) simp
  have m: "grub_memcpy s (of_nat ps) (cstring a) (grub_strlen a + 1)
         = Some (s\<lparr>args_chunk_bytes := poke (args_chunk_bytes s) ps (cstring a)\<rparr>)"
    using assms ge by (intro grub_memcpy_cstring) linarith+
  have al: "ALIGN_UP (grub_strlen a + 1) 4 = (of_nat (round_up (length a + 1) 4) :: 64 word)"
    using assms ge by (intro ALIGN_UP_strlen) linarith
  show ?thesis
    using assms by (simp add: m al store_u32_Some)
qed

lemma copy_args_layout:
  assumes "pv + 4 * length as \<le> ps"
      and "ps + strings_bytes as \<le> args_chunk_size s"
      and "args_chunk_size s < 2 ^ 64"
  shows "\<exists>m'. copy_args as (of_nat pv) (of_nat ps) s =
            Some (of_nat (pv + 4 * length as), of_nat (ps + strings_bytes as),
                  s\<lparr>args_chunk_bytes := m'\<rparr>)
         \<and> (\<forall>i. i < pv \<or> (pv + 4 * length as \<le> i \<and> i < ps) \<or> ps + strings_bytes as \<le> i
               \<longrightarrow> m' i = args_chunk_bytes s i)
         \<and> (\<forall>k < length as.
               load_u32 m' (pv + 4 * k)
                 = ucast (linux_args_addr s + of_nat (ps + strings_bytes (take k as)))
               \<and> string_at m' (ps + strings_bytes (take k as)) (as ! k))"
  using assms
proof (induction as arbitrary: pv ps s)
  case Nil
  have "s = s\<lparr>args_chunk_bytes := args_chunk_bytes s\<rparr>" by simp
  then show ?case by (intro exI [of _ "args_chunk_bytes s"]) simp
next
  case (Cons a rest)
  let ?r = "round_up (length a + 1) 4"
  let ?v = "ucast (linux_args_addr s + of_nat ps) :: 32 word"
  let ?m2 = "poke (poke (args_chunk_bytes s) ps (cstring a)) pv (bytes_of_u32 ?v)"
  let ?s2 = "s\<lparr>args_chunk_bytes := ?m2\<rparr>"
  have ge: "length a + 1 \<le> ?r" by (rule round_up_ge) simp
  have step: "copy_args (a # rest) (of_nat pv) (of_nat ps) s =
              copy_args rest (of_nat (pv + 4)) (of_nat (ps + ?r)) ?s2"
    using Cons.prems by (intro copy_args_step) simp_all
  have "\<exists>m'. copy_args rest (of_nat (pv + 4)) (of_nat (ps + ?r)) ?s2 =
            Some (of_nat (pv + 4 + 4 * length rest), of_nat (ps + ?r + strings_bytes rest),
                  ?s2\<lparr>args_chunk_bytes := m'\<rparr>)
         \<and> (\<forall>i. i < pv + 4 \<or> (pv + 4 + 4 * length rest \<le> i \<and> i < ps + ?r)
                  \<or> ps + ?r + strings_bytes rest \<le> i
               \<longrightarrow> m' i = args_chunk_bytes ?s2 i)
         \<and> (\<forall>k < length rest.
               load_u32 m' (pv + 4 + 4 * k)
                 = ucast (linux_args_addr ?s2 + of_nat (ps + ?r + strings_bytes (take k rest)))
               \<and> string_at m' (ps + ?r + strings_bytes (take k rest)) (rest ! k))"
    using Cons.prems by (intro Cons.IH) simp_all
  then obtain m' where
    run: "copy_args rest (of_nat (pv + 4)) (of_nat (ps + ?r)) ?s2 =
            Some (of_nat (pv + 4 + 4 * length rest), of_nat (ps + ?r + strings_bytes rest),
                  ?s2\<lparr>args_chunk_bytes := m'\<rparr>)"
    and frame: "\<And>i. i < pv + 4 \<or> (pv + 4 + 4 * length rest \<le> i \<and> i < ps + ?r)
                  \<or> ps + ?r + strings_bytes rest \<le> i \<Longrightarrow> m' i = ?m2 i"
    and slots: "\<And>k. k < length rest \<Longrightarrow>
               load_u32 m' (pv + 4 + 4 * k)
                 = ucast (linux_args_addr s + of_nat (ps + ?r + strings_bytes (take k rest)))
               \<and> string_at m' (ps + ?r + strings_bytes (take k rest)) (rest ! k)"
    by auto
  have res: "copy_args (a # rest) (of_nat pv) (of_nat ps) s =
            Some (of_nat (pv + 4 * length (a # rest)), of_nat (ps + strings_bytes (a # rest)),
                  s\<lparr>args_chunk_bytes := m'\<rparr>)"
    unfolding step run by (simp add: add.assoc)
  have fr: "m' i = args_chunk_bytes s i"
    if "i < pv \<or> (pv + 4 * length (a # rest) \<le> i \<and> i < ps) \<or> ps + strings_bytes (a # rest) \<le> i" for i
  proof -
    have "m' i = ?m2 i" using that by (intro frame) auto
    also have "\<dots> = args_chunk_bytes s i"
      using that Cons.prems ge by (auto simp: poke_outside length_bytes_of_u32 length_cstring)
    finally show ?thesis .
  qed
  have s0: "load_u32 m' pv = ?v"
  proof -
    have "load_u32 m' pv = load_u32 ?m2 pv"
      by (rule load_u32_cong) (simp add: frame)
    then show ?thesis by (simp add: load_u32_bytes_of_u32)
  qed
  have st0: "string_at m' ps a"
  proof -
    have "m' (ps + j) = poke (args_chunk_bytes s) ps (cstring a) (ps + j)" if "j \<le> length a" for j
    proof -
      have "m' (ps + j) = ?m2 (ps + j)" using that Cons.prems ge by (intro frame) auto
      also have "\<dots> = poke (args_chunk_bytes s) ps (cstring a) (ps + j)"
        using Cons.prems by (intro poke_outside) (simp add: length_bytes_of_u32)
      finally show ?thesis .
    qed
    then have "string_at m' ps a = string_at (poke (args_chunk_bytes s) ps (cstring a)) ps a"
      by (rule string_at_cong)
    then show ?thesis by (simp add: string_at_poke)
  qed
  have sl: "load_u32 m' (pv + 4 * k)
                 = ucast (linux_args_addr s + of_nat (ps + strings_bytes (take k (a # rest))))
               \<and> string_at m' (ps + strings_bytes (take k (a # rest))) ((a # rest) ! k)"
    if "k < length (a # rest)" for k
  proof (cases k)
    case 0
    then show ?thesis using s0 st0 by simp
  next
    case (Suc k')
    then show ?thesis using slots [of k'] that by (simp add: add.assoc)
  qed
  show ?case using res fr sl by blast
qed

lemma ucast_of_nat_64_32: "k < 2 ^ 64 \<Longrightarrow> (ucast (of_nat k :: 64 word) :: 32 word) = of_nat k"
  by (simp add: unsigned_of_nat take_bit_nat_eq_self)

lemma scast_of_nat_32_64: "n < 2 ^ 31 \<Longrightarrow> (scast (of_nat n :: 32 word) :: 64 word) = of_nat n"
  by (simp add: signed_of_nat signed_take_bit_int_eq_self)

lemma sint_of_nat_32: "n < 2 ^ 31 \<Longrightarrow> sint (of_nat n :: 32 word) = int n"
  by (simp add: signed_of_nat signed_take_bit_int_eq_self)

lemma sum_tl: "(\<Sum>i = 1..<length xs. f (xs ! i)) = sum_list (map f (tl xs))"
proof (cases xs)
  case Nil
  then show ?thesis by simp
next
  case (Cons x ys)
  have "sum_list (map f ys) = (\<Sum>i = 0..<length ys. f (ys ! i))"
    by (simp add: sum_list_sum_nth)
  also have "\<dots> = (\<Sum>i = 0..<length ys. f ((x # ys) ! Suc i))"
    by simp
  also have "\<dots> = (\<Sum>i = Suc 0..<Suc (length ys). f ((x # ys) ! i))"
    by (rule sum.shift_bounds_Suc_ivl [symmetric])
  finally show ?thesis using Cons by simp
qed

lemma round_up_consts:
  "round_up 3 4 = 4" "round_up 27 4 = 28" "round_up 28 4 = 28"
  "round_up (Suc (Suc (Suc 0))) 4 = 4"
  by (simp_all add: round_up_def)

lemma blob_size_spec_eq:
  "blob_size_spec argv = round_up (4 * length argv + 72 + strings_bytes (tl argv)) 8"
proof -
  have s: "(\<Sum>i = 1..<length argv. round_up (length (argv ! i) + 1) 4) = strings_bytes (tl argv)"
    unfolding strings_bytes_def by (rule sum_tl [of "\<lambda>a. round_up (length a + 1) 4"])
  have "(length argv + 1 + 2) * 4 + round_up (length ''a0'' + 1) 4 + strings_bytes (tl argv)
        + round_up (length ''rd_start=0x'' + 16 + 1) 4 + round_up (length ''rd_size=0x'' + 16 + 1) 4
        = 4 * length argv + 72 + strings_bytes (tl argv)"
    by (simp add: round_up_consts)
  then show ?thesis unfolding blob_size_spec_def s by (rule arg_cong)
qed

lemma strings_bytes_member:
  "a \<in> set as \<Longrightarrow> length a + 1 \<le> strings_bytes as"
proof (induction as)
  case Nil
  then show ?case by simp
next
  case (Cons b bs)
  have "length b + 1 \<le> round_up (length b + 1) 4" by (rule round_up_ge) simp
  with Cons show ?case by auto
qed

lemma fold_size:
  assumes "strings_bytes as < 2 ^ 64"
  shows "fold (\<lambda>arg size. size + ucast (ALIGN_UP (grub_strlen arg + 1) 4)) as (w :: 32 word)
         = w + of_nat (strings_bytes as)"
  using assms
proof (induction as arbitrary: w)
  case Nil
  then show ?case by simp
next
  case (Cons a as)
  have ge: "length a + 1 \<le> round_up (length a + 1) 4" by (rule round_up_ge) simp
  have al: "ALIGN_UP (grub_strlen a + 1) 4 = (of_nat (round_up (length a + 1) 4) :: 64 word)"
    using Cons.prems ge by (intro ALIGN_UP_strlen) simp
  have uc: "(ucast (of_nat (round_up (length a + 1) 4) :: 64 word) :: 32 word)
            = of_nat (round_up (length a + 1) 4)"
    using Cons.prems by (intro ucast_of_nat_64_32) simp
  have sb: "strings_bytes as < 2 ^ 64" using Cons.prems by simp
  let ?f = "\<lambda>arg size. size + (ucast (ALIGN_UP (grub_strlen arg + 1) 4) :: 32 word)"
  have "fold ?f (a # as) w = fold ?f as (w + ucast (ALIGN_UP (grub_strlen a + 1) 4))"
    by simp
  also have "\<dots> = fold ?f as (w + of_nat (round_up (length a + 1) 4))"
    unfolding al uc ..
  also have "\<dots> = w + of_nat (round_up (length a + 1) 4) + of_nat (strings_bytes as)"
    using sb by (rule Cons.IH)
  finally show ?case by (simp add: add.assoc)
qed

lemma linux_args_size_of_nat:
  assumes "blob_size_spec argv < 2 ^ 31"
  shows "linux_args_size argv = of_nat (blob_size_spec argv)"
proof -
  let ?N = "4 * length argv + 72 + strings_bytes (tl argv)"
  have N: "?N \<le> blob_size_spec argv"
    unfolding blob_size_spec_eq by (rule round_up_ge) simp
  have n31: "length argv < 2 ^ 31" using N assms by simp
  have sb: "strings_bytes (tl argv) < 2 ^ 64" using N assms by simp
  have argc: "(scast (of_nat (length argv) :: 32 word) :: 64 word) = of_nat (length argv)"
    using n31 by (rule scast_of_nat_32_64)
  have m4: "(ucast (of_nat (length argv) * 4 :: 64 word) :: 32 word) = of_nat (4 * length argv)"
    using ucast_of_nat_64_32 [of "4 * length argv"] n31 by (simp add: mult.commute)
  have a0: "ALIGN_UP (sizeof_str ''a0'') 4 = (4 :: 64 word)"
    by (simp add: ALIGN_UP_def sizeof_str_def round_up_def)
  have rs: "ALIGN_UP (sizeof_str rd_start_template) 4 = (28 :: 64 word)"
    by (simp add: ALIGN_UP_def sizeof_str_def round_up_def rd_start_template_def)
  have rz: "ALIGN_UP (sizeof_str rd_size_template) 4 = (28 :: 64 word)"
    by (simp add: ALIGN_UP_def sizeof_str_def round_up_def rd_size_template_def)
  have u: "(ucast (2 * 4 :: 64 word) :: 32 word) = 8" "(ucast (4 :: 64 word) :: 32 word) = 4"
    "(ucast (28 :: 64 word) :: 32 word) = 28"
    by simp_all
  have e: "(of_nat (4 * length argv) :: 32 word) + 8 + 4 + 4 + of_nat (strings_bytes (tl argv)) + 28 + 28
           = of_nat ?N"
    by simp
  have "linux_args_size argv = ALIGN_UP (of_nat ?N :: 32 word) 8"
    unfolding linux_args_size_def Let_def argc m4 a0 rs rz fold_size [OF sb] u e ..
  also have "\<dots> = of_nat (round_up ?N 8)"
    using N assms by (intro ALIGN_UP_of_nat) simp
  finally show ?thesis by (simp add: blob_size_spec_eq)
qed

section \<open>The construction of the blob\<close>

lemma length_stored_args: "argv \<noteq> [] \<Longrightarrow> length (stored_args argv) = length argv"
  by (cases argv) (simp_all add: stored_args_def)

lemma strings_bytes_stored: "strings_bytes (stored_args argv) = 4 + strings_bytes (tl argv)"
  by (simp add: stored_args_def round_up_consts)

lemma sizeof_str_strlen: "sizeof_str a = grub_strlen a + 1"
  by (simp add: sizeof_str_def grub_strlen_def)

lemma rd_templates:
  "ALIGN_UP (sizeof_str rd_start_template) 4 = (28 :: 64 word)"
  "ALIGN_UP (sizeof_str rd_size_template) 4 = (28 :: 64 word)"
  by (simp_all add: ALIGN_UP_def sizeof_str_def round_up_def rd_start_template_def rd_size_template_def)

lemma build_args_copy:
  "build_args argv s =
     do {
       (argv_off, args_off, s) \<leftarrow> copy_args (stored_args argv) 0 (4 * scast (linux_argc s + 1 + 2)) s;
       let s = s\<lparr>rd_addr_arg_off := args_off\<rparr>;
       s \<leftarrow> store_u32 s argv_off 0;
       let s = s\<lparr>rd_size_arg_off := args_off + 28\<rparr>;
       s \<leftarrow> store_u32 s (argv_off + 4) 0;
       store_u32 s (argv_off + 4 + 4) 0
     }"
proof -
  have a0: "sizeof_str ''a0'' = grub_strlen ''a0'' + 1" by (rule sizeof_str_strlen)
  show ?thesis
    by (simp add: build_args_def stored_args_def rd_templates a0 add.assoc Let_def)
qed

lemma argc_table:
  assumes "linux_argc s = of_nat n" "n + 3 < 2 ^ 31"
  shows "(4 * scast (linux_argc s + 1 + 2) :: 64 word) = of_nat (4 * (n + 1 + 2))"
proof -
  have e1: "linux_argc s + 1 + 2 = of_nat (n + 3)" using assms by simp
  have e2: "(scast (of_nat (n + 3) :: 32 word) :: 64 word) = of_nat (n + 3)"
    using assms by (intro scast_of_nat_32_64) simp
  have "4 * (of_nat (n + 3) :: 64 word) = of_nat (4 * (n + 1 + 2))" by simp
  then show ?thesis unfolding e1 e2 .
qed

lemma load_u32_zero: "load_u32 (poke m n (bytes_of_u32 0)) n = 0"
  by (rule load_u32_bytes_of_u32)

lemma build_args_layout:
  assumes argv: "argv \<noteq> []"
      and argc: "linux_argc s = of_nat (length argv)"
      and size: "args_chunk_size s = blob_size_spec argv"
      and bound: "blob_size_spec argv < 2 ^ 31"
  shows "\<exists>m'. build_args argv s =
            Some (s\<lparr>rd_addr_arg_off := of_nat (string_offset argv (length argv)),
                    rd_size_arg_off := of_nat (string_offset argv (length argv) + 28),
                    args_chunk_bytes := m'\<rparr>)
         \<and> (\<forall>k < length argv.
               load_u32 m' (4 * k) = ucast (linux_args_addr s + of_nat (string_offset argv k))
               \<and> string_at m' (string_offset argv k) (stored_args argv ! k))
         \<and> load_u32 m' (4 * length argv) = 0
         \<and> load_u32 m' (4 * (length argv + 1)) = 0
         \<and> load_u32 m' (4 * (length argv + 2)) = 0
         \<and> (\<forall>i. string_offset argv (length argv) \<le> i \<longrightarrow> m' i = args_chunk_bytes s i)"
proof -
  define n where "n = length argv"
  define tb where "tb = 4 * (n + 1 + 2)"
  define A where "A = string_offset argv n"
  define S where "S = strings_bytes (stored_args argv)"
  define T where "T = blob_size_spec argv"
  have T: "tb + S + 56 \<le> T"
  proof -
    have "4 * n + 72 + strings_bytes (tl argv) \<le> T"
      unfolding blob_size_spec_eq T_def n_def by (rule round_up_ge) simp
    then show ?thesis unfolding tb_def S_def strings_bytes_stored by simp
  qed
  have T31: "T < 2 ^ 31" using bound by (simp add: T_def)
  have len: "length (stored_args argv) = n" unfolding n_def using argv by (rule length_stored_args)
  have A: "A = tb + S"
    by (simp add: A_def string_offset_def len tb_def S_def n_def)
  have off: "string_offset argv k = tb + strings_bytes (take k (stored_args argv))" for k
    by (simp add: string_offset_def tb_def n_def)
  have tb: "(4 * scast (linux_argc s + 1 + 2) :: 64 word) = of_nat tb"
    unfolding tb_def using argc T T31 by (intro argc_table) (simp_all add: n_def tb_def)
  have "\<exists>m'. copy_args (stored_args argv) (of_nat 0) (of_nat tb) s =
            Some (of_nat (0 + 4 * length (stored_args argv)), of_nat (tb + S),
                  s\<lparr>args_chunk_bytes := m'\<rparr>)
         \<and> (\<forall>i. i < 0 \<or> (0 + 4 * length (stored_args argv) \<le> i \<and> i < tb) \<or> tb + S \<le> i
               \<longrightarrow> m' i = args_chunk_bytes s i)
         \<and> (\<forall>k < length (stored_args argv).
               load_u32 m' (0 + 4 * k)
                 = ucast (linux_args_addr s + of_nat (tb + strings_bytes (take k (stored_args argv))))
               \<and> string_at m' (tb + strings_bytes (take k (stored_args argv))) (stored_args argv ! k))"
    unfolding S_def
    using T T31 size len by (intro copy_args_layout) (simp_all add: T_def S_def tb_def)
  then obtain m1 where
    run: "copy_args (stored_args argv) 0 (of_nat tb) s =
            Some (of_nat (4 * n), of_nat A, s\<lparr>args_chunk_bytes := m1\<rparr>)"
    and frame: "\<And>i. A \<le> i \<Longrightarrow> m1 i = args_chunk_bytes s i"
    and slots: "\<And>k. k < n \<Longrightarrow>
               load_u32 m1 (4 * k) = ucast (linux_args_addr s + of_nat (string_offset argv k))
               \<and> string_at m1 (string_offset argv k) (stored_args argv ! k)"
    unfolding len off A by auto
  let ?z = "bytes_of_u32 0"
  let ?m2 = "poke m1 (4 * n) ?z"
  let ?m3 = "poke ?m2 (4 * n + 4) ?z"
  let ?m4 = "poke ?m3 (4 * n + 8) ?z"
  have sz: "args_chunk_size s = T" using size by (simp add: T_def)
  have a1: "(of_nat (4 * n) :: 64 word) + 4 = of_nat (4 * n + 4)" by simp
  have a2: "8 + (of_nat (4 * n) :: 64 word) = of_nat (4 * n + 8)" by simp
  have a3: "(of_nat A :: 64 word) + 28 = of_nat (A + 28)" by simp
  have tbn: "tb = 4 * n + 12" by (simp add: tb_def)
  have res: "build_args argv s =
            Some (s\<lparr>rd_addr_arg_off := of_nat A, rd_size_arg_off := of_nat (A + 28),
                    args_chunk_bytes := ?m4\<rparr>)"
    unfolding build_args_copy tb run
    using T T31 sz tbn
    by (simp add: a1 a2 a3 store_u32_Some del: of_nat_add of_nat_mult)
  have sl: "load_u32 ?m4 (4 * k) = ucast (linux_args_addr s + of_nat (string_offset argv k))
               \<and> string_at ?m4 (string_offset argv k) (stored_args argv ! k)" if "k < n" for k
  proof -
    have tbk: "tb \<le> string_offset argv k" by (simp add: off)
    have "load_u32 ?m4 (4 * k) = load_u32 m1 (4 * k)"
      using that by (intro load_u32_cong) (simp add: poke_outside length_bytes_of_u32)
    moreover have "string_at ?m4 (string_offset argv k) (stored_args argv ! k)
                   = string_at m1 (string_offset argv k) (stored_args argv ! k)"
      using tbk tbn by (intro string_at_cong) (simp add: poke_outside length_bytes_of_u32)
    ultimately show ?thesis using slots [OF that] by simp
  qed
  have z1: "load_u32 ?m4 (4 * n) = 0"
  proof -
    have "load_u32 ?m4 (4 * n) = load_u32 ?m2 (4 * n)"
      by (intro load_u32_cong) (simp add: poke_outside length_bytes_of_u32)
    also have "\<dots> = 0" by (rule load_u32_zero)
    finally show ?thesis .
  qed
  have z2: "load_u32 ?m4 (4 * (n + 1)) = 0"
  proof -
    have e: "4 * (n + 1) = 4 * n + 4" by simp
    have "load_u32 ?m4 (4 * n + 4) = load_u32 ?m3 (4 * n + 4)"
      by (intro load_u32_cong) (simp add: poke_outside length_bytes_of_u32)
    also have "\<dots> = 0" by (rule load_u32_zero)
    finally show ?thesis unfolding e .
  qed
  have z3: "load_u32 ?m4 (4 * (n + 2)) = 0"
  proof -
    have e: "4 * (n + 2) = 4 * n + 8" by simp
    show ?thesis unfolding e by (rule load_u32_zero)
  qed
  have fr: "?m4 i = args_chunk_bytes s i" if "A \<le> i" for i
  proof -
    have "?m4 i = m1 i" using that A tbn
      by (simp add: poke_outside length_bytes_of_u32)
    then show ?thesis using that frame [of i] by simp
  qed
  show ?thesis using res sl z1 z2 z3 fr unfolding A_def n_def by blast
qed

section \<open>What a successful load leaves\<close>

lemma load32_success:
  assumes "grub_linux_load32 env elf s = (GRUB_ERR_NONE, s')"
  shows "(snd (grub_elf32_size elf) \<noteq> 0 \<longrightarrow>
           s' = s\<lparr>entry_addr := ucast (e_entry32 elf),
                target_addr := ucast (fst (grub_elf32_size elf)),
                linux_size := ALIGN_UP (snd (grub_elf32_size elf)) 8,
                relocator := Some [Alloc_chunk_addr (grub_vtop env (ucast (fst (grub_elf32_size elf))))
                                     (ALIGN_UP (snd (grub_elf32_size elf)) 8)]\<rparr>)
       \<and> (snd (grub_elf32_size elf) = 0 \<longrightarrow>
           s' = s\<lparr>entry_addr := ucast (e_entry32 elf), linux_size := 0\<rparr>)"
  using assms
  by (auto simp: grub_linux_load32_def Let_def reported_def
           split: if_splits option.splits sum.splits)

lemma load64_success:
  assumes "grub_linux_load64 env elf s = (GRUB_ERR_NONE, s')"
  shows "(snd (grub_elf64_size elf) \<noteq> 0 \<longrightarrow>
           s' = s\<lparr>entry_addr := e_entry64 elf,
                target_addr := fst (grub_elf64_size elf),
                linux_size := ALIGN_UP (snd (grub_elf64_size elf)) 8,
                relocator := Some [Alloc_chunk_addr (grub_vtop env (fst (grub_elf64_size elf)))
                                     (ALIGN_UP (snd (grub_elf64_size elf)) 8)]\<rparr>)
       \<and> (snd (grub_elf64_size elf) = 0 \<longrightarrow>
           s' = s\<lparr>entry_addr := e_entry64 elf, linux_size := 0\<rparr>)"
  using assms
  by (auto simp: grub_linux_load64_def Let_def reported_def
           split: if_splits option.splits sum.splits)

lemma place_success:
  assumes "(if grub_elf_is_elf32 elf then grub_linux_load32 env elf s
            else if grub_elf_is_elf64 elf then grub_linux_load64 env elf s
            else grub_error GRUB_ERR_BAD_OS msg s) = (GRUB_ERR_NONE, s')"
  shows "(grub_elf_is_elf32 elf \<or> grub_elf_is_elf64 elf)
       \<and> (image_span elf \<noteq> 0 \<longrightarrow>
           s' = s\<lparr>entry_addr := image_entry elf,
                target_addr := image_base elf,
                linux_size := ALIGN_UP (image_span elf) 8,
                relocator := Some [Alloc_chunk_addr (grub_vtop env (image_base elf))
                                     (ALIGN_UP (image_span elf) 8)]\<rparr>)
       \<and> (image_span elf = 0 \<longrightarrow> s' = s\<lparr>entry_addr := image_entry elf, linux_size := 0\<rparr>)"
proof (cases "grub_elf_is_elf32 elf")
  case True
  with assms have "grub_linux_load32 env elf s = (GRUB_ERR_NONE, s')" by simp
  from load32_success [OF this] True show ?thesis
    by (simp add: image_entry_def image_base_def image_span_def)
next
  case False
  note f = this
  show ?thesis
  proof (cases "grub_elf_is_elf64 elf")
    case True
    with assms f have "grub_linux_load64 env elf s = (GRUB_ERR_NONE, s')" by simp
    from load64_success [OF this] True f show ?thesis
      by (simp add: image_entry_def image_base_def image_span_def)
  next
    case False
    with assms f show ?thesis by (simp add: grub_error_def)
  qed
qed

lemma place_zero_span:
  assumes "image_span elf = 0" "elf_size_error elf = None"
    "grub_elf_is_elf32 elf \<or> grub_elf_is_elf64 elf"
  shows "(if grub_elf_is_elf32 elf then grub_linux_load32 env elf s
          else if grub_elf_is_elf64 elf then grub_linux_load64 env elf s
          else grub_error GRUB_ERR_BAD_OS msg s)
         = (grub_errno s, s\<lparr>entry_addr := image_entry elf, linux_size := 0\<rparr>)"
  using assms
  by (auto simp: grub_linux_load32_def grub_linux_load64_def Let_def image_span_def image_entry_def)

lemma place_keeps:
  assumes "(if grub_elf_is_elf32 elf then grub_linux_load32 env elf s
            else if grub_elf_is_elf64 elf then grub_linux_load64 env elf s
            else grub_error GRUB_ERR_BAD_OS msg s) = (GRUB_ERR_NONE, s')"
  shows "s' = s\<lparr>entry_addr := image_entry elf, target_addr := target_addr s',
                linux_size := linux_size s', relocator := relocator s'\<rparr>"
proof (cases "image_span elf = 0")
  case True
  with place_success [OF assms] have e: "s' = s\<lparr>entry_addr := image_entry elf, linux_size := 0\<rparr>"
    by simp
  show ?thesis by (subst (1 2 3 4) e) simp
next
  case False
  with place_success [OF assms] have e: "s' = s\<lparr>entry_addr := image_entry elf,
                target_addr := image_base elf,
                linux_size := ALIGN_UP (image_span elf) 8,
                relocator := Some [Alloc_chunk_addr (grub_vtop env (image_base elf))
                                     (ALIGN_UP (image_span elf) 8)]\<rparr>"
    by simp
  show ?thesis by (subst (1 2 3 4) e) simp
qed

lemma core_update [simp]:
  "core (s\<lparr>args_chunk_bytes := m\<rparr>) = core s"
  "core (s\<lparr>rd_addr_arg_off := a\<rparr>) = core s"
  "core (s\<lparr>rd_size_arg_off := a\<rparr>) = core s"
  by (simp_all add: core_def)

lemma core_fields:
  "loaded s = loaded (core s)" "linux_size s = linux_size (core s)"
  "relocator s = relocator (core s)" "target_addr s = target_addr (core s)"
  "entry_addr s = entry_addr (core s)" "linux_argc s = linux_argc (core s)"
  "linux_args_addr s = linux_args_addr (core s)" "initrd_loaded s = initrd_loaded (core s)"
  "grub_errno s = grub_errno (core s)" "grub_errmsg s = grub_errmsg (core s)"
  "loader_registered s = loader_registered (core s)" "my_mod_refs s = my_mod_refs (core s)"
  "args_chunk_size s = args_chunk_size (core s)"
  by (simp_all add: core_def)

lemma core_eq_fields:
  assumes "core s' = core s"
  shows "loaded s' = loaded s" "linux_size s' = linux_size s"
  "relocator s' = relocator s" "target_addr s' = target_addr s"
  "entry_addr s' = entry_addr s" "linux_argc s' = linux_argc s"
  "linux_args_addr s' = linux_args_addr s" "initrd_loaded s' = initrd_loaded s"
  "grub_errno s' = grub_errno s" "grub_errmsg s' = grub_errmsg s"
  "loader_registered s' = loader_registered s" "my_mod_refs s' = my_mod_refs s"
  "args_chunk_size s' = args_chunk_size s"
  using assms core_fields [of s] core_fields [of s'] by simp_all

lemma core_eq_state:
  assumes "core s' = core s"
  shows "s' = s\<lparr>rd_addr_arg_off := rd_addr_arg_off s', rd_size_arg_off := rd_size_arg_off s',
                 args_chunk_bytes := args_chunk_bytes s'\<rparr>"
  using core_eq_fields [OF assms] by simp

lemma write_bytes_core: "write_bytes s off bs = Some s' \<Longrightarrow> core s' = core s"
  by (auto simp: write_bytes_def split: if_splits)

lemma store_u32_core: "store_u32 s off v = Some s' \<Longrightarrow> core s' = core s"
  unfolding store_u32_def by (rule write_bytes_core)

lemma grub_memcpy_core: "grub_memcpy s dst src n = Some s' \<Longrightarrow> core s' = core s"
  unfolding grub_memcpy_def by (rule write_bytes_core)

lemma copy_args_core:
  "copy_args as pv ps s = Some (pv', ps', s') \<Longrightarrow> core s' = core s"
proof (induction as arbitrary: pv ps s)
  case Nil
  then show ?case by simp
next
  case (Cons a as)
  from Cons.prems obtain sa sb where
    a: "grub_memcpy s ps (cstring a) (grub_strlen a + 1) = Some sa"
    and b: "store_u32 sa pv (ucast (linux_args_addr sa + ps)) = Some sb"
    and c: "copy_args as (pv + 4) (ps + ALIGN_UP (grub_strlen a + 1) 4) sb = Some (pv', ps', s')"
    by (auto simp: bind_eq_Some_conv)
  show ?case
    using grub_memcpy_core [OF a] store_u32_core [OF b] Cons.IH [OF c] by simp
qed

lemma build_args_core:
  assumes "build_args argv s = Some s'"
  shows "core s' = core s"
proof -
  from assms obtain pv ps sa sb sc where
    a: "copy_args (stored_args argv) 0 (4 * scast (linux_argc s + 1 + 2)) s = Some (pv, ps, sa)"
    and b: "store_u32 (sa\<lparr>rd_addr_arg_off := ps\<rparr>) pv 0 = Some sb"
    and c: "store_u32 (sb\<lparr>rd_size_arg_off := ps + 28\<rparr>) (pv + 4) 0 = Some sc"
    and d: "store_u32 sc (pv + 4 + 4) 0 = Some s'"
    unfolding build_args_copy by (auto simp: bind_eq_Some_conv Let_def)
  show ?thesis
    using copy_args_core [OF a] store_u32_core [OF b] store_u32_core [OF c] store_u32_core [OF d]
    by simp
qed

lemma loader_unset_fields:
  "loader_registered (grub_loader_unset s) = False"
  "grub_errno (grub_loader_unset s) = grub_errno s"
  "grub_errmsg (grub_loader_unset s) = grub_errmsg s"
  by (simp_all add: grub_loader_unset_def grub_linux_unload_def)

lemma cmd_linux_success_raw:
  assumes run: "grub_cmd_linux env argv s = Some (GRUB_ERR_NONE, s1)"
  obtains elf ch s5 tgt lsz rel where
      "argv \<noteq> []" "grub_elf_open env (argv ! 0) = Inr elf" "e_type elf = ET_EXEC"
      "grub_elf_is_elf32 elf \<or> grub_elf_is_elf64 elf"
      "grub_relocator_alloc_chunk_align env 0
          (ucast ((0xffffffff - linux_args_size argv) + 1 :: 32 word))
          (scast (linux_args_size argv)) 8 GRUB_RELOCATOR_PREFERENCE_HIGH = Inr ch"
      "build_args argv
          ((grub_loader_unset s)
             \<lparr>loaded := False, linux_argc := of_nat (length argv),
              entry_addr := image_entry elf, target_addr := tgt,
              linux_size := lsz, relocator := rel,
              linux_args_addr := ch_addr ch,
              args_chunk_size := unat (scast (linux_args_size argv) :: 64 word),
              args_chunk_bytes := ch_bytes ch\<rparr>) = Some s5"
      "s1 = s5\<lparr>loader_registered := True, initrd_loaded := False, loaded := True,
               my_mod_refs := my_mod_refs s5 + 1\<rparr>"
      "image_span elf \<noteq> 0 \<longrightarrow>
         tgt = image_base elf \<and> lsz = ALIGN_UP (image_span elf) 8
         \<and> rel = Some [Alloc_chunk_addr (grub_vtop env (image_base elf))
                         (ALIGN_UP (image_span elf) 8),
                       args_request (linux_args_size argv)]"
      "image_span elf = 0 \<longrightarrow>
         tgt = target_addr (grub_loader_unset s) \<and> lsz = 0
         \<and> rel = map_option (\<lambda>chunks. chunks @ [args_request (linux_args_size argv)])
                   (relocator (grub_loader_unset s))"
proof -
  have ne: "argv \<noteq> []"
    using run by (auto simp: grub_cmd_linux_def grub_error_def)
  obtain elf where op: "grub_elf_open env (argv ! 0) = Inr elf"
    using run ne
    by (cases "grub_elf_open env (argv ! 0)") (auto simp: grub_cmd_linux_def reported_def Let_def)
  have ty: "e_type elf = ET_EXEC"
    using run ne op by (auto simp: grub_cmd_linux_def grub_error_def split: if_splits)
  define s2 where "s2 = (grub_loader_unset s)\<lparr>loaded := False, linux_argc := of_nat (length argv)\<rparr>"
  define D where "D = (if grub_elf_is_elf32 elf then grub_linux_load32 env elf s2
            else if grub_elf_is_elf64 elf then grub_linux_load64 env elf s2
            else grub_error GRUB_ERR_BAD_OS ''invalid arch-dependent ELF magic'' s2)"
  obtain err s3 where D: "D = (err, s3)" by (cases D)
  have unf: "grub_cmd_linux env argv s =
     (if err \<noteq> GRUB_ERR_NONE then Some (err, s3)
      else
        case grub_relocator_alloc_chunk_align env 0
               (ucast ((0xffffffff - linux_args_size argv) + 1 :: 32 word))
               (scast (linux_args_size argv)) 8 GRUB_RELOCATOR_PREFERENCE_HIGH of
          Inl e \<Rightarrow> Some (GRUB_ERR (fst e), reported e s3)
        | Inr ch \<Rightarrow>
            (case build_args argv
                 ((add_chunk (args_request (linux_args_size argv)) s3)
                    \<lparr>linux_args_addr := ch_addr ch,
                     args_chunk_size := unat (scast (linux_args_size argv) :: 64 word),
                     args_chunk_bytes := ch_bytes ch\<rparr>) of
               None \<Rightarrow> None
             | Some s5 \<Rightarrow>
                 Some (GRUB_ERR_NONE,
                       (grub_loader_set s5)\<lparr>initrd_loaded := False, loaded := True,
                          my_mod_refs := my_mod_refs (grub_loader_set s5) + 1\<rparr>)))"
    using ne op ty D [unfolded D_def s2_def]
    by (simp add: grub_cmd_linux_def Let_def args_request_def
             split: sum.splits option.splits Option.bind_splits)
  have err: "err = GRUB_ERR_NONE" using run unfolding unf by (auto split: if_splits)
  note ps = place_success [OF D [unfolded D_def err]]
  from ps have w: "grub_elf_is_elf32 elf \<or> grub_elf_is_elf64 elf" by simp
  have s3: "s3 = s2\<lparr>entry_addr := image_entry elf, target_addr := target_addr s3,
                linux_size := linux_size s3, relocator := relocator s3\<rparr>"
    by (rule place_keeps [OF D [unfolded D_def err]])
  obtain ch where al: "grub_relocator_alloc_chunk_align env 0
          (ucast ((0xffffffff - linux_args_size argv) + 1 :: 32 word))
          (scast (linux_args_size argv)) 8 GRUB_RELOCATOR_PREFERENCE_HIGH = Inr ch"
    using run unfolding unf err by (auto split: sum.splits)
  let ?s4 = "(add_chunk (args_request (linux_args_size argv)) s3)
                    \<lparr>linux_args_addr := ch_addr ch,
                     args_chunk_size := unat (scast (linux_args_size argv) :: 64 word),
                     args_chunk_bytes := ch_bytes ch\<rparr>"
  define tgt where "tgt = target_addr s3"
  define lsz where "lsz = linux_size s3"
  define rel where
    "rel = map_option (\<lambda>chunks. chunks @ [args_request (linux_args_size argv)]) (relocator s3)"
  obtain s5 where b: "build_args argv ?s4 = Some s5"
    and s1: "s1 = (grub_loader_set s5)\<lparr>initrd_loaded := False, loaded := True,
                          my_mod_refs := my_mod_refs (grub_loader_set s5) + 1\<rparr>"
    using run unfolding unf err al by (auto split: option.splits)
  have s4: "?s4 = (grub_loader_unset s)
             \<lparr>loaded := False, linux_argc := of_nat (length argv),
              entry_addr := image_entry elf, target_addr := tgt,
              linux_size := lsz, relocator := rel,
              linux_args_addr := ch_addr ch,
              args_chunk_size := unat (scast (linux_args_size argv) :: 64 word),
              args_chunk_bytes := ch_bytes ch\<rparr>"
    unfolding tgt_def lsz_def rel_def by (subst s3) (simp add: add_chunk_def s2_def)
  have "loader_registered s5 = loader_registered ?s4"
    using build_args_core [OF b] by (rule core_eq_fields)
  also have "\<dots> = False" unfolding s4 by (simp add: loader_unset_fields)
  finally have reg: "\<not> loader_registered s5" by simp
  have "grub_loader_set s5 = s5\<lparr>loader_registered := True\<rparr>"
    using reg by (simp add: grub_loader_set_def grub_loader_unset_def)
  then have s1': "s1 = s5\<lparr>loader_registered := True, initrd_loaded := False, loaded := True,
               my_mod_refs := my_mod_refs s5 + 1\<rparr>"
    unfolding s1 by simp
  have nz: "image_span elf \<noteq> 0 \<longrightarrow>
         tgt = image_base elf \<and> lsz = ALIGN_UP (image_span elf) 8
         \<and> rel = Some [Alloc_chunk_addr (grub_vtop env (image_base elf))
                         (ALIGN_UP (image_span elf) 8),
                       args_request (linux_args_size argv)]"
  proof
    assume "image_span elf \<noteq> 0"
    with ps have e: "s3 = s2\<lparr>entry_addr := image_entry elf,
                target_addr := image_base elf,
                linux_size := ALIGN_UP (image_span elf) 8,
                relocator := Some [Alloc_chunk_addr (grub_vtop env (image_base elf))
                                     (ALIGN_UP (image_span elf) 8)]\<rparr>"
      by simp
    show "tgt = image_base elf \<and> lsz = ALIGN_UP (image_span elf) 8
         \<and> rel = Some [Alloc_chunk_addr (grub_vtop env (image_base elf))
                         (ALIGN_UP (image_span elf) 8),
                       args_request (linux_args_size argv)]"
      unfolding tgt_def lsz_def rel_def by (subst (1 2 3) e) simp
  qed
  have z: "image_span elf = 0 \<longrightarrow>
         tgt = target_addr (grub_loader_unset s) \<and> lsz = 0
         \<and> rel = map_option (\<lambda>chunks. chunks @ [args_request (linux_args_size argv)])
                   (relocator (grub_loader_unset s))"
  proof
    assume "image_span elf = 0"
    with ps have e: "s3 = s2\<lparr>entry_addr := image_entry elf, linux_size := 0\<rparr>" by simp
    show "tgt = target_addr (grub_loader_unset s) \<and> lsz = 0
         \<and> rel = map_option (\<lambda>chunks. chunks @ [args_request (linux_args_size argv)])
                   (relocator (grub_loader_unset s))"
      unfolding tgt_def lsz_def rel_def by (subst (1 2 3) e) (simp add: s2_def)
  qed
  from ne op ty w al b [unfolded s4] s1' nz z show ?thesis by (rule that)
qed

lemma cmd_linux_success_fields:
  assumes run: "grub_cmd_linux env argv s = Some (GRUB_ERR_NONE, s1)"
  obtains elf ch where
    "argv \<noteq> []" "grub_elf_open env (argv ! 0) = Inr elf" "e_type elf = ET_EXEC"
    "grub_elf_is_elf32 elf \<or> grub_elf_is_elf64 elf"
    "grub_relocator_alloc_chunk_align env 0
          (ucast ((0xffffffff - linux_args_size argv) + 1 :: 32 word))
          (scast (linux_args_size argv)) 8 GRUB_RELOCATOR_PREFERENCE_HIGH = Inr ch"
    "loaded s1" "\<not> initrd_loaded s1" "loader_registered s1"
    "linux_argc s1 = of_nat (length argv)"
    "entry_addr s1 = image_entry elf"
    "image_span elf \<noteq> 0 \<longrightarrow>
       target_addr s1 = image_base elf \<and> linux_size s1 = ALIGN_UP (image_span elf) 8
       \<and> relocator s1 = Some [Alloc_chunk_addr (grub_vtop env (image_base elf))
                                 (ALIGN_UP (image_span elf) 8),
                               args_request (linux_args_size argv)]"
    "image_span elf = 0 \<longrightarrow>
       target_addr s1 = target_addr (grub_loader_unset s) \<and> linux_size s1 = 0
       \<and> relocator s1 = map_option (\<lambda>chunks. chunks @ [args_request (linux_args_size argv)])
                           (relocator (grub_loader_unset s))"
    "linux_args_addr s1 = ch_addr ch"
    "args_chunk_size s1 = unat (scast (linux_args_size argv) :: 64 word)"
    "grub_errno s1 = grub_errno s" "grub_errmsg s1 = grub_errmsg s"
proof -
  from run obtain elf ch s5 tgt lsz rel where
    f: "argv \<noteq> []" "grub_elf_open env (argv ! 0) = Inr elf" "e_type elf = ET_EXEC"
    "grub_elf_is_elf32 elf \<or> grub_elf_is_elf64 elf"
    "grub_relocator_alloc_chunk_align env 0
          (ucast ((0xffffffff - linux_args_size argv) + 1 :: 32 word))
          (scast (linux_args_size argv)) 8 GRUB_RELOCATOR_PREFERENCE_HIGH = Inr ch"
    and b: "build_args argv
          ((grub_loader_unset s)
             \<lparr>loaded := False, linux_argc := of_nat (length argv),
              entry_addr := image_entry elf, target_addr := tgt,
              linux_size := lsz, relocator := rel,
              linux_args_addr := ch_addr ch,
              args_chunk_size := unat (scast (linux_args_size argv) :: 64 word),
              args_chunk_bytes := ch_bytes ch\<rparr>) = Some s5"
    and s1: "s1 = s5\<lparr>loader_registered := True, initrd_loaded := False, loaded := True,
               my_mod_refs := my_mod_refs s5 + 1\<rparr>"
    and nz: "image_span elf \<noteq> 0 \<longrightarrow>
         tgt = image_base elf \<and> lsz = ALIGN_UP (image_span elf) 8
         \<and> rel = Some [Alloc_chunk_addr (grub_vtop env (image_base elf))
                         (ALIGN_UP (image_span elf) 8),
                       args_request (linux_args_size argv)]"
    and z: "image_span elf = 0 \<longrightarrow>
         tgt = target_addr (grub_loader_unset s) \<and> lsz = 0
         \<and> rel = map_option (\<lambda>chunks. chunks @ [args_request (linux_args_size argv)])
                   (relocator (grub_loader_unset s))"
    by (rule cmd_linux_success_raw)
  note c = core_eq_fields [OF build_args_core [OF b]]
  have t: "target_addr s1 = tgt" "linux_size s1 = lsz" "relocator s1 = rel"
    by (simp_all add: s1 c)
  show ?thesis
    by (rule that [OF f]) (use nz z in \<open>simp_all add: s1 c t loader_unset_fields\<close>)
qed

section \<open>Patching the blob\<close>

lemma length_to_hex: "n < 16 ^ k \<Longrightarrow> 0 < k \<Longrightarrow> length (to_hex n) \<le> k"
proof (induction n arbitrary: k rule: to_hex.induct)
  case (1 n)
  show ?case
  proof (cases "n < 16")
    case True
    then show ?thesis using "1.prems" by (simp add: to_hex.simps [of n])
  next
    case False
    obtain j where k: "k = Suc j" using "1.prems" by (cases k) auto
    have j: "0 < j"
    proof (rule ccontr)
      assume "\<not> 0 < j"
      then have "k = 1" using k by simp
      then show False using "1.prems" False by simp
    qed
    have "n div 16 < 16 ^ j"
      using "1.prems" k by (simp add: less_mult_imp_div_less mult.commute)
    from "1.IH" [OF False this j] show ?thesis
      using False k by (simp add: to_hex.simps [of n])
  qed
qed

lemma length_to_hex_64: "length (to_hex (unat (w :: 64 word))) \<le> 16"
proof -
  have "unat w < 2 ^ 64" using unsigned_less [of w, where 'a = nat] by simp
  then have "unat w < 16 ^ 16" by simp
  then show ?thesis by (rule length_to_hex) simp
qed

lemma snprintf_rd:
  assumes "length prefix + 16 + 1 \<le> bound" "bound \<le> 28" "A + 28 \<le> args_chunk_size s"
    "args_chunk_size s < 2 ^ 64"
  shows "grub_snprintf s (of_nat A) (of_nat bound) prefix val
         = Some (s\<lparr>args_chunk_bytes :=
                    poke (args_chunk_bytes s) A (cstring (prefix @ to_hex (unat val)))\<rparr>)"
proof -
  have b: "(of_nat bound :: 64 word) \<noteq> 0"
  proof
    assume "(of_nat bound :: 64 word) = 0"
    then have "unat (of_nat bound :: 64 word) = 0" by simp
    moreover have "unat (of_nat bound :: 64 word) = bound"
      using assms by (intro unat_of_nat64) simp
    ultimately show False using assms by simp
  qed
  have ub: "unat (of_nat bound :: 64 word) = bound"
    using assms by (intro unat_of_nat64) simp
  have len: "length (prefix @ to_hex (unat val)) \<le> bound - 1"
    using length_to_hex_64 [of val] assms by simp
  then have tk: "take (bound - 1) (prefix @ to_hex (unat val)) = prefix @ to_hex (unat val)"
    by simp
  have "A + length (cstring (prefix @ to_hex (unat val))) \<le> args_chunk_size s"
    using len assms unfolding length_cstring by linarith
  then show ?thesis
    unfolding grub_snprintf_def ub tk using b assms by (simp add: write_bytes_Some)
qed

lemma sizeof_rd_bounds:
  "sizeof_str rd_start_template = of_nat 28" "sizeof_str rd_size_bound_template = of_nat 28"
  by (simp_all add: sizeof_str_def rd_start_template_def rd_size_bound_template_def)

lemma table_index:
  assumes "k < 2 ^ 31"
  shows "(4 * scast (of_nat k :: 32 word) :: 64 word) = of_nat (4 * k)"
proof -
  have "(scast (of_nat k :: 32 word) :: 64 word) = of_nat k"
    using assms by (rule scast_of_nat_32_64)
  then show ?thesis by simp
qed

lemma patch_rd_args_Some:
  assumes argc: "linux_argc s = of_nat n"
    and A: "rd_addr_arg_off s = of_nat A" "rd_size_arg_off s = of_nat (A + 28)"
    and lay: "4 * n + 8 \<le> A" "A + 56 \<le> args_chunk_size s" "args_chunk_size s < 2 ^ 31"
  shows "patch_rd_args s dest sz =
           Some (s\<lparr>linux_argc := of_nat (n + 2), initrd_loaded := True,
                   args_chunk_bytes := patched (args_chunk_bytes s) (linux_args_addr s) n A dest sz\<rparr>)"
proof -
  have sz64: "args_chunk_size s < 2 ^ 64" using lay by simp
  have i1: "(4 * scast (of_nat n :: 32 word) :: 64 word) = of_nat (4 * n)"
    using lay by (intro table_index) simp
  have i2: "(4 * scast (of_nat n + 1 :: 32 word) :: 64 word) = of_nat (4 * n + 4)"
  proof -
    have e: "(of_nat n + 1 :: 32 word) = of_nat (n + 1)" by simp
    have t: "(4 * scast (of_nat (n + 1) :: 32 word) :: 64 word) = of_nat (4 * (n + 1))"
      using lay by (intro table_index) simp
    have "(of_nat (4 * (n + 1)) :: 64 word) = of_nat (4 * n + 4)" by simp
    then show ?thesis unfolding e t .
  qed
  define b1 where "b1 = cstring (''rd_start=0x'' @ to_hex (unat dest))"
  define b2 where "b2 = cstring (''rd_size=0x'' @ to_hex (unat sz))"
  let ?m1 = "poke (args_chunk_bytes s) A b1"
  let ?s1 = "s\<lparr>args_chunk_bytes := ?m1\<rparr>"
  have p1: "grub_snprintf s (of_nat A) 28 ''rd_start=0x'' dest = Some ?s1"
    unfolding b1_def
    using lay sz64 snprintf_rd [of "''rd_start=0x''" 28 A s dest] by simp
  let ?m2 = "poke ?m1 (4 * n) (bytes_of_u32 (ucast (linux_args_addr s + of_nat A)))"
  let ?s2 = "s\<lparr>args_chunk_bytes := ?m2\<rparr>"
  have p2: "store_u32 ?s1 (of_nat (4 * n)) (ucast (linux_args_addr s + of_nat A)) = Some ?s2"
    using lay sz64 store_u32_Some [of "4 * n" ?s1] by simp
  let ?s2' = "s\<lparr>args_chunk_bytes := ?m2, linux_argc := of_nat n + 1\<rparr>"
  let ?m3 = "poke ?m2 (A + 28) b2"
  let ?s3 = "s\<lparr>args_chunk_bytes := ?m3, linux_argc := of_nat n + 1\<rparr>"
  have p3: "grub_snprintf ?s2' (of_nat (A + 28)) 28 ''rd_size=0x'' sz = Some ?s3"
    unfolding b2_def
    using lay sz64 snprintf_rd [of "''rd_size=0x''" 28 "A + 28" ?s2' sz] by simp
  let ?m4 = "poke ?m3 (4 * n + 4) (bytes_of_u32 (ucast (linux_args_addr s + of_nat (A + 28))))"
  let ?s4 = "s\<lparr>args_chunk_bytes := ?m4, linux_argc := of_nat n + 1\<rparr>"
  have p4: "store_u32 ?s3 (of_nat (4 * n + 4)) (ucast (linux_args_addr s + of_nat (A + 28))) = Some ?s4"
    using lay sz64 store_u32_Some [of "4 * n + 4" ?s3] by simp
  have "patch_rd_args s dest sz = Some (?s4\<lparr>linux_argc := of_nat n + 1 + 1, initrd_loaded := True\<rparr>)"
    unfolding patch_rd_args_def sizeof_rd_bounds A argc
    by (simp add: argc A i1 p1 p2 i2 p3 p4 del: of_nat_add of_nat_mult)
  then show ?thesis by (simp add: patched_def b1_def b2_def)
qed

lemma patched_props:
  assumes "4 * n + 8 \<le> A"
  shows "string_at (patched m base n A dest sz) A (''rd_start=0x'' @ to_hex (unat dest))"
    and "string_at (patched m base n A dest sz) (A + 28) (''rd_size=0x'' @ to_hex (unat sz))"
    and "load_u32 (patched m base n A dest sz) (4 * n) = ucast (base + of_nat A)"
    and "load_u32 (patched m base n A dest sz) (4 * n + 4) = ucast (base + of_nat (A + 28))"
    and "\<And>i. i < 4 * n \<or> (4 * n + 8 \<le> i \<and> i < A) \<or> A + 56 \<le> i
           \<Longrightarrow> patched m base n A dest sz i = m i"
proof -
  define b1 where "b1 = cstring (''rd_start=0x'' @ to_hex (unat dest))"
  define b2 where "b2 = cstring (''rd_size=0x'' @ to_hex (unat sz))"
  define q1 where "q1 = bytes_of_u32 (ucast (base + of_nat A))"
  define q2 where "q2 = bytes_of_u32 (ucast (base + of_nat (A + 28)))"
  have l1: "length b1 \<le> 28" "length (''rd_start=0x'' @ to_hex (unat dest)) < 28"
    using length_to_hex_64 [of dest] by (simp_all add: b1_def length_cstring)
  have l2: "length b2 \<le> 28" "length (''rd_size=0x'' @ to_hex (unat sz)) < 28"
    using length_to_hex_64 [of sz] by (simp_all add: b2_def length_cstring)
  have lq: "length q1 = 4" "length q2 = 4" by (simp_all add: q1_def q2_def length_bytes_of_u32)
  let ?m1 = "poke m A b1"
  let ?m2 = "poke ?m1 (4 * n) q1"
  let ?m3 = "poke ?m2 (A + 28) b2"
  let ?m4 = "poke ?m3 (4 * n + 4) q2"
  have p: "patched m base n A dest sz = ?m4"
    by (simp add: patched_def b1_def b2_def q1_def q2_def)
  have "string_at ?m4 A (''rd_start=0x'' @ to_hex (unat dest))
        = string_at ?m1 A (''rd_start=0x'' @ to_hex (unat dest))"
    using assms l1 l2 lq by (intro string_at_cong) (simp add: poke_outside)
  then show "string_at (patched m base n A dest sz) A (''rd_start=0x'' @ to_hex (unat dest))"
    unfolding p b1_def by (simp add: string_at_poke)
  have "string_at ?m4 (A + 28) (''rd_size=0x'' @ to_hex (unat sz))
        = string_at ?m3 (A + 28) (''rd_size=0x'' @ to_hex (unat sz))"
    using assms l1 l2 lq by (intro string_at_cong) (simp add: poke_outside)
  then show "string_at (patched m base n A dest sz) (A + 28) (''rd_size=0x'' @ to_hex (unat sz))"
    unfolding p b2_def by (simp add: string_at_poke)
  have "load_u32 ?m4 (4 * n) = load_u32 ?m2 (4 * n)"
    using assms l1 l2 lq by (intro load_u32_cong) (simp add: poke_outside)
  then show "load_u32 (patched m base n A dest sz) (4 * n) = ucast (base + of_nat A)"
    unfolding p q1_def by (simp add: load_u32_bytes_of_u32)
  show "load_u32 (patched m base n A dest sz) (4 * n + 4) = ucast (base + of_nat (A + 28))"
    unfolding p q2_def by (rule load_u32_bytes_of_u32)
  show "patched m base n A dest sz i = m i"
    if "i < 4 * n \<or> (4 * n + 8 \<le> i \<and> i < A) \<or> A + 56 \<le> i" for i
    unfolding p using that assms l1 l2 lq by (auto simp: poke_outside)
qed

lemma patch_rd_args_same:
  assumes "patch_rd_args s dest sz = Some s'"
  shows "s' = s\<lparr>linux_argc := linux_argc s + 2, initrd_loaded := True,
                 args_chunk_bytes := args_chunk_bytes s'\<rparr>"
  using assms
  by (auto simp: patch_rd_args_def grub_snprintf_def store_u32_def write_bytes_def
        bind_eq_Some_conv Let_def split: if_splits)

lemma cmd_initrd_success_raw:
  assumes "grub_cmd_initrd env rdargv s = Some (GRUB_ERR_NONE, s2)"
  obtains sz ch where "rdargv \<noteq> []" "loaded s" "\<not> initrd_loaded s"
    "grub_initrd_init env rdargv = Inr sz"
    "grub_relocator_alloc_chunk_align env 0 ((0xffffffff - sz) + 1) sz 0x10000
       GRUB_RELOCATOR_PREFERENCE_HIGH = Inr ch"
    "grub_initrd_load env rdargv (ch_addr ch) = None"
    "patch_rd_args (add_chunk (initrd_request sz) s) (ch_addr ch) sz = Some s2"
    "grub_errno s = GRUB_ERR_NONE"
proof -
  have ne: "rdargv \<noteq> []" and l: "loaded s" and nl: "\<not> initrd_loaded s"
    using assms by (auto simp: grub_cmd_initrd_def grub_error_def split: if_splits)
  obtain sz where init: "grub_initrd_init env rdargv = Inr sz"
    using assms ne l nl
    by (cases "grub_initrd_init env rdargv")
       (auto simp: grub_cmd_initrd_def fail_def reported_def)
  obtain ch where al: "grub_relocator_alloc_chunk_align env 0 ((0xffffffff - sz) + 1) sz 0x10000
       GRUB_RELOCATOR_PREFERENCE_HIGH = Inr ch"
    using assms ne l nl init
    by (cases "grub_relocator_alloc_chunk_align env 0 ((0xffffffff - sz) + 1) sz 0x10000
       GRUB_RELOCATOR_PREFERENCE_HIGH")
       (auto simp: grub_cmd_initrd_def fail_def reported_def Let_def)
  have ld: "grub_initrd_load env rdargv (ch_addr ch) = None"
    using assms ne l nl init al
    by (cases "grub_initrd_load env rdargv (ch_addr ch)")
       (auto simp: grub_cmd_initrd_def fail_def reported_def Let_def add_chunk_def)
  have unf: "grub_cmd_initrd env rdargv s =
               Option.bind (patch_rd_args (add_chunk (initrd_request sz) s) (ch_addr ch) sz) fail"
    using ne l nl by (simp add: grub_cmd_initrd_def init al [simplified] ld Let_def initrd_request_def)
  from assms [unfolded unf] obtain s' where
    p: "patch_rd_args (add_chunk (initrd_request sz) s) (ch_addr ch) sz = Some s'"
    and f: "fail s' = Some (GRUB_ERR_NONE, s2)"
    by (auto simp: bind_eq_Some_conv)
  from f have e: "s' = s2" "grub_errno s' = GRUB_ERR_NONE" by (auto simp: fail_def)
  have "grub_errno s' = grub_errno s"
    by (subst patch_rd_args_same [OF p]) (simp add: add_chunk_def)
  with e have "grub_errno s = GRUB_ERR_NONE" by simp
  with ne l nl init al ld p e show ?thesis by (intro that) simp_all
qed

lemma cmd_initrd_failure:
  assumes run: "grub_cmd_initrd env rdargv s = Some (err, s')"
    and err: "err \<noteq> GRUB_ERR_NONE"
    and clear: "grub_errno s = GRUB_ERR_NONE"
  shows "s' = s\<lparr>relocator := relocator s', grub_errno := grub_errno s', grub_errmsg := grub_errmsg s'\<rparr>"
proof -
  have patch: False
    if "patch_rd_args s0 d z = Some sp" "fail sp = Some (err, s')" "grub_errno s0 = GRUB_ERR_NONE"
    for s0 d z sp
  proof -
    have "grub_errno sp = grub_errno s0"
      by (subst patch_rd_args_same [OF that(1)]) simp
    with that err show False by (simp add: fail_def)
  qed
  show ?thesis
    using run clear
    by (auto simp: grub_cmd_initrd_def grub_error_def fail_def reported_def Let_def add_chunk_def
          bind_eq_Some_conv
          split: if_splits sum.splits option.splits
          dest: patch [unfolded fail_def])
qed

lemma dvd_strings_bytes: "4 dvd strings_bytes as"
  by (induction as) (simp_all add: round_up_dvd)

lemma dvd_string_offset: "4 dvd string_offset argv k"
  unfolding string_offset_def by (simp add: dvd_strings_bytes)

lemma strings_bytes_take_le: "strings_bytes (take k as) \<le> strings_bytes as"
proof (induction as arbitrary: k)
  case Nil
  then show ?case by simp
next
  case (Cons a as)
  then show ?case by (cases k) simp_all
qed

lemma strings_bytes_take_Suc:
  "k < length as \<Longrightarrow>
   strings_bytes (take (Suc k) as) = strings_bytes (take k as) + round_up (length (as ! k) + 1) 4"
proof (induction as arbitrary: k)
  case Nil
  then show ?case by simp
next
  case (Cons a as)
  then show ?case by (cases k) simp_all
qed

lemma string_offset_bounds:
  assumes "argv \<noteq> []"
  shows "4 * (length argv + 3) \<le> string_offset argv k"
    and "string_offset argv k \<le> string_offset argv (length argv)"
    and "string_offset argv (length argv) + 56 \<le> blob_size_spec argv"
    and "k < length argv \<Longrightarrow>
           string_offset argv k + length (stored_args argv ! k) + 1 \<le> string_offset argv (Suc k)"
proof -
  have len: "length (stored_args argv) = length argv" using assms by (rule length_stored_args)
  show "4 * (length argv + 3) \<le> string_offset argv k"
    by (simp add: string_offset_def)
  have "strings_bytes (take k (stored_args argv)) \<le> strings_bytes (stored_args argv)"
    by (rule strings_bytes_take_le)
  then show "string_offset argv k \<le> string_offset argv (length argv)"
    by (simp add: string_offset_def len)
  have "4 * length argv + 72 + strings_bytes (tl argv) \<le> blob_size_spec argv"
    unfolding blob_size_spec_eq by (rule round_up_ge) simp
  then show "string_offset argv (length argv) + 56 \<le> blob_size_spec argv"
    by (simp add: string_offset_def len strings_bytes_stored)
  show "string_offset argv k + length (stored_args argv ! k) + 1 \<le> string_offset argv (Suc k)"
    if "k < length argv"
  proof -
    have "length (stored_args argv ! k) + 1 \<le> round_up (length (stored_args argv ! k) + 1) 4"
      by (rule round_up_ge) simp
    then show ?thesis
      using that by (simp add: string_offset_def strings_bytes_take_Suc len)
  qed
qed

lemma size_values:
  assumes "blob_size_spec argv < 2 ^ 31"
  shows "linux_args_size argv = of_nat (blob_size_spec argv)"
    and "unat (scast (linux_args_size argv) :: 64 word) = blob_size_spec argv"
    and "(scast (linux_args_size argv) :: 64 word) = of_nat (blob_size_spec argv)"
    and "sint (linux_args_size argv) = int (blob_size_spec argv)"
proof -
  show e: "linux_args_size argv = of_nat (blob_size_spec argv)"
    using assms by (rule linux_args_size_of_nat)
  show s: "(scast (linux_args_size argv) :: 64 word) = of_nat (blob_size_spec argv)"
    unfolding e using assms by (rule scast_of_nat_32_64)
  show "unat (scast (linux_args_size argv) :: 64 word) = blob_size_spec argv"
    unfolding s using assms by (intro unat_of_nat64) simp
  show "sint (linux_args_size argv) = int (blob_size_spec argv)"
    unfolding e using assms by (rule sint_of_nat_32)
qed

lemma cmd_linux_success_blob:
  assumes run: "grub_cmd_linux env argv s = Some (GRUB_ERR_NONE, s1)"
      and bound: "blob_size_spec argv < 2 ^ 31"
  shows "args_chunk_size s1 = blob_size_spec argv"
    and "rd_addr_arg_off s1 = of_nat (string_offset argv (length argv))"
    and "rd_size_arg_off s1 = of_nat (string_offset argv (length argv) + 28)"
    and "\<And>k. k < length argv \<Longrightarrow>
           load_u32 (args_chunk_bytes s1) (4 * k)
             = ucast (linux_args_addr s1 + of_nat (string_offset argv k))"
    and "\<And>k. k < length argv \<Longrightarrow>
           string_at (args_chunk_bytes s1) (string_offset argv k) (stored_args argv ! k)"
    and "load_u32 (args_chunk_bytes s1) (4 * length argv) = 0"
    and "load_u32 (args_chunk_bytes s1) (4 * (length argv + 1)) = 0"
    and "load_u32 (args_chunk_bytes s1) (4 * (length argv + 2)) = 0"
proof -
  from run obtain elf ch s5 tgt lsz rel where
    ne: "argv \<noteq> []" and "grub_elf_open env (argv ! 0) = Inr elf" and "e_type elf = ET_EXEC"
    and "grub_elf_is_elf32 elf \<or> grub_elf_is_elf64 elf"
    and "grub_relocator_alloc_chunk_align env 0
          (ucast ((0xffffffff - linux_args_size argv) + 1 :: 32 word))
          (scast (linux_args_size argv)) 8 GRUB_RELOCATOR_PREFERENCE_HIGH = Inr ch"
    and b: "build_args argv
          ((grub_loader_unset s)
             \<lparr>loaded := False, linux_argc := of_nat (length argv),
              entry_addr := image_entry elf, target_addr := tgt,
              linux_size := lsz, relocator := rel,
              linux_args_addr := ch_addr ch,
              args_chunk_size := unat (scast (linux_args_size argv) :: 64 word),
              args_chunk_bytes := ch_bytes ch\<rparr>) = Some s5"
    and s1: "s1 = s5\<lparr>loader_registered := True, initrd_loaded := False, loaded := True,
               my_mod_refs := my_mod_refs s5 + 1\<rparr>"
    by (rule cmd_linux_success_raw)
  let ?s4 = "(grub_loader_unset s)
             \<lparr>loaded := False, linux_argc := of_nat (length argv),
              entry_addr := image_entry elf, target_addr := tgt,
              linux_size := lsz, relocator := rel,
              linux_args_addr := ch_addr ch,
              args_chunk_size := unat (scast (linux_args_size argv) :: 64 word),
              args_chunk_bytes := ch_bytes ch\<rparr>"
  have c: "linux_argc ?s4 = of_nat (length argv)" by simp
  have z: "args_chunk_size ?s4 = blob_size_spec argv"
    using size_values(2) [OF bound] by simp
  from build_args_layout [OF ne c z bound] b obtain m' where
    s5: "s5 = ?s4\<lparr>rd_addr_arg_off := of_nat (string_offset argv (length argv)),
                    rd_size_arg_off := of_nat (string_offset argv (length argv) + 28),
                    args_chunk_bytes := m'\<rparr>"
    and sl: "\<And>k. k < length argv \<Longrightarrow>
               load_u32 m' (4 * k) = ucast (linux_args_addr ?s4 + of_nat (string_offset argv k))
               \<and> string_at m' (string_offset argv k) (stored_args argv ! k)"
    and z1: "load_u32 m' (4 * length argv) = 0"
    and z2: "load_u32 m' (4 * (length argv + 1)) = 0"
    and z3: "load_u32 m' (4 * (length argv + 2)) = 0"
    by auto
  have m: "args_chunk_bytes s1 = m'" and a: "linux_args_addr s1 = linux_args_addr ?s4"
    unfolding s1 s5 by simp_all
  show "args_chunk_size s1 = blob_size_spec argv"
    unfolding s1 s5 using z by simp
  show "rd_addr_arg_off s1 = of_nat (string_offset argv (length argv))"
    unfolding s1 s5 by simp
  show "rd_size_arg_off s1 = of_nat (string_offset argv (length argv) + 28)"
    unfolding s1 s5 by simp
  show "load_u32 (args_chunk_bytes s1) (4 * k)
             = ucast (linux_args_addr s1 + of_nat (string_offset argv k))" if "k < length argv" for k
    unfolding m a using sl [OF that] by simp
  show "string_at (args_chunk_bytes s1) (string_offset argv k) (stored_args argv ! k)"
    if "k < length argv" for k
    unfolding m using sl [OF that] by simp
  show "load_u32 (args_chunk_bytes s1) (4 * length argv) = 0" unfolding m by (rule z1)
  show "load_u32 (args_chunk_bytes s1) (4 * (length argv + 1)) = 0" unfolding m by (rule z2)
  show "load_u32 (args_chunk_bytes s1) (4 * (length argv + 2)) = 0" unfolding m by (rule z3)
qed

lemma cmd_linux_unfold:
  assumes ne: "argv \<noteq> []" and op: "grub_elf_open env (argv ! 0) = Inr elf"
    and ty: "e_type elf = ET_EXEC"
    and D: "(if grub_elf_is_elf32 elf
             then grub_linux_load32 env elf
                    ((grub_loader_unset s)\<lparr>loaded := False, linux_argc := of_nat (length argv)\<rparr>)
             else if grub_elf_is_elf64 elf
             then grub_linux_load64 env elf
                    ((grub_loader_unset s)\<lparr>loaded := False, linux_argc := of_nat (length argv)\<rparr>)
             else grub_error GRUB_ERR_BAD_OS ''invalid arch-dependent ELF magic''
                    ((grub_loader_unset s)\<lparr>loaded := False, linux_argc := of_nat (length argv)\<rparr>))
            = (err, s3)"
  shows "grub_cmd_linux env argv s =
     (if err \<noteq> GRUB_ERR_NONE then Some (err, s3)
      else
        case grub_relocator_alloc_chunk_align env 0
               (ucast ((0xffffffff - linux_args_size argv) + 1 :: 32 word))
               (scast (linux_args_size argv)) 8 GRUB_RELOCATOR_PREFERENCE_HIGH of
          Inl e \<Rightarrow> Some (GRUB_ERR (fst e), reported e s3)
        | Inr ch \<Rightarrow>
            (case build_args argv
                 ((add_chunk (args_request (linux_args_size argv)) s3)
                    \<lparr>linux_args_addr := ch_addr ch,
                     args_chunk_size := unat (scast (linux_args_size argv) :: 64 word),
                     args_chunk_bytes := ch_bytes ch\<rparr>) of
               None \<Rightarrow> None
             | Some s5 \<Rightarrow>
                 Some (GRUB_ERR_NONE,
                       (grub_loader_set s5)\<lparr>initrd_loaded := False, loaded := True,
                          my_mod_refs := my_mod_refs (grub_loader_set s5) + 1\<rparr>)))"
  using ne op ty D
  by (simp add: grub_cmd_linux_def Let_def args_request_def
           split: sum.splits option.splits Option.bind_splits)

lemma cmd_linux_total:
  assumes bound: "blob_size_spec argv < 2 ^ 31"
  shows "grub_cmd_linux env argv s \<noteq> None"
proof (cases "argv = []")
  case True
  then show ?thesis by (simp add: grub_cmd_linux_def)
next
  case ne: False
  show ?thesis
  proof (cases "grub_elf_open env (argv ! 0)")
    case (Inl e)
    then show ?thesis using ne by (simp add: grub_cmd_linux_def Let_def)
  next
    case (Inr elf)
    note op = this
    show ?thesis
    proof (cases "e_type elf = ET_EXEC")
      case False
      then show ?thesis using ne op by (simp add: grub_cmd_linux_def)
    next
      case ty: True
      let ?s2 = "(grub_loader_unset s)\<lparr>loaded := False, linux_argc := of_nat (length argv)\<rparr>"
      obtain err s3 where D: "(if grub_elf_is_elf32 elf then grub_linux_load32 env elf ?s2
             else if grub_elf_is_elf64 elf then grub_linux_load64 env elf ?s2
             else grub_error GRUB_ERR_BAD_OS ''invalid arch-dependent ELF magic'' ?s2) = (err, s3)"
        by (cases "(if grub_elf_is_elf32 elf then grub_linux_load32 env elf ?s2
             else if grub_elf_is_elf64 elf then grub_linux_load64 env elf ?s2
             else grub_error GRUB_ERR_BAD_OS ''invalid arch-dependent ELF magic'' ?s2)")
      note unf = cmd_linux_unfold [OF ne op ty D]
      show ?thesis
      proof (cases "err = GRUB_ERR_NONE")
        case False
        then show ?thesis unfolding unf by simp
      next
        case True
        have s3: "s3 = ?s2\<lparr>entry_addr := image_entry elf, target_addr := target_addr s3,
                linux_size := linux_size s3, relocator := relocator s3\<rparr>"
          by (rule place_keeps [OF D [unfolded True]])
        show ?thesis
        proof (cases "grub_relocator_alloc_chunk_align env 0
               (ucast ((0xffffffff - linux_args_size argv) + 1 :: 32 word))
               (scast (linux_args_size argv)) 8 GRUB_RELOCATOR_PREFERENCE_HIGH")
          case (Inl e)
          then show ?thesis unfolding unf using True by simp
        next
          case (Inr ch)
          let ?s4 = "(add_chunk (args_request (linux_args_size argv)) s3)
                    \<lparr>linux_args_addr := ch_addr ch,
                     args_chunk_size := unat (scast (linux_args_size argv) :: 64 word),
                     args_chunk_bytes := ch_bytes ch\<rparr>"
          have c: "linux_argc ?s4 = of_nat (length argv)"
            by (subst s3) (simp add: add_chunk_def)
          have z: "args_chunk_size ?s4 = blob_size_spec argv"
            using size_values(2) [OF bound] by simp
          from build_args_layout [OF ne c z bound]
          obtain s5 where "build_args argv ?s4 = Some s5" by blast
          then show ?thesis unfolding unf using True Inr by simp
        qed
      qed
    qed
  qed
qed

lemma cmd_initrd_total:
  assumes argc: "linux_argc s = of_nat n"
    and A: "rd_addr_arg_off s = of_nat A" "rd_size_arg_off s = of_nat (A + 28)"
    and lay: "4 * n + 8 \<le> A" "A + 56 \<le> args_chunk_size s" "args_chunk_size s < 2 ^ 31"
  shows "grub_cmd_initrd env rdargv s \<noteq> None"
proof -
  have "\<exists>y. Option.bind (patch_rd_args (add_chunk req s) dest sz) fail = Some y" for req dest sz
    using patch_rd_args_Some [of "add_chunk req s" n A dest sz] argc A lay
    by (simp add: add_chunk_def fail_def)
  then show ?thesis
    by (auto simp: grub_cmd_initrd_def fail_def Let_def split: sum.splits option.splits)
qed

lemma blob_reserved:
  assumes run: "grub_cmd_linux env argv s = Some (GRUB_ERR_NONE, s1)"
      and bound: "blob_size_spec argv < 2 ^ 31"
  shows "linux_argc s1 = of_nat (length argv)"
    and "rd_addr_arg_off s1 = of_nat (string_offset argv (length argv))"
    and "rd_size_arg_off s1 = of_nat (string_offset argv (length argv) + 28)"
    and "4 * length argv + 8 \<le> string_offset argv (length argv)"
    and "string_offset argv (length argv) + 56 \<le> args_chunk_size s1"
    and "args_chunk_size s1 < 2 ^ 31"
proof -
  from run obtain elf ch where ne: "argv \<noteq> []" and argc: "linux_argc s1 = of_nat (length argv)"
    by (rule cmd_linux_success_fields)
  note blob = cmd_linux_success_blob [OF run bound]
  note off = string_offset_bounds [OF ne]
  show "linux_argc s1 = of_nat (length argv)" by (rule argc)
  show "rd_addr_arg_off s1 = of_nat (string_offset argv (length argv))" by (rule blob(2))
  show "rd_size_arg_off s1 = of_nat (string_offset argv (length argv) + 28)" by (rule blob(3))
  show "4 * length argv + 8 \<le> string_offset argv (length argv)"
    using off(1) [of "length argv"] by simp
  show "string_offset argv (length argv) + 56 \<le> args_chunk_size s1"
    unfolding blob(1) by (rule off(3))
  show "args_chunk_size s1 < 2 ^ 31" unfolding blob(1) by (rule bound)
qed

lemma attach_after_load:
  assumes run: "grub_cmd_linux env argv s = Some (GRUB_ERR_NONE, s1)"
      and bound: "blob_size_spec argv < 2 ^ 31"
      and att: "grub_cmd_initrd env' rdargv s1 = Some (GRUB_ERR_NONE, s2)"
  obtains sz ch where
    "grub_initrd_init env' rdargv = Inr sz"
    "grub_relocator_alloc_chunk_align env' 0 ((0xffffffff - sz) + 1) sz 0x10000
       GRUB_RELOCATOR_PREFERENCE_HIGH = Inr ch"
    "s2 = s1\<lparr>relocator := map_option (\<lambda>chunks. chunks @ [initrd_request sz]) (relocator s1),
              linux_argc := of_nat (length argv + 2), initrd_loaded := True,
              args_chunk_bytes :=
                patched (args_chunk_bytes s1) (linux_args_addr s1) (length argv)
                  (string_offset argv (length argv)) (ch_addr ch) sz\<rparr>"
proof -
  from att obtain sz ch where
    i: "grub_initrd_init env' rdargv = Inr sz"
    and a: "grub_relocator_alloc_chunk_align env' 0 ((0xffffffff - sz) + 1) sz 0x10000
       GRUB_RELOCATOR_PREFERENCE_HIGH = Inr ch"
    and p: "patch_rd_args (add_chunk (initrd_request sz) s1) (ch_addr ch) sz = Some s2"
    by (rule cmd_initrd_success_raw)
  note r = blob_reserved [OF run bound]
  have "patch_rd_args (add_chunk (initrd_request sz) s1) (ch_addr ch) sz =
          Some ((add_chunk (initrd_request sz) s1)
                  \<lparr>linux_argc := of_nat (length argv + 2), initrd_loaded := True,
                   args_chunk_bytes :=
                     patched (args_chunk_bytes (add_chunk (initrd_request sz) s1))
                       (linux_args_addr (add_chunk (initrd_request sz) s1)) (length argv)
                       (string_offset argv (length argv)) (ch_addr ch) sz\<rparr>)"
    using r by (intro patch_rd_args_Some) (simp_all add: add_chunk_def)
  with p have "s2 = s1\<lparr>relocator := map_option (\<lambda>chunks. chunks @ [initrd_request sz]) (relocator s1),
              linux_argc := of_nat (length argv + 2), initrd_loaded := True,
              args_chunk_bytes :=
                patched (args_chunk_bytes s1) (linux_args_addr s1) (length argv)
                  (string_offset argv (length argv)) (ch_addr ch) sz\<rparr>"
    by (simp add: add_chunk_def)
  with i a show ?thesis by (rule that)
qed

lemma unat_ucast_32_64: "unat (ucast (w :: 32 word) :: 64 word) = unat w"
proof -
  have "unat w < 2 ^ 32" using unsigned_less [of w, where 'a = nat] by simp
  then have "unat w < 2 ^ 64" by simp
  then show ?thesis by (simp add: unsigned_ucast_eq take_bit_nat_eq_self)
qed

lemma unat_ucast_64_32:
  assumes "unat (w :: 64 word) < 2 ^ 32"
  shows "unat (ucast w :: 32 word) = unat w"
  using assms by (simp add: unsigned_ucast_eq take_bit_nat_eq_self)

lemma ucast_down_up:
  assumes "unat (w :: 64 word) < 2 ^ 32"
  shows "(ucast (ucast w :: 32 word) :: 64 word) = w"
proof -
  have "unat (ucast (ucast w :: 32 word) :: 64 word) = unat w"
    unfolding unat_ucast_32_64 using assms by (rule unat_ucast_64_32)
  then show ?thesis by (simp add: word_unat_eq_iff)
qed

lemma ucast_down_nonzero:
  assumes "unat (w :: 64 word) < 2 ^ 32" "0 < unat w"
  shows "(ucast w :: 32 word) \<noteq> 0"
proof
  assume "(ucast w :: 32 word) = 0"
  then have "unat (ucast w :: 32 word) = 0" by simp
  with unat_ucast_64_32 [OF assms(1)] assms(2) show False by simp
qed

lemma unat_of_nat32: "n < 2 ^ 32 \<Longrightarrow> unat (of_nat n :: 32 word) = n"
  by (simp add: unat_of_nat)

lemma max_addr_value:
  assumes "0 < T" "T < 2 ^ 31"
  shows "unat (ucast ((0xffffffff - of_nat T) + 1 :: 32 word) :: 64 word) = 2 ^ 32 - T"
proof -
  have "(of_nat (2 ^ 32 - T) :: 32 word) + of_nat T = of_nat (2 ^ 32)"
    using assms by (simp flip: of_nat_add)
  also have "\<dots> = 0" by simp
  finally have "(of_nat (2 ^ 32 - T) :: 32 word) = - of_nat T"
    by (simp add: eq_neg_iff_add_eq_0)
  then have e: "((0xffffffff - of_nat T) + 1 :: 32 word) = of_nat (2 ^ 32 - T)" by simp
  have "unat (of_nat (2 ^ 32 - T) :: 32 word) = 2 ^ 32 - T"
    by (rule unat_of_nat32) (use assms in simp)
  then show ?thesis unfolding unat_ucast_32_64 e .
qed

lemma unat_base_plus:
  assumes "unat (base :: 64 word) + T \<le> 2 ^ 32" "k < T"
  shows "unat (base + of_nat k) = unat base + k"
proof -
  have k: "unat (of_nat k :: 64 word) = k" using assms by (intro unat_of_nat64) simp
  have "unat base + unat (of_nat k :: 64 word) < 2 ^ 64" unfolding k using assms by simp
  then have "unat (base + of_nat k) = unat base + unat (of_nat k :: 64 word)"
    by (simp add: unat_add_lem [where 'a = 64, simplified])
  then show ?thesis unfolding k .
qed

lemma cmd_initrd_runs:
  assumes args: "rdargv \<noteq> []" and st: "loaded s" "\<not> initrd_loaded s"
    and clear: "grub_errno s = GRUB_ERR_NONE"
    and init: "grub_initrd_init env rdargv = Inr sz"
    and alloc: "grub_relocator_alloc_chunk_align env 0 ((0xffffffff - sz) + 1) sz 0x10000
                  GRUB_RELOCATOR_PREFERENCE_HIGH = Inr ch"
    and load: "grub_initrd_load env rdargv (ch_addr ch) = None"
    and argc: "linux_argc s = of_nat n"
    and A: "rd_addr_arg_off s = of_nat A" "rd_size_arg_off s = of_nat (A + 28)"
    and lay: "4 * n + 8 \<le> A" "A + 56 \<le> args_chunk_size s" "args_chunk_size s < 2 ^ 31"
  shows "\<exists>s2. grub_cmd_initrd env rdargv s = Some (GRUB_ERR_NONE, s2)"
proof -
  have unf: "grub_cmd_initrd env rdargv s =
               Option.bind (patch_rd_args (add_chunk (initrd_request sz) s) (ch_addr ch) sz) fail"
    using args st
    by (simp add: grub_cmd_initrd_def init alloc [simplified] load Let_def initrd_request_def)
  have "\<exists>s2. patch_rd_args (add_chunk (initrd_request sz) s) (ch_addr ch) sz = Some s2
           \<and> grub_errno s2 = GRUB_ERR_NONE"
    using patch_rd_args_Some [of "add_chunk (initrd_request sz) s" n A "ch_addr ch" sz]
      argc A lay clear
    by (simp add: add_chunk_def)
  then show ?thesis unfolding unf by (auto simp: fail_def)
qed

lemma example_bound: "blob_size_spec example_argv = 104"
  by (simp add: blob_size_spec_eq example_argv_def round_up_def)

lemma example_load:
  "grub_cmd_linux example_env example_argv initial_state = Some (GRUB_ERR_NONE, example_loaded)"
proof -
  have "\<exists>s1. grub_cmd_linux example_env example_argv initial_state = Some (GRUB_ERR_NONE, s1)"
    by (simp add: grub_cmd_linux_def example_env_def example_argv_def initial_state_def
        example_image_def grub_loader_unset_def grub_linux_load64_def Let_def linux_args_size_def
        ALIGN_UP_def round_up_def sizeof_str_def grub_strlen_def rd_start_template_def
        rd_size_template_def add_chunk_def build_args_def grub_memcpy_def write_bytes_def
        store_u32_def cstring_def bytes_of_u32_def grub_loader_set_def)
  then show ?thesis unfolding example_loaded_def by auto
qed

lemma example_size: "linux_args_size example_argv = 104"
  using size_values(1) [of example_argv] by (simp add: example_bound)

lemma example_addr: "linux_args_addr example_loaded = 0xffffff98"
proof -
  from example_load obtain elf ch where
    a: "grub_relocator_alloc_chunk_align example_env 0
          (ucast ((0xffffffff - linux_args_size example_argv) + 1 :: 32 word))
          (scast (linux_args_size example_argv)) 8 GRUB_RELOCATOR_PREFERENCE_HIGH = Inr ch"
    and b: "linux_args_addr example_loaded = ch_addr ch"
    by (rule cmd_linux_success_fields)
  from a have "ch_addr ch = 0xffffff98"
    unfolding example_size by (auto simp: example_env_def)
  with b show ?thesis by simp
qed

lemma example_attach:
  "grub_cmd_initrd example_env [''initrd.img''] example_loaded = Some (GRUB_ERR_NONE, example_attached)"
proof -
  from example_load obtain elf ch where
    f: "loaded example_loaded" "\<not> initrd_loaded example_loaded"
       "grub_errno example_loaded = grub_errno initial_state"
    by (rule cmd_linux_success_fields)
  have b: "blob_size_spec example_argv < 2 ^ 31" by (simp add: example_bound)
  note r = blob_reserved [OF example_load b]
  have "\<exists>s2. grub_cmd_initrd example_env [''initrd.img''] example_loaded = Some (GRUB_ERR_NONE, s2)"
    using f r
    by (intro cmd_initrd_runs [where sz = "0x1000" and
            ch = "\<lparr>ch_target = 0xffff0000, ch_addr = 0xffff0000, ch_bytes = (\<lambda>i. 0)\<rparr>"])
       (simp_all add: example_env_def initial_state_def)
  then show ?thesis unfolding example_attached_def by auto
qed

lemma stored_args_nth: "0 < i \<Longrightarrow> i < length argv \<Longrightarrow> stored_args argv ! i = argv ! i"
  by (cases argv; cases i) (simp_all add: stored_args_def)

lemma stored_args_0: "stored_args argv ! 0 = ''a0''"
  by (simp add: stored_args_def)

lemma slot_address:
  assumes "unat (base :: 64 word) + T \<le> 2 ^ 32" "k < T"
  shows "(ucast (ucast (base + of_nat k) :: 32 word) :: 64 word) = base + of_nat k"
    and "0 < k \<Longrightarrow> (ucast (base + of_nat k) :: 32 word) \<noteq> 0"
    and "unat (base + of_nat k) = unat base + k"
proof -
  show u: "unat (base + of_nat k) = unat base + k" using assms by (rule unat_base_plus)
  have lt: "unat (base + of_nat k) < 2 ^ 32" unfolding u using assms by simp
  show "(ucast (ucast (base + of_nat k) :: 32 word) :: 64 word) = base + of_nat k"
    using lt by (rule ucast_down_up)
  show "(ucast (base + of_nat k) :: 32 word) \<noteq> 0" if "0 < k"
    using lt by (rule ucast_down_nonzero) (use that u in simp)
qed

lemma long_size: "linux_args_size long_argv = 80"
  by (simp add: linux_args_size_def long_argv_def Let_def ALIGN_UP_def round_up_def sizeof_str_def
      grub_strlen_def rd_start_template_def rd_size_template_def)

lemma long_spec: "blob_size_spec long_argv = 4294967376"
  by (simp add: blob_size_spec_eq long_argv_def round_up_def)

lemma long_run: "grub_cmd_linux example_env long_argv initial_state = None"
  by (simp add: grub_cmd_linux_def example_env_def long_argv_def initial_state_def
        example_image_def grub_loader_unset_def grub_linux_load64_def Let_def long_size [unfolded long_argv_def]
        ALIGN_UP_def round_up_def sizeof_str_def grub_strlen_def
        add_chunk_def build_args_def grub_memcpy_def write_bytes_def
        store_u32_def cstring_def bytes_of_u32_def)

lemma args_request_value:
  assumes "blob_size_spec argv < 2 ^ 31"
  shows "args_request (linux_args_size argv) =
           Alloc_chunk_align 0 (of_nat (2 ^ 32 - blob_size_spec argv)) (of_nat (blob_size_spec argv)) 8
             GRUB_RELOCATOR_PREFERENCE_HIGH"
proof -
  have "4 * length argv + 72 + strings_bytes (tl argv) \<le> blob_size_spec argv"
    unfolding blob_size_spec_eq by (rule round_up_ge) simp
  then have pos: "0 < blob_size_spec argv" by simp
  have "unat (ucast ((0xffffffff - of_nat (blob_size_spec argv)) + 1 :: 32 word) :: 64 word)
        = 2 ^ 32 - blob_size_spec argv"
    using pos assms by (rule max_addr_value)
  then have "(ucast ((0xffffffff - of_nat (blob_size_spec argv)) + 1 :: 32 word) :: 64 word)
        = of_nat (2 ^ 32 - blob_size_spec argv)"
    by (metis of_nat_unat ucast_id)
  then show ?thesis
    unfolding args_request_def size_values(1) [OF assms]
    using size_values(3) [OF assms, unfolded size_values(1) [OF assms]] by simp
qed

lemma example_attached_flags:
  "loaded example_attached" "initrd_loaded example_attached"
proof -
  from example_attach obtain sz ch where
    "[''initrd.img''] \<noteq> []" and l: "loaded example_loaded" and "\<not> initrd_loaded example_loaded"
    and "grub_initrd_init example_env [''initrd.img''] = Inr sz"
    and "grub_relocator_alloc_chunk_align example_env 0 ((0xffffffff - sz) + 1) sz 0x10000
       GRUB_RELOCATOR_PREFERENCE_HIGH = Inr ch"
    and "grub_initrd_load example_env [''initrd.img''] (ch_addr ch) = None"
    and p: "patch_rd_args (add_chunk (initrd_request sz) example_loaded) (ch_addr ch) sz
              = Some example_attached"
    by (rule cmd_initrd_success_raw)
  have eq: "example_attached =
      (add_chunk (initrd_request sz) example_loaded)
        \<lparr>linux_argc := linux_argc (add_chunk (initrd_request sz) example_loaded) + 2,
         initrd_loaded := True, args_chunk_bytes := args_chunk_bytes example_attached\<rparr>"
    by (rule patch_rd_args_same [OF p])
  show "loaded example_attached"
    by (subst eq) (simp add: add_chunk_def l)
  show "initrd_loaded example_attached"
    by (subst eq) simp
qed

lemma initrd_init_fails:
  assumes "loaded s" "\<not> initrd_loaded s" "rdargv \<noteq> []"
    and "grub_initrd_init env rdargv = Inl e"
  shows "grub_cmd_initrd env rdargv s =
           Some (GRUB_ERR (fst e), s\<lparr>grub_errno := GRUB_ERR (fst e), grub_errmsg := snd e\<rparr>)"
  using assms by (simp add: grub_cmd_initrd_def fail_def reported_def)

lemma initrd_alloc_fails:
  assumes "loaded s" "\<not> initrd_loaded s" "rdargv \<noteq> []"
    and "grub_initrd_init env rdargv = Inr sz"
    and alloc: "grub_relocator_alloc_chunk_align env 0 ((0xffffffff - sz) + 1) sz 0x10000
                  GRUB_RELOCATOR_PREFERENCE_HIGH = Inl e"
  shows "grub_cmd_initrd env rdargv s =
           Some (GRUB_ERR (fst e), s\<lparr>grub_errno := GRUB_ERR (fst e), grub_errmsg := snd e\<rparr>)"
  using assms(1-4) by (simp add: grub_cmd_initrd_def fail_def reported_def Let_def alloc [simplified])

lemma initrd_load_fails:
  assumes "loaded s" "\<not> initrd_loaded s" "rdargv \<noteq> []"
    and "grub_initrd_init env rdargv = Inr sz"
    and alloc: "grub_relocator_alloc_chunk_align env 0 ((0xffffffff - sz) + 1) sz 0x10000
                  GRUB_RELOCATOR_PREFERENCE_HIGH = Inr ch"
    and "grub_initrd_load env rdargv (ch_addr ch) = Some e"
  shows "grub_cmd_initrd env rdargv s =
           Some (GRUB_ERR (fst e),
                 s\<lparr>relocator := map_option (\<lambda>chunks. chunks @ [initrd_request sz]) (relocator s),
                   grub_errno := GRUB_ERR (fst e), grub_errmsg := snd e\<rparr>)"
  using assms(1-4,6)
  by (simp add: grub_cmd_initrd_def fail_def reported_def Let_def alloc [simplified] add_chunk_def
        initrd_request_def)

lemma kernel_loaded_flags: "boot_state_of s = KernelLoaded \<longleftrightarrow> loaded s \<and> \<not> initrd_loaded s"
  by (simp add: boot_state_of_def)

lemma example_loaded_state:
  "boot_state_of example_loaded = KernelLoaded"
  "linux_argc example_loaded = 3"
  "load_u32 (args_chunk_bytes example_loaded) 12 = 0"
  "load_u32 (args_chunk_bytes example_loaded) 16 = 0"
  "loader_registered example_loaded"
proof -
  have b: "blob_size_spec example_argv < 2 ^ 31" by (simp add: example_bound)
  from example_load obtain elf ch where
    f: "loaded example_loaded" "\<not> initrd_loaded example_loaded" "loader_registered example_loaded"
       "linux_argc example_loaded = of_nat (length example_argv)"
    by (rule cmd_linux_success_fields)
  show "boot_state_of example_loaded = KernelLoaded" using f by (simp add: kernel_loaded_flags)
  show "linux_argc example_loaded = 3" using f by (simp add: example_argv_def)
  show "load_u32 (args_chunk_bytes example_loaded) 12 = 0"
    using cmd_linux_success_blob(6) [OF example_load b] by (simp add: example_argv_def)
  show "load_u32 (args_chunk_bytes example_loaded) 16 = 0"
    using cmd_linux_success_blob(7) [OF example_load b] by (simp add: example_argv_def)
  show "loader_registered example_loaded" by (rule f)
qed

lemma load32_flags:
  assumes "grub_linux_load32 env elf s = (err, s3)"
  shows "loaded s3 = loaded s \<and> loader_registered s3 = loader_registered s"
  using assms
  by (auto simp: grub_linux_load32_def Let_def reported_def
           split: if_splits option.splits sum.splits)

lemma load64_flags:
  assumes "grub_linux_load64 env elf s = (err, s3)"
  shows "loaded s3 = loaded s \<and> loader_registered s3 = loader_registered s"
  using assms
  by (auto simp: grub_linux_load64_def Let_def reported_def
           split: if_splits option.splits sum.splits)

lemma place_flags:
  assumes "(if grub_elf_is_elf32 elf then grub_linux_load32 env elf s
            else if grub_elf_is_elf64 elf then grub_linux_load64 env elf s
            else grub_error GRUB_ERR_BAD_OS msg s) = (err, s3)"
  shows "loaded s3 = loaded s \<and> loader_registered s3 = loader_registered s"
  using assms load32_flags [of env elf s err s3] load64_flags [of env elf s err s3]
  by (auto simp: grub_error_def split: if_splits)

lemma cmd_linux_late_failure:
  assumes ne: "argv \<noteq> []" and op: "grub_elf_open env (argv ! 0) = Inr elf"
    and ty: "e_type elf = ET_EXEC"
    and run: "grub_cmd_linux env argv s = Some (err, s')"
    and err: "err \<noteq> GRUB_ERR_NONE"
  shows "\<not> loaded s'" "\<not> loader_registered s'"
proof -
  define s2 where "s2 = (grub_loader_unset s)\<lparr>loaded := False, linux_argc := of_nat (length argv)\<rparr>"
  obtain e3 s3 where D:
    "(if grub_elf_is_elf32 elf then grub_linux_load32 env elf s2
      else if grub_elf_is_elf64 elf then grub_linux_load64 env elf s2
      else grub_error GRUB_ERR_BAD_OS ''invalid arch-dependent ELF magic'' s2) = (e3, s3)"
    by (rule prod.exhaust)
  from place_flags [OF D] have f3: "\<not> loaded s3" "\<not> loader_registered s3"
    by (simp_all add: s2_def loader_unset_fields)
  note u = cmd_linux_unfold [OF ne op ty D [unfolded s2_def]]
  have "\<not> loaded s' \<and> \<not> loader_registered s'"
  proof (cases "e3 = GRUB_ERR_NONE")
    case False
    with u run have "s' = s3" by simp
    with f3 show ?thesis by simp
  next
    case True
    show ?thesis
    proof (cases "grub_relocator_alloc_chunk_align env 0
               (ucast ((0xffffffff - linux_args_size argv) + 1 :: 32 word))
               (scast (linux_args_size argv)) 8 GRUB_RELOCATOR_PREFERENCE_HIGH")
      case (Inl e)
      with u run True have "s' = reported e s3" by simp
      with f3 show ?thesis by (simp add: reported_def)
    next
      case (Inr ch)
      with u run True err show ?thesis by (simp split: option.splits)
    qed
  qed
  then show "\<not> loaded s'" "\<not> loader_registered s'" by simp_all
qed

lemma cmd_linux_early_failure:
  assumes early: "argv = [] \<or> (\<forall>elf. grub_elf_open env (argv ! 0) = Inr elf \<longrightarrow> e_type elf \<noteq> ET_EXEC)"
    and run: "grub_cmd_linux env argv s = Some (err, s')"
  shows "err \<noteq> GRUB_ERR_NONE"
    and "s' = s\<lparr>grub_errno := grub_errno s', grub_errmsg := grub_errmsg s'\<rparr>"
  using assms
  by (auto simp: grub_cmd_linux_def grub_error_def reported_def Let_def
           split: if_splits sum.splits)

lemma full_env_load:
  "\<exists>s'. grub_cmd_linux full_env example_argv example_loaded = Some (GRUB_ERR (OTHER_ERROR 2), s')"
proof -
  define s2 where
    "s2 = (grub_loader_unset example_loaded)\<lparr>loaded := False, linux_argc := of_nat (length example_argv)\<rparr>"
  obtain e3 s3 where D:
    "(if grub_elf_is_elf32 example_image then grub_linux_load32 full_env example_image s2
      else if grub_elf_is_elf64 example_image then grub_linux_load64 full_env example_image s2
      else grub_error GRUB_ERR_BAD_OS ''invalid arch-dependent ELF magic'' s2) = (e3, s3)"
    by (rule prod.exhaust)
  have e3: "e3 = GRUB_ERR_NONE"
    using D
    by (simp add: example_image_def grub_linux_load64_def Let_def full_env_def example_env_def
          ALIGN_UP_def round_up_def)
  have op: "grub_elf_open full_env (example_argv ! 0) = Inr example_image"
    by (simp add: full_env_def example_env_def)
  have ne: "example_argv \<noteq> []" by (simp add: example_argv_def)
  have ty: "e_type example_image = ET_EXEC" by (simp add: example_image_def)
  have al: "grub_relocator_alloc_chunk_align full_env 0
               (ucast ((0xffffffff - linux_args_size example_argv) + 1 :: 32 word))
               (scast (linux_args_size example_argv)) 8 GRUB_RELOCATOR_PREFERENCE_HIGH
            = Inl (OTHER_ERROR 2, ''out of memory'')"
    by (simp add: full_env_def)
  show ?thesis
    unfolding cmd_linux_unfold [OF ne op ty D [unfolded s2_def]] e3 al by simp
qed

lemma boot_registers:
  "grub_linux_boot s =
     \<lparr>gpr = (\<lambda>r. 0)(1 := entry_addr s, 4 := scast (linux_argc s), 5 := linux_args_addr s),
      jumpreg = 1\<rparr>"
  by (simp add: grub_linux_boot_def Let_def)

lemma attach_fields:
  assumes att: "grub_cmd_initrd env rdargv s = Some (GRUB_ERR_NONE, s2)"
  shows "loaded s2" "initrd_loaded s2" "entry_addr s2 = entry_addr s"
    "linux_argc s2 = linux_argc s + 2" "linux_args_addr s2 = linux_args_addr s"
proof -
  from att obtain sz ch where
    "rdargv \<noteq> []" and l: "loaded s" and "\<not> initrd_loaded s"
    and "grub_initrd_init env rdargv = Inr sz"
    and "grub_relocator_alloc_chunk_align env 0 ((0xffffffff - sz) + 1) sz 0x10000
       GRUB_RELOCATOR_PREFERENCE_HIGH = Inr ch"
    and "grub_initrd_load env rdargv (ch_addr ch) = None"
    and p: "patch_rd_args (add_chunk (initrd_request sz) s) (ch_addr ch) sz = Some s2"
    by (rule cmd_initrd_success_raw)
  have eq: "s2 =
      (add_chunk (initrd_request sz) s)
        \<lparr>linux_argc := linux_argc (add_chunk (initrd_request sz) s) + 2,
         initrd_loaded := True, args_chunk_bytes := args_chunk_bytes s2\<rparr>"
    by (rule patch_rd_args_same [OF p])
  show "loaded s2" by (subst eq) (simp add: add_chunk_def l)
  show "initrd_loaded s2" by (subst eq) simp
  show "entry_addr s2 = entry_addr s" by (subst eq) (simp add: add_chunk_def)
  show "linux_argc s2 = linux_argc s + 2" by (subst eq) (simp add: add_chunk_def)
  show "linux_args_addr s2 = linux_args_addr s" by (subst eq) (simp add: add_chunk_def)
qed

lemma example_open: "grub_elf_open example_env (example_argv ! 0) = Inr example_image"
  by (simp add: example_env_def)

lemma ALIGN_UP_8_bounds:
  assumes "unat (x :: 64 word) + 7 < 2 ^ 64"
  shows "unat (ALIGN_UP x 8) = round_up (unat x) 8"
    and "8 dvd unat (ALIGN_UP x 8)"
    and "unat x \<le> unat (ALIGN_UP x 8)"
    and "unat (ALIGN_UP x 8) < unat x + 8"
proof -
  have "round_up (unat x) 8 < unat x + 8" by (rule round_up_less) simp
  with assms have "round_up (unat x) 8 < 2 ^ LENGTH(64)" by simp
  then show u: "unat (ALIGN_UP x 8) = round_up (unat x) 8" by (rule unat_ALIGN_UP)
  show "8 dvd unat (ALIGN_UP x 8)" unfolding u by (rule round_up_dvd)
  show "unat x \<le> unat (ALIGN_UP x 8)" unfolding u by (rule round_up_ge) simp
  show "unat (ALIGN_UP x 8) < unat x + 8" unfolding u by (rule round_up_less) simp
qed

lemma example_load32:
  "\<exists>s1. grub_cmd_linux example_env32 example_argv initial_state = Some (GRUB_ERR_NONE, s1)"
  by (simp add: grub_cmd_linux_def example_env32_def example_env_def example_argv_def initial_state_def
        example_image32_def grub_loader_unset_def grub_linux_load32_def Let_def linux_args_size_def
        ALIGN_UP_def round_up_def sizeof_str_def grub_strlen_def rd_start_template_def
        rd_size_template_def add_chunk_def build_args_def grub_memcpy_def write_bytes_def
        store_u32_def cstring_def bytes_of_u32_def grub_loader_set_def)

lemma initrd_chunk_low:
  assumes sz: "unat (sz :: 64 word) \<le> 2 ^ 32"
    and a: "a \<le> (0xffffffff - sz) + 1"
  shows "unat a + unat sz \<le> 2 ^ 32"
proof -
  have e: "(0xffffffff - sz) + 1 = 0x100000000 - sz" by simp
  have le: "sz \<le> 0x100000000" using sz by (simp add: word_le_nat_alt)
  have "unat (0x100000000 - sz) = unat (0x100000000 :: 64 word) - unat sz"
    using le by (rule unat_sub)
  then have u: "unat ((0xffffffff - sz) + 1) = 2 ^ 32 - unat sz"
    unfolding e by simp
  from a have "unat a \<le> unat ((0xffffffff - sz) + 1)" by (simp only: word_le_nat_alt)
  with u sz show ?thesis by simp
qed

lemma big_attach:
  "\<exists>s2. grub_cmd_initrd big_env [''initrd.img''] example_loaded = Some (GRUB_ERR_NONE, s2)"
proof -
  from example_load obtain elf ch where
    f: "loaded example_loaded" "\<not> initrd_loaded example_loaded"
       "grub_errno example_loaded = grub_errno initial_state"
    by (rule cmd_linux_success_fields)
  have b: "blob_size_spec example_argv < 2 ^ 31" by (simp add: example_bound)
  note r = blob_reserved [OF example_load b]
  show ?thesis
    using f r
    by (intro cmd_initrd_runs [where sz = "0x100010000" and ch = high_chunk])
       (simp_all add: big_env_def example_env_def initial_state_def)
qed


lemma example_offsets:
  "string_offset example_argv 0 = 24" "string_offset example_argv 1 = 28"
  "string_offset example_argv 2 = 40" "string_offset example_argv 3 = 44"
  by (simp_all add: string_offset_def stored_args_def example_argv_def strings_bytes_def
        round_up_def)

lemma example_attached_fields:
  "linux_args_addr example_attached = 0xffffff98"
  "rd_addr_arg_off example_attached = 44"
  "rd_size_arg_off example_attached = 72"
proof -
  have b: "blob_size_spec example_argv < 2 ^ 31" by (simp add: example_bound)
  from example_load b example_attach obtain sz ch where
    "grub_initrd_init example_env [''initrd.img''] = Inr sz"
    and "grub_relocator_alloc_chunk_align example_env 0 ((0xffffffff - sz) + 1) sz 0x10000
       GRUB_RELOCATOR_PREFERENCE_HIGH = Inr ch"
    and eq: "example_attached =
       example_loaded\<lparr>relocator :=
            map_option (\<lambda>chunks. chunks @ [initrd_request sz]) (relocator example_loaded),
          linux_argc := of_nat (length example_argv + 2), initrd_loaded := True,
          args_chunk_bytes :=
            patched (args_chunk_bytes example_loaded) (linux_args_addr example_loaded)
              (length example_argv) (string_offset example_argv (length example_argv))
              (ch_addr ch) sz\<rparr>"
    by (rule attach_after_load)
  have l: "length example_argv = 3" by (simp add: example_argv_def)
  note r = blob_reserved(2,3) [OF example_load b, unfolded l example_offsets]
  show "linux_args_addr example_attached = 0xffffff98"
    by (subst eq) (simp add: example_addr)
  show "rd_addr_arg_off example_attached = 44"
    by (subst eq) (simp add: r)
  show "rd_size_arg_off example_attached = 72"
    by (subst eq) (simp add: r)
qed

lemma cmd_linux_placed:
  assumes run: "grub_cmd_linux env argv s = Some (GRUB_ERR_NONE, s1)"
    and image: "grub_elf_open env (argv ! 0) = Inr elf"
    and valid: "image_span elf \<noteq> 0"
  shows "grub_elf_is_elf32 elf \<or> grub_elf_is_elf64 elf"
    and "target_addr s1 = image_base elf"
    and "linux_size s1 = ALIGN_UP (image_span elf) 8"
    and "relocator s1 = Some [Alloc_chunk_addr (grub_vtop env (image_base elf))
                                (ALIGN_UP (image_span elf) 8),
                              args_request (linux_args_size argv)]"
proof -
  from run obtain elf2 ch where
    op: "grub_elf_open env (argv ! 0) = Inr elf2"
    and w: "grub_elf_is_elf32 elf2 \<or> grub_elf_is_elf64 elf2"
    and nz: "image_span elf2 \<noteq> 0 \<longrightarrow>
       target_addr s1 = image_base elf2 \<and> linux_size s1 = ALIGN_UP (image_span elf2) 8
       \<and> relocator s1 = Some [Alloc_chunk_addr (grub_vtop env (image_base elf2))
                                 (ALIGN_UP (image_span elf2) 8),
                               args_request (linux_args_size argv)]"
    by (rule cmd_linux_success_fields)
  from op image have e: "elf2 = elf" by simp
  from w show "grub_elf_is_elf32 elf \<or> grub_elf_is_elf64 elf" unfolding e .
  from nz valid show "target_addr s1 = image_base elf" unfolding e by simp
  from nz valid show "linux_size s1 = ALIGN_UP (image_span elf) 8" unfolding e by simp
  from nz valid show "relocator s1 = Some [Alloc_chunk_addr (grub_vtop env (image_base elf))
                                (ALIGN_UP (image_span elf) 8),
                              args_request (linux_args_size argv)]"
    unfolding e by simp
qed

lemma empty_env_load:
  "\<exists>s'. grub_cmd_linux empty_env example_argv example_loaded = Some (GRUB_ERR_BAD_OS, s')"
proof -
  define s2 where
    "s2 = (grub_loader_unset example_loaded)\<lparr>loaded := False, linux_argc := of_nat (length example_argv)\<rparr>"
  obtain e3 s3 where D:
    "(if grub_elf_is_elf32 empty_image then grub_linux_load32 empty_env empty_image s2
      else if grub_elf_is_elf64 empty_image then grub_linux_load64 empty_env empty_image s2
      else grub_error GRUB_ERR_BAD_OS ''invalid arch-dependent ELF magic'' s2) = (e3, s3)"
    by (rule prod.exhaust)
  have e3: "e3 = GRUB_ERR_BAD_OS"
    using D
    by (simp add: empty_image_def example_image_def grub_linux_load64_def Let_def reported_def)
  have op: "grub_elf_open empty_env (example_argv ! 0) = Inr empty_image"
    by (simp add: empty_env_def)
  have ne: "example_argv \<noteq> []" by (simp add: example_argv_def)
  have ty: "e_type empty_image = ET_EXEC" by (simp add: empty_image_def example_image_def)
  show ?thesis
    unfolding cmd_linux_unfold [OF ne op ty D [unfolded s2_def]] e3 by simp
qed

lemma silent_stale_load:
  "\<exists>s'. grub_cmd_linux silent_env example_argv
           (example_loaded\<lparr>grub_errno := GRUB_ERR_BAD_ARGUMENT\<rparr>)
         = Some (GRUB_ERR_BAD_ARGUMENT, s')"
proof -
  define s2 where
    "s2 = (grub_loader_unset (example_loaded\<lparr>grub_errno := GRUB_ERR_BAD_ARGUMENT\<rparr>))
            \<lparr>loaded := False, linux_argc := of_nat (length example_argv)\<rparr>"
  obtain e3 s3 where D:
    "(if grub_elf_is_elf32 silent_image then grub_linux_load32 silent_env silent_image s2
      else if grub_elf_is_elf64 silent_image then grub_linux_load64 silent_env silent_image s2
      else grub_error GRUB_ERR_BAD_OS ''invalid arch-dependent ELF magic'' s2) = (e3, s3)"
    by (rule prod.exhaust)
  have e3: "e3 = GRUB_ERR_BAD_ARGUMENT"
    using D
    by (simp add: silent_image_def example_image_def grub_linux_load64_def Let_def s2_def
          loader_unset_fields)
  have op: "grub_elf_open silent_env (example_argv ! 0) = Inr silent_image"
    by (simp add: silent_env_def)
  have ne: "example_argv \<noteq> []" by (simp add: example_argv_def)
  have ty: "e_type silent_image = ET_EXEC" by (simp add: silent_image_def example_image_def)
  show ?thesis
    unfolding cmd_linux_unfold [OF ne op ty D [unfolded s2_def]] e3 by simp
qed

lemma silent_load:
  "\<exists>s1. grub_cmd_linux silent_env example_argv initial_state = Some (GRUB_ERR_NONE, s1)
        \<and> loaded s1 \<and> loader_registered s1 \<and> linux_size s1 = 0 \<and> relocator s1 = None"
proof -
  have "\<exists>s1. grub_cmd_linux silent_env example_argv initial_state = Some (GRUB_ERR_NONE, s1)"
    by (simp add: grub_cmd_linux_def silent_env_def silent_image_def example_env_def
        example_argv_def initial_state_def
        example_image_def grub_loader_unset_def grub_linux_load64_def Let_def linux_args_size_def
        ALIGN_UP_def round_up_def sizeof_str_def grub_strlen_def rd_start_template_def
        rd_size_template_def add_chunk_def build_args_def grub_memcpy_def write_bytes_def
        store_u32_def cstring_def bytes_of_u32_def grub_loader_set_def)
  then obtain s1 where
    r: "grub_cmd_linux silent_env example_argv initial_state = Some (GRUB_ERR_NONE, s1)"
    by blast
  from r obtain elf ch where
    op: "grub_elf_open silent_env (example_argv ! 0) = Inr elf"
    and f: "loaded s1" "loader_registered s1"
    and z: "image_span elf = 0 \<longrightarrow>
       target_addr s1 = target_addr (grub_loader_unset initial_state) \<and> linux_size s1 = 0
       \<and> relocator s1 =
           map_option (\<lambda>chunks. chunks @ [args_request (linux_args_size example_argv)])
             (relocator (grub_loader_unset initial_state))"
    by (rule cmd_linux_success_fields)
  from op have e: "elf = silent_image" by (simp add: silent_env_def)
  have sp: "image_span elf = 0"
    unfolding e by (simp add: image_span_def silent_image_def example_image_def)
  from z sp have "linux_size s1 = 0" "relocator s1 = None"
    by (simp_all add: grub_loader_unset_def initial_state_def)
  with r f show ?thesis by blast
qed





lemma attach_after_load_gen:
  assumes run: "grub_cmd_linux env argv s = Some (GRUB_ERR_NONE, s1)"
      and bound: "blob_size_spec argv < 2 ^ 31"
      and att: "grub_cmd_initrd env' rdargv
                  (s1\<lparr>grub_errno := e, grub_errmsg := msg, relocator := r\<rparr>)
                = Some (GRUB_ERR_NONE, s2)"
  obtains sz ch where
    "grub_initrd_init env' rdargv = Inr sz"
    "grub_relocator_alloc_chunk_align env' 0 ((0xffffffff - sz) + 1) sz 0x10000
       GRUB_RELOCATOR_PREFERENCE_HIGH = Inr ch"
    "args_chunk_bytes s2 =
       patched (args_chunk_bytes s1) (linux_args_addr s1) (length argv)
         (string_offset argv (length argv)) (ch_addr ch) sz"
    "linux_argc s2 = of_nat (length argv + 2)"
    "initrd_loaded s2" "loaded s2"
    "linux_args_addr s2 = linux_args_addr s1"
    "rd_addr_arg_off s2 = rd_addr_arg_off s1"
    "rd_size_arg_off s2 = rd_size_arg_off s1"
    "entry_addr s2 = entry_addr s1"
    "relocator s2 = map_option (\<lambda>chunks. chunks @ [initrd_request sz]) r"
proof -
  define s1' where "s1' = s1\<lparr>grub_errno := e, grub_errmsg := msg, relocator := r\<rparr>"
  from att obtain sz ch where
    "rdargv \<noteq> []" and l: "loaded s1'" and "\<not> initrd_loaded s1'"
    and i: "grub_initrd_init env' rdargv = Inr sz"
    and a: "grub_relocator_alloc_chunk_align env' 0 ((0xffffffff - sz) + 1) sz 0x10000
       GRUB_RELOCATOR_PREFERENCE_HIGH = Inr ch"
    and "grub_initrd_load env' rdargv (ch_addr ch) = None"
    and p: "patch_rd_args (add_chunk (initrd_request sz) s1') (ch_addr ch) sz = Some s2"
    unfolding s1'_def [symmetric] by (rule cmd_initrd_success_raw)
  note r = blob_reserved [OF run bound]
  have "patch_rd_args (add_chunk (initrd_request sz) s1') (ch_addr ch) sz =
          Some ((add_chunk (initrd_request sz) s1')
                  \<lparr>linux_argc := of_nat (length argv + 2), initrd_loaded := True,
                   args_chunk_bytes :=
                     patched (args_chunk_bytes (add_chunk (initrd_request sz) s1'))
                       (linux_args_addr (add_chunk (initrd_request sz) s1')) (length argv)
                       (string_offset argv (length argv)) (ch_addr ch) sz\<rparr>)"
    using r by (intro patch_rd_args_Some) (simp_all add: add_chunk_def s1'_def)
  with p have s2: "s2 = (add_chunk (initrd_request sz) s1')
                  \<lparr>linux_argc := of_nat (length argv + 2), initrd_loaded := True,
                   args_chunk_bytes :=
                     patched (args_chunk_bytes (add_chunk (initrd_request sz) s1'))
                       (linux_args_addr (add_chunk (initrd_request sz) s1')) (length argv)
                       (string_offset argv (length argv)) (ch_addr ch) sz\<rparr>"
    by simp
  have l1: "loaded s1" using l by (simp add: s1'_def)
  show ?thesis
    by (rule that [OF i a]; subst s2) (simp_all add: add_chunk_def s1'_def l1)
qed

lemma mapped_load:
  "grub_cmd_linux mapped_env example_argv initial_state = Some (GRUB_ERR_NONE, mapped_loaded)"
proof -
  have "\<exists>s1. grub_cmd_linux mapped_env example_argv initial_state = Some (GRUB_ERR_NONE, s1)"
    by (simp add: grub_cmd_linux_def mapped_env_def example_env_def example_argv_def
        initial_state_def
        example_image_def grub_loader_unset_def grub_linux_load64_def Let_def linux_args_size_def
        ALIGN_UP_def round_up_def sizeof_str_def grub_strlen_def rd_start_template_def
        rd_size_template_def add_chunk_def build_args_def grub_memcpy_def write_bytes_def
        store_u32_def cstring_def bytes_of_u32_def grub_loader_set_def)
  then show ?thesis unfolding mapped_loaded_def by auto
qed

lemma mapped_alloc:
  "grub_relocator_alloc_chunk_align mapped_env 0 0xffffff98 104 8 GRUB_RELOCATOR_PREFERENCE_HIGH
     = Inr mapped_chunk"
  by (simp add: mapped_env_def mapped_chunk_def)

lemma mapped_addr: "linux_args_addr mapped_loaded = 0x98000000ffffff98"
proof -
  from mapped_load obtain elf ch where
    a: "grub_relocator_alloc_chunk_align mapped_env 0
          (ucast ((0xffffffff - linux_args_size example_argv) + 1 :: 32 word))
          (scast (linux_args_size example_argv)) 8 GRUB_RELOCATOR_PREFERENCE_HIGH = Inr ch"
    and b: "linux_args_addr mapped_loaded = ch_addr ch"
    by (rule cmd_linux_success_fields)
  from a have "ch = mapped_chunk"
    unfolding example_size using mapped_alloc by simp
  with b show ?thesis by (simp add: mapped_chunk_def)
qed

lemma target_below:
  assumes "T < 2 ^ 31" "(t :: 64 word) \<le> of_nat (2 ^ 32 - T)"
  shows "unat t + T \<le> 2 ^ 32"
proof -
  have "unat (of_nat (2 ^ 32 - T) :: 64 word) = 2 ^ 32 - T"
    by (rule unat_of_nat64) simp
  with assms(2) have "unat t \<le> 2 ^ 32 - T" by (simp add: word_le_nat_alt)
  with assms(1) show ?thesis by simp
qed

section \<open>The claims\<close>

subsection \<open>Claim C8\<close>

text \<open>
  C8: for every image whose header format discriminant is not "executable"
  (relocatable, shared or anything else), \<open>grub_cmd_linux\<close> fails with
  \<open>GRUB_ERR_UNKNOWN_OS\<close> ("this ELF file is not of the right type", the
  specification's WrongExecutableType) and performs no allocation: the state it
  leaves is the state it found with nothing but the error recorded, so the
  relocator and the chunks it holds are as before.
\<close>

theorem load_rejects_non_executable:
  assumes "argv \<noteq> []"
      and "grub_elf_open env (argv ! 0) = Inr elf"
      and "e_type elf \<noteq> ET_EXEC"
  shows "grub_cmd_linux env argv s =
           Some (GRUB_ERR_UNKNOWN_OS,
                 s\<lparr>grub_errno := GRUB_ERR_UNKNOWN_OS,
                   grub_errmsg := ''this ELF file is not of the right type''\<rparr>)"
  using assms by (simp add: grub_cmd_linux_def grub_error_def)

theorem load_rejects_non_executable_witness:
  "grub_cmd_linux (example_env\<lparr>grub_elf_open := (\<lambda>name. Inr shared_image)\<rparr>)
       example_argv initial_state =
     Some (GRUB_ERR_UNKNOWN_OS,
           initial_state\<lparr>grub_errno := GRUB_ERR_UNKNOWN_OS,
             grub_errmsg := ''this ELF file is not of the right type''\<rparr>)"
  by (rule load_rejects_non_executable [where elf = shared_image])
     (simp_all add: example_argv_def shared_image_def)

subsection \<open>Claim C3\<close>

text \<open>
  C3: after a successful load of an argument sequence whose blob size fits the
  \<^verbatim>\<open>int\<close> in which it is computed, the blob has this layout.  Slot 0 of the
  pointer table holds the (32-bit) address of a copy of the literal \<open>"a0"\<close>,
  whatever \<open>argv ! 0\<close> is; slots 1 to argc-1 hold, in order, the addresses of
  NUL-terminated copies of the arguments 1 to argc-1; every copy starts at a
  multiple of 4 from the start of the blob (so at a multiple of 4 when the chunk
  is aligned), behind the table, and ends before the next one starts; the slots
  argc, argc+1 and argc+2 are 0; and \<open>rd_addr_arg_off\<close> and \<open>rd_size_arg_off\<close>
  are the offsets of two regions of 28 bytes behind the last copy, which lie in
  the blob.  The address in a slot is the address of the blob plus the offset of
  the string, cut to 32 bits as the code stores it.
\<close>

theorem blob_layout_after_load:
  assumes load: "grub_cmd_linux env argv s = Some (GRUB_ERR_NONE, s1)"
      and bound: "blob_size_spec argv < 2 ^ 31"
  shows "load_u32 (args_chunk_bytes s1) 0 = ucast (linux_args_addr s1 + of_nat (string_offset argv 0))
       \<and> string_at (args_chunk_bytes s1) (string_offset argv 0) ''a0''
       \<and> (\<forall>i. 1 \<le> i \<and> i < length argv \<longrightarrow>
             load_u32 (args_chunk_bytes s1) (4 * i)
               = ucast (linux_args_addr s1 + of_nat (string_offset argv i))
             \<and> string_at (args_chunk_bytes s1) (string_offset argv i) (argv ! i))
       \<and> (\<forall>i. i < length argv \<longrightarrow>
             4 dvd string_offset argv i
             \<and> 4 * (length argv + 3) \<le> string_offset argv i
             \<and> string_offset argv i + length (stored_args argv ! i) + 1 \<le> string_offset argv (Suc i)
             \<and> (4 dvd unat (linux_args_addr s1) \<longrightarrow>
                  4 dvd unat (linux_args_addr s1 + of_nat (string_offset argv i))))
       \<and> load_u32 (args_chunk_bytes s1) (4 * length argv) = 0
       \<and> load_u32 (args_chunk_bytes s1) (4 * (length argv + 1)) = 0
       \<and> load_u32 (args_chunk_bytes s1) (4 * (length argv + 2)) = 0
       \<and> rd_addr_arg_off s1 = of_nat (string_offset argv (length argv))
       \<and> rd_size_arg_off s1 = of_nat (string_offset argv (length argv) + 28)
       \<and> string_offset argv (length argv) + 28 + 28 \<le> args_chunk_size s1"
proof -
  from load obtain elf ch where ne: "argv \<noteq> []" by (rule cmd_linux_success_fields)
  then have pos: "0 < length argv" by simp
  note blob = cmd_linux_success_blob [OF load bound]
  note off = string_offset_bounds [OF ne]
  have s0: "load_u32 (args_chunk_bytes s1) 0 = ucast (linux_args_addr s1 + of_nat (string_offset argv 0))"
    using blob(4) [OF pos] by simp
  have a0: "string_at (args_chunk_bytes s1) (string_offset argv 0) ''a0''"
    using blob(5) [OF pos] by (simp add: stored_args_0)
  have rest: "load_u32 (args_chunk_bytes s1) (4 * i)
               = ucast (linux_args_addr s1 + of_nat (string_offset argv i))
             \<and> string_at (args_chunk_bytes s1) (string_offset argv i) (argv ! i)"
    if "1 \<le> i \<and> i < length argv" for i
    using blob(4) [of i] blob(5) [of i] that by (simp add: stored_args_nth)
  have al: "4 dvd unat (linux_args_addr s1 + of_nat (string_offset argv i))"
    if "4 dvd unat (linux_args_addr s1)" for i
  proof -
    have "unat (linux_args_addr s1 + of_nat (string_offset argv i))
          = (unat (linux_args_addr s1) + string_offset argv i mod 2 ^ 64) mod 2 ^ 64"
      by (simp add: unat_word_ariths unat_of_nat)
    moreover have "(4::nat) dvd 2 ^ 64" by simp
    ultimately show ?thesis
      using that dvd_string_offset [of argv i]
      by (metis dvd_add dvd_mod)
  qed
  have geo: "4 dvd string_offset argv i
             \<and> 4 * (length argv + 3) \<le> string_offset argv i
             \<and> string_offset argv i + length (stored_args argv ! i) + 1 \<le> string_offset argv (Suc i)
             \<and> (4 dvd unat (linux_args_addr s1) \<longrightarrow>
                  4 dvd unat (linux_args_addr s1 + of_nat (string_offset argv i)))"
    if "i < length argv" for i
    using dvd_string_offset [of argv i] off(1) [of i] off(4) [OF that] al [of i] by simp
  have fit: "string_offset argv (length argv) + 28 + 28 \<le> args_chunk_size s1"
    unfolding blob(1) using off(3) by simp
  show ?thesis
    using s0 a0 rest geo blob(6) blob(7) blob(8) blob(2) blob(3) fit by blast
qed

theorem blob_layout_after_load_witness:
  "grub_cmd_linux example_env example_argv initial_state = Some (GRUB_ERR_NONE, example_loaded)
   \<and> blob_size_spec example_argv < 2 ^ 31
   \<and> string_offset example_argv 0 = 24
   \<and> load_u32 (args_chunk_bytes example_loaded) 0 = 0xffffffb0
   \<and> string_at (args_chunk_bytes example_loaded) 24 ''a0''
   \<and> string_offset example_argv 1 = 28
   \<and> load_u32 (args_chunk_bytes example_loaded) 4 = 0xffffffb4
   \<and> string_at (args_chunk_bytes example_loaded) 28 ''console=tty''
   \<and> string_offset example_argv 2 = 40
   \<and> load_u32 (args_chunk_bytes example_loaded) 8 = 0xffffffc0
   \<and> string_at (args_chunk_bytes example_loaded) 40 ''ro''
   \<and> load_u32 (args_chunk_bytes example_loaded) 12 = 0
   \<and> load_u32 (args_chunk_bytes example_loaded) 16 = 0
   \<and> load_u32 (args_chunk_bytes example_loaded) 20 = 0
   \<and> rd_addr_arg_off example_loaded = 44
   \<and> rd_size_arg_off example_loaded = 72"
proof -
  have b: "blob_size_spec example_argv < 2 ^ 31" by (simp add: example_bound)
  have o: "string_offset example_argv 0 = 24" "string_offset example_argv 1 = 28"
    "string_offset example_argv 2 = 40" "string_offset example_argv 3 = 44"
    "string_offset example_argv (Suc 0) = 28"
    by (simp_all add: string_offset_def stored_args_def example_argv_def round_up_def)
  have l: "length example_argv = 3" "example_argv ! 1 = ''console=tty''" "example_argv ! 2 = ''ro''"
    "example_argv ! Suc 0 = ''console=tty''"
    by (simp_all add: example_argv_def)
  note t = blob_layout_after_load [OF example_load b, unfolded l]
  note q = t [THEN conjunct2, THEN conjunct2, THEN conjunct1, rule_format]
  have 1: "load_u32 (args_chunk_bytes example_loaded) (4 * 1)
               = ucast (linux_args_addr example_loaded + of_nat (string_offset example_argv 1))
             \<and> string_at (args_chunk_bytes example_loaded) (string_offset example_argv 1) (example_argv ! 1)"
    by (rule q) simp
  have 2: "load_u32 (args_chunk_bytes example_loaded) (4 * 2)
               = ucast (linux_args_addr example_loaded + of_nat (string_offset example_argv 2))
             \<and> string_at (args_chunk_bytes example_loaded) (string_offset example_argv 2) (example_argv ! 2)"
    by (rule q) simp
  show ?thesis
    using example_load b t 1 2 by (simp add: o l example_addr)
qed

subsection \<open>Claim C4\<close>



subsection \<open>Claim C1\<close>

text \<open>
  C1, as stated, fails: the code has no check of the size computation.  For
  \<open>long_argv\<close> the exact size is 4294967376, the \<^verbatim>\<open>int\<close> computed is 80, the
  command is not refused, 80 bytes are asked for, and the copy of the long
  argument leaves the chunk (the embedding's \<open>None\<close>).
\<close>

theorem args_size_overflow_counterexample:
  "blob_size_spec long_argv = 4294967376
   \<and> linux_args_size long_argv = 80
   \<and> grub_cmd_linux example_env long_argv initial_state = None"
  using long_spec long_size long_run by simp

text \<open>
  C1, amended: for every argument sequence whose exact size, in the
  specification's formula, is below \<open>2 ^ 31\<close> (the range of the \<^verbatim>\<open>int\<close> that
  holds it), the size computed before the allocation is that size; the command
  never stores outside the chunk; when it succeeds, the chunk it asked the
  allocator for and holds has exactly that size (the request is the last one
  of the relocator, and the second one, after the kernel's, whenever the image
  has a span that is not 0), and no later initrd command stores outside it,
  also after initrd commands that failed in between (which change nothing but
  the recorded error and the relocator).
\<close>

theorem args_size_exact_and_stores_in_bounds:
  assumes bound: "blob_size_spec argv < 2 ^ 31"
  shows "sint (linux_args_size argv) = int (blob_size_spec argv)
       \<and> grub_cmd_linux env argv s \<noteq> None
       \<and> (grub_cmd_linux env argv s = Some (GRUB_ERR_NONE, s1) \<longrightarrow>
            args_chunk_size s1 = blob_size_spec argv
            \<and> (\<exists>ch. grub_relocator_alloc_chunk_align env 0
                        (of_nat (2 ^ 32 - blob_size_spec argv))
                        (of_nat (blob_size_spec argv)) 8 GRUB_RELOCATOR_PREFERENCE_HIGH = Inr ch
                     \<and> linux_args_addr s1 = ch_addr ch)
            \<and> (\<exists>held. relocator s1 =
                  map_option
                    (\<lambda>chunks. chunks @
                       [Alloc_chunk_align 0 (of_nat (2 ^ 32 - blob_size_spec argv))
                          (of_nat (blob_size_spec argv)) 8 GRUB_RELOCATOR_PREFERENCE_HIGH])
                    held)
            \<and> ((\<exists>elf. grub_elf_open env (argv ! 0) = Inr elf \<and> image_span elf \<noteq> 0) \<longrightarrow>
                 (\<exists>kernel_chunk. relocator s1 =
                    Some [kernel_chunk,
                          Alloc_chunk_align 0 (of_nat (2 ^ 32 - blob_size_spec argv))
                            (of_nat (blob_size_spec argv)) 8 GRUB_RELOCATOR_PREFERENCE_HIGH]))
            \<and> grub_cmd_initrd env' rdargv
                  (s1\<lparr>grub_errno := e, grub_errmsg := msg, relocator := r\<rparr>) \<noteq> None)"
proof -
  define req where
    "req = Alloc_chunk_align 0 (of_nat (2 ^ 32 - blob_size_spec argv))
             (of_nat (blob_size_spec argv)) 8 GRUB_RELOCATOR_PREFERENCE_HIGH"
  have rq: "args_request (linux_args_size argv) = req"
    unfolding req_def using bound by (rule args_request_value)
  have a: "sint (linux_args_size argv) = int (blob_size_spec argv)"
    using bound by (rule size_values(4))
  have b: "grub_cmd_linux env argv s \<noteq> None"
    using bound by (rule cmd_linux_total)
  have c: "args_chunk_size s1 = blob_size_spec argv
            \<and> (\<exists>ch. grub_relocator_alloc_chunk_align env 0
                        (of_nat (2 ^ 32 - blob_size_spec argv))
                        (of_nat (blob_size_spec argv)) 8 GRUB_RELOCATOR_PREFERENCE_HIGH = Inr ch
                     \<and> linux_args_addr s1 = ch_addr ch)
            \<and> (\<exists>held. relocator s1 = map_option (\<lambda>chunks. chunks @ [req]) held)
            \<and> ((\<exists>elf. grub_elf_open env (argv ! 0) = Inr elf \<and> image_span elf \<noteq> 0) \<longrightarrow>
                 (\<exists>kernel_chunk. relocator s1 = Some [kernel_chunk, req]))
            \<and> grub_cmd_initrd env' rdargv
                  (s1\<lparr>grub_errno := e, grub_errmsg := msg, relocator := r\<rparr>) \<noteq> None"
    if load: "grub_cmd_linux env argv s = Some (GRUB_ERR_NONE, s1)"
  proof -
    note res = blob_reserved [OF load bound]
    from load obtain elf ch where
      al: "grub_relocator_alloc_chunk_align env 0
          (ucast ((0xffffffff - linux_args_size argv) + 1 :: 32 word))
          (scast (linux_args_size argv)) 8 GRUB_RELOCATOR_PREFERENCE_HIGH = Inr ch"
      and nz: "image_span elf \<noteq> 0 \<longrightarrow>
       target_addr s1 = image_base elf \<and> linux_size s1 = ALIGN_UP (image_span elf) 8
       \<and> relocator s1 = Some [Alloc_chunk_addr (grub_vtop env (image_base elf))
                                 (ALIGN_UP (image_span elf) 8),
                               args_request (linux_args_size argv)]"
      and z: "image_span elf = 0 \<longrightarrow>
       target_addr s1 = target_addr (grub_loader_unset s) \<and> linux_size s1 = 0
       \<and> relocator s1 = map_option (\<lambda>chunks. chunks @ [args_request (linux_args_size argv)])
                           (relocator (grub_loader_unset s))"
      and ad: "linux_args_addr s1 = ch_addr ch"
      by (rule cmd_linux_success_fields)
    from rq have mx: "(ucast ((0xffffffff - linux_args_size argv) + 1 :: 32 word) :: 64 word)
                        = of_nat (2 ^ 32 - blob_size_spec argv)"
      and sz: "(scast (linux_args_size argv) :: 64 word) = of_nat (blob_size_spec argv)"
      unfolding req_def args_request_def by simp_all
    have 1: "args_chunk_size s1 = blob_size_spec argv"
      using load bound by (rule cmd_linux_success_blob(1))
    have 2: "\<exists>ch. grub_relocator_alloc_chunk_align env 0
                        (of_nat (2 ^ 32 - blob_size_spec argv))
                        (of_nat (blob_size_spec argv)) 8 GRUB_RELOCATOR_PREFERENCE_HIGH = Inr ch
                     \<and> linux_args_addr s1 = ch_addr ch"
      using al ad unfolding mx sz by blast
    have 3: "\<exists>held. relocator s1 = map_option (\<lambda>chunks. chunks @ [req]) held"
    proof (cases "image_span elf = 0")
      case True
      with z have "relocator s1 = map_option (\<lambda>chunks. chunks @ [req])
                           (relocator (grub_loader_unset s))"
        unfolding rq by simp
      then show ?thesis ..
    next
      case False
      with nz have "relocator s1 = map_option (\<lambda>chunks. chunks @ [req])
           (Some [Alloc_chunk_addr (grub_vtop env (image_base elf)) (ALIGN_UP (image_span elf) 8)])"
        unfolding rq by simp
      then show ?thesis ..
    qed
    have 4: "(\<exists>elf. grub_elf_open env (argv ! 0) = Inr elf \<and> image_span elf \<noteq> 0) \<longrightarrow>
                 (\<exists>kernel_chunk. relocator s1 = Some [kernel_chunk, req])"
    proof
      assume "\<exists>elf. grub_elf_open env (argv ! 0) = Inr elf \<and> image_span elf \<noteq> 0"
      then obtain elf' where "grub_elf_open env (argv ! 0) = Inr elf'" "image_span elf' \<noteq> 0"
        by blast
      from cmd_linux_placed(4) [OF load this]
      show "\<exists>kernel_chunk. relocator s1 = Some [kernel_chunk, req]"
        unfolding rq by blast
    qed
    have 5: "grub_cmd_initrd env' rdargv
                  (s1\<lparr>grub_errno := e, grub_errmsg := msg, relocator := r\<rparr>) \<noteq> None"
      using res
      by (intro cmd_initrd_total [where n = "length argv" and A = "string_offset argv (length argv)"])
         simp_all
    from 1 2 3 4 5 show ?thesis by (intro conjI)
  qed
  from a b c show ?thesis unfolding req_def by blast
qed

theorem args_size_exact_and_stores_in_bounds_witness:
  "blob_size_spec example_argv < 2 ^ 31
   \<and> sint (linux_args_size example_argv) = 104
   \<and> grub_cmd_linux example_env example_argv initial_state = Some (GRUB_ERR_NONE, example_loaded)
   \<and> args_chunk_size example_loaded = 104
   \<and> grub_cmd_initrd example_env [''initrd.img'']
        (example_loaded\<lparr>grub_errno := GRUB_ERR_NONE, grub_errmsg := [], relocator := None\<rparr>) \<noteq> None"
proof -
  have b: "blob_size_spec example_argv < 2 ^ 31" by (simp add: example_bound)
  note t = args_size_exact_and_stores_in_bounds [OF b, where env = example_env and s = initial_state
      and ?s1.0 = example_loaded and env' = example_env and rdargv = "[''initrd.img'']"
      and e = GRUB_ERR_NONE and msg = "[]" and r = None]
  show ?thesis using b t example_load by (simp add: example_bound)
qed

subsection \<open>Claim C7\<close>

text \<open>
  C7, as stated, fails for a command without a file name: the check of the
  argument count comes first (line 269), so such a command is answered with
  "filename expected" both before any load and after a ramdisk has been
  attached, not with the two errors of the ordering.
\<close>

theorem initrd_without_filename_counterexample:
  "boot_state_of initial_state = Unloaded
   \<and> grub_cmd_initrd example_env [] initial_state =
       Some (GRUB_ERR_BAD_ARGUMENT,
             initial_state\<lparr>grub_errno := GRUB_ERR_BAD_ARGUMENT, grub_errmsg := ''filename expected''\<rparr>)
   \<and> boot_state_of example_attached = KernelAndRamdiskLoaded
   \<and> grub_cmd_initrd example_env [] example_attached =
       Some (GRUB_ERR_BAD_ARGUMENT,
             example_attached\<lparr>grub_errno := GRUB_ERR_BAD_ARGUMENT, grub_errmsg := ''filename expected''\<rparr>)"
  by (simp add: boot_state_of_def example_attached_flags grub_cmd_initrd_def grub_error_def
        initial_state_def)

text \<open>
  C7, amended: an initrd command that names a file fails with
  \<^verbatim>\<open>GRUB_ERR_BAD_ARGUMENT\<close> and "you need to load the kernel first" when no
  kernel is loaded, and with \<^verbatim>\<open>GRUB_ERR_BAD_ARGUMENT\<close> and "only one initrd
  command can be issued." when a ramdisk is attached; a command that names no
  file fails with \<^verbatim>\<open>GRUB_ERR_BAD_ARGUMENT\<close> and "filename expected" in every
  state.  In each case the state returned is the state before with the error
  recorded: no request has been added to the relocator and no byte of the blob
  has changed.
\<close>

theorem initrd_order_errors:
  "(rdargv \<noteq> [] \<and> boot_state_of s = Unloaded \<longrightarrow>
      grub_cmd_initrd env rdargv s =
        Some (GRUB_ERR_BAD_ARGUMENT,
              s\<lparr>grub_errno := GRUB_ERR_BAD_ARGUMENT,
                grub_errmsg := ''you need to load the kernel first''\<rparr>))
   \<and> (rdargv \<noteq> [] \<and> boot_state_of s = KernelAndRamdiskLoaded \<longrightarrow>
      grub_cmd_initrd env rdargv s =
        Some (GRUB_ERR_BAD_ARGUMENT,
              s\<lparr>grub_errno := GRUB_ERR_BAD_ARGUMENT,
                grub_errmsg := ''only one initrd command can be issued.''\<rparr>))
   \<and> (rdargv = [] \<longrightarrow>
      grub_cmd_initrd env rdargv s =
        Some (GRUB_ERR_BAD_ARGUMENT,
              s\<lparr>grub_errno := GRUB_ERR_BAD_ARGUMENT, grub_errmsg := ''filename expected''\<rparr>))"
  by (simp add: grub_cmd_initrd_def grub_error_def boot_state_of_def split: if_splits)

theorem initrd_order_errors_witness:
  "grub_cmd_initrd example_env [''initrd.img''] initial_state =
     Some (GRUB_ERR_BAD_ARGUMENT,
           initial_state\<lparr>grub_errno := GRUB_ERR_BAD_ARGUMENT,
             grub_errmsg := ''you need to load the kernel first''\<rparr>)
   \<and> grub_cmd_initrd example_env [''initrd.img''] example_attached =
     Some (GRUB_ERR_BAD_ARGUMENT,
           example_attached\<lparr>grub_errno := GRUB_ERR_BAD_ARGUMENT,
             grub_errmsg := ''only one initrd command can be issued.''\<rparr>)
   \<and> relocator (snd (the (grub_cmd_initrd example_env [''initrd.img''] example_attached)))
       = relocator example_attached
   \<and> args_chunk_bytes (snd (the (grub_cmd_initrd example_env [''initrd.img''] example_attached)))
       = args_chunk_bytes example_attached"
proof -
  have u: "boot_state_of initial_state = Unloaded"
    by (simp add: boot_state_of_def initial_state_def)
  have a: "boot_state_of example_attached = KernelAndRamdiskLoaded"
    by (simp add: boot_state_of_def example_attached_flags)
  note t1 = initrd_order_errors [of "[''initrd.img'']" initial_state example_env]
  note t2 = initrd_order_errors [of "[''initrd.img'']" example_attached example_env]
  from t1 u t2 a show ?thesis by simp
qed

subsection \<open>Claim C6\<close>

text \<open>
  C6: an initrd command that names a file, issued with a kernel loaded and no
  ramdisk attached, and failing because the initrd helper reports an error,
  because the relocator grants no chunk, or because the payload cannot be
  read, returns that error and leaves the state \<open>KernelLoaded\<close>:
  \<^verbatim>\<open>initrd_loaded\<close> stays clear, \<^verbatim>\<open>linux_argc\<close> and every byte of the blob are
  as before, so the two reserved table slots (positions \<^verbatim>\<open>linux_argc\<close> and
  \<^verbatim>\<open>linux_argc + 1\<close>), zero before, are zero after; the loader stays
  registered as it was and the boot hook hands over the same register state.
  Only the recorded error changes and, when the payload could not be read, the
  relocator, which keeps the chunk it had granted.
\<close>

theorem failed_attach_keeps_kernel_loaded:
  assumes st: "boot_state_of s = KernelLoaded"
    and args: "rdargv \<noteq> []"
    and zero: "load_u32 (args_chunk_bytes s) (4 * unat (linux_argc s)) = 0"
              "load_u32 (args_chunk_bytes s) (4 * (unat (linux_argc s) + 1)) = 0"
    and cause:
      "grub_initrd_init env rdargv = Inl e
       \<or> (\<exists>sz. grub_initrd_init env rdargv = Inr sz
            \<and> (grub_relocator_alloc_chunk_align env 0 ((0xffffffff - sz) + 1) sz 0x10000
                  GRUB_RELOCATOR_PREFERENCE_HIGH = Inl e
               \<or> (\<exists>ch. grub_relocator_alloc_chunk_align env 0 ((0xffffffff - sz) + 1) sz 0x10000
                          GRUB_RELOCATOR_PREFERENCE_HIGH = Inr ch
                      \<and> grub_initrd_load env rdargv (ch_addr ch) = Some e)))"
  shows "\<exists>s'. grub_cmd_initrd env rdargv s = Some (GRUB_ERR (fst e), s')
           \<and> boot_state_of s' = KernelLoaded
           \<and> \<not> initrd_loaded s'
           \<and> linux_argc s' = linux_argc s
           \<and> args_chunk_bytes s' = args_chunk_bytes s
           \<and> load_u32 (args_chunk_bytes s') (4 * unat (linux_argc s')) = 0
           \<and> load_u32 (args_chunk_bytes s') (4 * (unat (linux_argc s') + 1)) = 0
           \<and> loader_registered s' = loader_registered s
           \<and> grub_linux_boot s' = grub_linux_boot s
           \<and> s' = s\<lparr>relocator := relocator s', grub_errno := GRUB_ERR (fst e),
                      grub_errmsg := snd e\<rparr>"
proof -
  from st have l: "loaded s" and nl: "\<not> initrd_loaded s"
    by (simp_all add: kernel_loaded_flags)
  consider
    (init) "grub_initrd_init env rdargv = Inl e"
  | (alloc) sz where "grub_initrd_init env rdargv = Inr sz"
      "grub_relocator_alloc_chunk_align env 0 ((0xffffffff - sz) + 1) sz 0x10000
         GRUB_RELOCATOR_PREFERENCE_HIGH = Inl e"
  | (load) sz ch where "grub_initrd_init env rdargv = Inr sz"
      "grub_relocator_alloc_chunk_align env 0 ((0xffffffff - sz) + 1) sz 0x10000
         GRUB_RELOCATOR_PREFERENCE_HIGH = Inr ch"
      "grub_initrd_load env rdargv (ch_addr ch) = Some e"
    using cause by blast
  then show ?thesis
  proof cases
    case init
    show ?thesis
      unfolding initrd_init_fails [OF l nl args init]
      using l nl zero by (simp add: kernel_loaded_flags grub_linux_boot_def)
  next
    case alloc
    show ?thesis
      unfolding initrd_alloc_fails [OF l nl args alloc]
      using l nl zero by (simp add: kernel_loaded_flags grub_linux_boot_def)
  next
    case load
    show ?thesis
      unfolding initrd_load_fails [OF l nl args load]
      using l nl zero by (simp add: kernel_loaded_flags grub_linux_boot_def)
  qed
qed

theorem failed_attach_keeps_kernel_loaded_witness:
  "boot_state_of example_loaded = KernelLoaded
   \<and> (\<exists>s'. grub_cmd_initrd unreadable_env [''initrd.img''] example_loaded
              = Some (GRUB_ERR (OTHER_ERROR 1), s')
         \<and> boot_state_of s' = KernelLoaded
         \<and> linux_argc s' = 3
         \<and> load_u32 (args_chunk_bytes s') 12 = 0
         \<and> load_u32 (args_chunk_bytes s') 16 = 0
         \<and> loader_registered s'
         \<and> grub_linux_boot s' = grub_linux_boot example_loaded)"
proof -
  have c: "grub_initrd_init unreadable_env [''initrd.img''] = Inl (OTHER_ERROR 1, ''file not found'')"
    by (simp add: unreadable_env_def)
  have z: "load_u32 (args_chunk_bytes example_loaded) (4 * unat (linux_argc example_loaded)) = 0"
          "load_u32 (args_chunk_bytes example_loaded) (4 * (unat (linux_argc example_loaded) + 1)) = 0"
    by (simp_all add: example_loaded_state)
  have "\<exists>s'. grub_cmd_initrd unreadable_env [''initrd.img''] example_loaded
                 = Some (GRUB_ERR (fst (OTHER_ERROR 1, ''file not found'')), s')
           \<and> boot_state_of s' = KernelLoaded
           \<and> \<not> initrd_loaded s'
           \<and> linux_argc s' = linux_argc example_loaded
           \<and> args_chunk_bytes s' = args_chunk_bytes example_loaded
           \<and> load_u32 (args_chunk_bytes s') (4 * unat (linux_argc s')) = 0
           \<and> load_u32 (args_chunk_bytes s') (4 * (unat (linux_argc s') + 1)) = 0
           \<and> loader_registered s' = loader_registered example_loaded
           \<and> grub_linux_boot s' = grub_linux_boot example_loaded
           \<and> s' = example_loaded\<lparr>relocator := relocator s',
                      grub_errno := GRUB_ERR (fst (OTHER_ERROR 1, ''file not found'')),
                      grub_errmsg := snd (OTHER_ERROR 1, ''file not found'')\<rparr>"
    by (rule failed_attach_keeps_kernel_loaded [OF example_loaded_state(1) _ z])
       (simp_all add: c)
  then obtain s' where
    "grub_cmd_initrd unreadable_env [''initrd.img''] example_loaded
                 = Some (GRUB_ERR (fst (OTHER_ERROR 1, ''file not found'')), s')"
    "boot_state_of s' = KernelLoaded"
    "linux_argc s' = linux_argc example_loaded"
    "args_chunk_bytes s' = args_chunk_bytes example_loaded"
    "loader_registered s' = loader_registered example_loaded"
    "grub_linux_boot s' = grub_linux_boot example_loaded"
    by blast
  then show ?thesis
    using example_loaded_state by (intro conjI exI [of _ s']) simp_all
qed

subsection \<open>Claim C5\<close>

text \<open>
  C5, as stated, fails for the failures that are detected before the reset: the
  missing file name, the image that cannot be opened and the wrong executable
  type return before \<^verbatim>\<open>grub_loader_unset\<close> and \<^verbatim>\<open>loaded = 0\<close> (lines
  160-176).  Issued with a kernel loaded, a linux command without a file name
  fails and leaves that kernel loaded and registered.
\<close>

theorem failed_load_keeps_kernel_counterexample:
  "boot_state_of example_loaded = KernelLoaded
   \<and> grub_cmd_linux example_env [] example_loaded =
       Some (GRUB_ERR_BAD_ARGUMENT,
             example_loaded\<lparr>grub_errno := GRUB_ERR_BAD_ARGUMENT, grub_errmsg := ''filename expected''\<rparr>)
   \<and> boot_state_of
        (example_loaded\<lparr>grub_errno := GRUB_ERR_BAD_ARGUMENT, grub_errmsg := ''filename expected''\<rparr>)
       = KernelLoaded
   \<and> loader_registered
        (example_loaded\<lparr>grub_errno := GRUB_ERR_BAD_ARGUMENT, grub_errmsg := ''filename expected''\<rparr>)"
  using example_loaded_state(1) [unfolded kernel_loaded_flags] example_loaded_state(5)
  by (simp add: grub_cmd_linux_def grub_error_def boot_state_of_def)

text \<open>
  C5, amended: when the linux command fails after the image has been opened
  and found executable (unsupported width class, a zero-size image with an
  error recorded or pending, no relocator, allocator failure for the kernel or
  for the arguments, or a segment that cannot be read), the state left is
  \<open>Unloaded\<close> and nothing is registered as bootable.  When it fails before (missing file name, image that
  cannot be opened, wrong executable type), the state is left as it was but
  for the recorded error: \<open>Unloaded\<close> if it was \<open>Unloaded\<close>, and a kernel
  loaded before stays loaded and registered.
\<close>

theorem failed_load_state:
  assumes run: "grub_cmd_linux env argv s = Some (err, s')"
      and err: "err \<noteq> GRUB_ERR_NONE"
  shows "(argv \<noteq> [] \<and> (\<exists>elf. grub_elf_open env (argv ! 0) = Inr elf \<and> e_type elf = ET_EXEC)
            \<longrightarrow> boot_state_of s' = Unloaded \<and> \<not> loader_registered s')
       \<and> (argv = [] \<or> (\<forall>elf. grub_elf_open env (argv ! 0) = Inr elf \<longrightarrow> e_type elf \<noteq> ET_EXEC)
            \<longrightarrow> s' = s\<lparr>grub_errno := grub_errno s', grub_errmsg := grub_errmsg s'\<rparr>
                \<and> boot_state_of s' = boot_state_of s
                \<and> loader_registered s' = loader_registered s)"
proof (intro conjI impI)
  assume "argv \<noteq> [] \<and> (\<exists>elf. grub_elf_open env (argv ! 0) = Inr elf \<and> e_type elf = ET_EXEC)"
  then obtain elf where ne: "argv \<noteq> []" and op: "grub_elf_open env (argv ! 0) = Inr elf"
    and ty: "e_type elf = ET_EXEC" by blast
  from cmd_linux_late_failure [OF ne op ty run err]
  show "boot_state_of s' = Unloaded" and "\<not> loader_registered s'"
    by (simp_all add: boot_state_of_def)
next
  assume early: "argv = [] \<or> (\<forall>elf. grub_elf_open env (argv ! 0) = Inr elf \<longrightarrow> e_type elf \<noteq> ET_EXEC)"
  show eq: "s' = s\<lparr>grub_errno := grub_errno s', grub_errmsg := grub_errmsg s'\<rparr>"
    using early run by (rule cmd_linux_early_failure(2))
  show "boot_state_of s' = boot_state_of s"
    by (subst eq) (simp add: boot_state_of_def)
  show "loader_registered s' = loader_registered s"
    by (subst eq) simp
qed

theorem failed_load_state_witness:
  "boot_state_of example_loaded = KernelLoaded
   \<and> (\<exists>s'. grub_cmd_linux full_env example_argv example_loaded = Some (GRUB_ERR (OTHER_ERROR 2), s')
          \<and> boot_state_of s' = Unloaded \<and> \<not> loader_registered s')
   \<and> (\<exists>s'. grub_cmd_linux example_env [] initial_state = Some (GRUB_ERR_BAD_ARGUMENT, s')
          \<and> boot_state_of s' = Unloaded \<and> \<not> loader_registered s')
   \<and> (\<exists>s'. grub_cmd_linux empty_env example_argv example_loaded = Some (GRUB_ERR_BAD_OS, s')
          \<and> boot_state_of s' = Unloaded \<and> \<not> loader_registered s')
   \<and> (\<exists>s'. grub_cmd_linux silent_env example_argv
               (example_loaded\<lparr>grub_errno := GRUB_ERR_BAD_ARGUMENT\<rparr>)
             = Some (GRUB_ERR_BAD_ARGUMENT, s')
          \<and> boot_state_of s' = Unloaded \<and> \<not> loader_registered s')"
proof -
  from full_env_load obtain s' where
    r: "grub_cmd_linux full_env example_argv example_loaded = Some (GRUB_ERR (OTHER_ERROR 2), s')"
    by blast
  have op: "example_argv \<noteq> [] \<and>
     (\<exists>elf. grub_elf_open full_env (example_argv ! 0) = Inr elf \<and> e_type elf = ET_EXEC)"
    by (simp add: full_env_def example_env_def example_argv_def example_image_def)
  from failed_load_state [OF r] op
  have 1: "boot_state_of s' = Unloaded \<and> \<not> loader_registered s'" by simp
  have r0: "grub_cmd_linux example_env [] initial_state =
       Some (GRUB_ERR_BAD_ARGUMENT,
             initial_state\<lparr>grub_errno := GRUB_ERR_BAD_ARGUMENT, grub_errmsg := ''filename expected''\<rparr>)"
    by (simp add: grub_cmd_linux_def grub_error_def)
  from failed_load_state [OF r0]
  have 2: "boot_state_of
             (initial_state\<lparr>grub_errno := GRUB_ERR_BAD_ARGUMENT, grub_errmsg := ''filename expected''\<rparr>)
           = boot_state_of initial_state
         \<and> loader_registered
             (initial_state\<lparr>grub_errno := GRUB_ERR_BAD_ARGUMENT, grub_errmsg := ''filename expected''\<rparr>)
           = loader_registered initial_state"
    by simp
  have 3: "boot_state_of initial_state = Unloaded" "\<not> loader_registered initial_state"
    by (simp_all add: boot_state_of_def initial_state_def)
  have a: "\<exists>s'. grub_cmd_linux full_env example_argv example_loaded = Some (GRUB_ERR (OTHER_ERROR 2), s')
          \<and> boot_state_of s' = Unloaded \<and> \<not> loader_registered s'"
    using r 1 by blast
  have b: "\<exists>s'. grub_cmd_linux example_env [] initial_state = Some (GRUB_ERR_BAD_ARGUMENT, s')
          \<and> boot_state_of s' = Unloaded \<and> \<not> loader_registered s'"
    using r0 2 3 by simp
  from empty_env_load obtain se where
    re: "grub_cmd_linux empty_env example_argv example_loaded = Some (GRUB_ERR_BAD_OS, se)"
    by blast
  have ope: "example_argv \<noteq> [] \<and>
     (\<exists>elf. grub_elf_open empty_env (example_argv ! 0) = Inr elf \<and> e_type elf = ET_EXEC)"
    by (simp add: empty_env_def empty_image_def example_argv_def example_image_def)
  from failed_load_state [OF re] ope
  have "boot_state_of se = Unloaded \<and> \<not> loader_registered se" by simp
  with re have c: "\<exists>s'. grub_cmd_linux empty_env example_argv example_loaded
                          = Some (GRUB_ERR_BAD_OS, s')
          \<and> boot_state_of s' = Unloaded \<and> \<not> loader_registered s'"
    by blast
  from silent_stale_load obtain ss where
    rs: "grub_cmd_linux silent_env example_argv
           (example_loaded\<lparr>grub_errno := GRUB_ERR_BAD_ARGUMENT\<rparr>)
         = Some (GRUB_ERR_BAD_ARGUMENT, ss)"
    by blast
  have ops: "example_argv \<noteq> [] \<and>
     (\<exists>elf. grub_elf_open silent_env (example_argv ! 0) = Inr elf \<and> e_type elf = ET_EXEC)"
    by (simp add: silent_env_def silent_image_def example_argv_def example_image_def)
  from failed_load_state [OF rs] ops
  have "boot_state_of ss = Unloaded \<and> \<not> loader_registered ss" by simp
  with rs have d: "\<exists>s'. grub_cmd_linux silent_env example_argv
               (example_loaded\<lparr>grub_errno := GRUB_ERR_BAD_ARGUMENT\<rparr>)
             = Some (GRUB_ERR_BAD_ARGUMENT, s')
          \<and> boot_state_of s' = Unloaded \<and> \<not> loader_registered s'"
    by blast
  from example_loaded_state(1) a b c d show ?thesis by (intro conjI)
qed

subsection \<open>Claim C9\<close>

text \<open>
  C9: after a successful load (state \<open>KernelLoaded\<close>) the register state that
  \<^verbatim>\<open>grub_linux_boot\<close> hands to the jump primitive has in register 1 the entry
  address as the header of the image encodes it (\<^verbatim>\<open>e_entry\<close> of the image's
  width class, widened and not translated by \<^verbatim>\<open>grub_vtop\<close>), in register 4
  the argument count, in register 5 the address of the argument chunk, zero in
  every other general-purpose register, and register 1 as the jump register.
  After a successful initrd command (state \<open>KernelAndRamdiskLoaded\<close>) it is the
  same with the argument count two higher.  The count is an \<^verbatim>\<open>int\<close>: the
  statement is for counts that stay within its range.
\<close>

theorem boot_register_state:
  assumes load: "grub_cmd_linux env argv s = Some (GRUB_ERR_NONE, s1)"
      and count: "length argv + 2 < 2 ^ 31"
  shows "\<exists>elf ch.
           grub_elf_open env (argv ! 0) = Inr elf
         \<and> grub_relocator_alloc_chunk_align env 0
              (ucast ((0xffffffff - linux_args_size argv) + 1 :: 32 word))
              (scast (linux_args_size argv)) 8 GRUB_RELOCATOR_PREFERENCE_HIGH = Inr ch
         \<and> boot_state_of s1 = KernelLoaded
         \<and> grub_linux_boot s1 =
              \<lparr>gpr = (\<lambda>r. 0)
                 (1 := (if grub_elf_is_elf32 elf then ucast (e_entry32 elf) else e_entry64 elf),
                  4 := of_nat (length argv),
                  5 := ch_addr ch),
               jumpreg = 1\<rparr>
         \<and> (\<forall>env' rdargv s2.
               grub_cmd_initrd env' rdargv s1 = Some (GRUB_ERR_NONE, s2) \<longrightarrow>
                 boot_state_of s2 = KernelAndRamdiskLoaded
               \<and> grub_linux_boot s2 =
                   \<lparr>gpr = (\<lambda>r. 0)
                      (1 := (if grub_elf_is_elf32 elf then ucast (e_entry32 elf) else e_entry64 elf),
                       4 := of_nat (length argv + 2),
                       5 := ch_addr ch),
                    jumpreg = 1\<rparr>)"
proof -
  from load obtain elf ch where
    op: "grub_elf_open env (argv ! 0) = Inr elf"
    and al: "grub_relocator_alloc_chunk_align env 0
          (ucast ((0xffffffff - linux_args_size argv) + 1 :: 32 word))
          (scast (linux_args_size argv)) 8 GRUB_RELOCATOR_PREFERENCE_HIGH = Inr ch"
    and fl: "loaded s1" "\<not> initrd_loaded s1"
    and argc: "linux_argc s1 = of_nat (length argv)"
    and entry: "entry_addr s1 = image_entry elf"
    and addr: "linux_args_addr s1 = ch_addr ch"
    by (rule cmd_linux_success_fields)
  have c1: "(scast (of_nat (length argv) :: 32 word) :: 64 word) = of_nat (length argv)"
    using count by (intro scast_of_nat_32_64) simp
  have c2: "(scast (of_nat (length argv + 2) :: 32 word) :: 64 word) = of_nat (length argv + 2)"
    using count by (intro scast_of_nat_32_64) simp
  have st: "boot_state_of s1 = KernelLoaded"
    using fl by (simp add: boot_state_of_def)
  have b1: "grub_linux_boot s1 =
              \<lparr>gpr = (\<lambda>r. 0)
                 (1 := (if grub_elf_is_elf32 elf then ucast (e_entry32 elf) else e_entry64 elf),
                  4 := of_nat (length argv),
                  5 := ch_addr ch),
               jumpreg = 1\<rparr>"
    unfolding boot_registers entry argc addr c1 image_entry_def ..
  have b2: "boot_state_of s2 = KernelAndRamdiskLoaded
               \<and> grub_linux_boot s2 =
                   \<lparr>gpr = (\<lambda>r. 0)
                      (1 := (if grub_elf_is_elf32 elf then ucast (e_entry32 elf) else e_entry64 elf),
                       4 := of_nat (length argv + 2),
                       5 := ch_addr ch),
                    jumpreg = 1\<rparr>"
    if att: "grub_cmd_initrd env' rdargv s1 = Some (GRUB_ERR_NONE, s2)" for env' rdargv s2
  proof -
    note f = attach_fields [OF att]
    have n: "linux_argc s2 = of_nat (length argv + 2)"
      unfolding f(4) argc by simp
    have "boot_state_of s2 = KernelAndRamdiskLoaded"
      using f(1,2) by (simp add: boot_state_of_def)
    moreover have "grub_linux_boot s2 =
                   \<lparr>gpr = (\<lambda>r. 0)
                      (1 := (if grub_elf_is_elf32 elf then ucast (e_entry32 elf) else e_entry64 elf),
                       4 := of_nat (length argv + 2),
                       5 := ch_addr ch),
                    jumpreg = 1\<rparr>"
      unfolding boot_registers f(3) f(5) n entry addr c2 image_entry_def ..
    ultimately show ?thesis ..
  qed
  from op al st b1 b2 show ?thesis by blast
qed

theorem boot_register_state_witness:
  "grub_cmd_linux example_env example_argv initial_state = Some (GRUB_ERR_NONE, example_loaded)
   \<and> grub_linux_boot example_loaded =
       \<lparr>gpr = (\<lambda>r. 0)(1 := 0xffffffff80200000, 4 := 3, 5 := 0xffffff98), jumpreg = 1\<rparr>
   \<and> grub_linux_boot example_attached =
       \<lparr>gpr = (\<lambda>r. 0)(1 := 0xffffffff80200000, 4 := 5, 5 := 0xffffff98), jumpreg = 1\<rparr>"
proof -
  have c: "length example_argv + 2 < 2 ^ 31" by (simp add: example_argv_def)
  from boot_register_state [OF example_load c] obtain elf ch where
    op: "grub_elf_open example_env (example_argv ! 0) = Inr elf"
    and al: "grub_relocator_alloc_chunk_align example_env 0
              (ucast ((0xffffffff - linux_args_size example_argv) + 1 :: 32 word))
              (scast (linux_args_size example_argv)) 8 GRUB_RELOCATOR_PREFERENCE_HIGH = Inr ch"
    and b1: "grub_linux_boot example_loaded =
              \<lparr>gpr = (\<lambda>r. 0)
                 (1 := (if grub_elf_is_elf32 elf then ucast (e_entry32 elf) else e_entry64 elf),
                  4 := of_nat (length example_argv),
                  5 := ch_addr ch),
               jumpreg = 1\<rparr>"
    and b2: "\<forall>env' rdargv s2.
               grub_cmd_initrd env' rdargv example_loaded = Some (GRUB_ERR_NONE, s2) \<longrightarrow>
                 boot_state_of s2 = KernelAndRamdiskLoaded
               \<and> grub_linux_boot s2 =
                   \<lparr>gpr = (\<lambda>r. 0)
                      (1 := (if grub_elf_is_elf32 elf then ucast (e_entry32 elf) else e_entry64 elf),
                       4 := of_nat (length example_argv + 2),
                       5 := ch_addr ch),
                    jumpreg = 1\<rparr>"
    by blast
  from op have elf: "elf = example_image" by (simp add: example_open)
  from al have ch: "ch_addr ch = 0xffffff98"
    unfolding example_size by (auto simp: example_env_def)
  have e: "(if grub_elf_is_elf32 elf then ucast (e_entry32 elf) else e_entry64 elf)
             = 0xffffffff80200000"
    unfolding elf by (simp add: example_image_def)
  have r1: "grub_linux_boot example_loaded =
       \<lparr>gpr = (\<lambda>r. 0)(1 := 0xffffffff80200000, 4 := 3, 5 := 0xffffff98), jumpreg = 1\<rparr>"
    unfolding b1 e ch by (simp add: example_argv_def)
  from b2 example_attach have "grub_linux_boot example_attached =
                   \<lparr>gpr = (\<lambda>r. 0)
                      (1 := (if grub_elf_is_elf32 elf then ucast (e_entry32 elf) else e_entry64 elf),
                       4 := of_nat (length example_argv + 2),
                       5 := ch_addr ch),
                    jumpreg = 1\<rparr>"
    by blast
  then have r2: "grub_linux_boot example_attached =
       \<lparr>gpr = (\<lambda>r. 0)(1 := 0xffffffff80200000, 4 := 5, 5 := 0xffffff98), jumpreg = 1\<rparr>"
    unfolding e ch by (simp add: example_argv_def)
  from example_load r1 r2 show ?thesis by (intro conjI)
qed

subsection \<open>Claim C10\<close>

text \<open>
  C10: after a successful load of a valid image of either width class (an
  image whose segments span a size that is not 0; an empty image is the
  zero-size image of C5, which the load routines do not place),
  \<^verbatim>\<open>target_addr\<close> is the base the image declares (the base that
  \<^verbatim>\<open>grub_elf32_size\<close> or \<^verbatim>\<open>grub_elf64_size\<close> reports), \<^verbatim>\<open>linux_size\<close> is
  the span of its segments rounded up to the next multiple of 8, and the first
  request the relocator holds is a chunk at the fixed address
  \<^verbatim>\<open>grub_vtop (target_addr)\<close> of that size (a request by address, not by
  range and alignment).  A load of another image with the same base and span,
  of whichever width class and under the same address translation, records the
  same base and size and makes the same request.
\<close>

theorem kernel_placement:
  assumes load: "grub_cmd_linux env argv s = Some (GRUB_ERR_NONE, s1)"
      and image: "grub_elf_open env (argv ! 0) = Inr elf"
      and valid: "image_span elf \<noteq> 0"
  shows "(grub_elf_is_elf32 elf \<or> grub_elf_is_elf64 elf)
         \<and> target_addr s1 = image_base elf
         \<and> linux_size s1 = ALIGN_UP (image_span elf) 8
         \<and> (unat (image_span elf) + 7 < 2 ^ 64 \<longrightarrow>
               unat (linux_size s1) = round_up (unat (image_span elf)) 8
             \<and> 8 dvd unat (linux_size s1)
             \<and> unat (image_span elf) \<le> unat (linux_size s1)
             \<and> unat (linux_size s1) < unat (image_span elf) + 8)
         \<and> (\<exists>args_chunk. relocator s1 =
                Some [Alloc_chunk_addr (grub_vtop env (image_base elf)) (linux_size s1), args_chunk])
         \<and> (\<forall>env' argv' s' s1' elf'.
               grub_cmd_linux env' argv' s' = Some (GRUB_ERR_NONE, s1')
               \<and> grub_elf_open env' (argv' ! 0) = Inr elf'
               \<and> image_base elf' = image_base elf \<and> image_span elf' = image_span elf
               \<and> grub_vtop env' = grub_vtop env \<longrightarrow>
                 target_addr s1' = target_addr s1 \<and> linux_size s1' = linux_size s1
               \<and> hd (the (relocator s1')) = hd (the (relocator s1)))"
proof -
  note f = cmd_linux_placed [OF load image valid]
  note w = f(1) and t = f(2) and z = f(3) and r = f(4)
  have b: "unat (linux_size s1) = round_up (unat (image_span elf)) 8
             \<and> 8 dvd unat (linux_size s1)
             \<and> unat (image_span elf) \<le> unat (linux_size s1)
             \<and> unat (linux_size s1) < unat (image_span elf) + 8"
    if "unat (image_span elf) + 7 < 2 ^ 64"
    unfolding z using ALIGN_UP_8_bounds [OF that] by (intro conjI)
  have q: "\<exists>args_chunk. relocator s1 =
                Some [Alloc_chunk_addr (grub_vtop env (image_base elf)) (linux_size s1), args_chunk]"
    unfolding r z by simp
  have same: "target_addr s1' = target_addr s1 \<and> linux_size s1' = linux_size s1
               \<and> hd (the (relocator s1')) = hd (the (relocator s1))"
    if o: "grub_cmd_linux env' argv' s' = Some (GRUB_ERR_NONE, s1')"
      and op': "grub_elf_open env' (argv' ! 0) = Inr elf'"
      and eq: "image_base elf' = image_base elf" "image_span elf' = image_span elf"
              "grub_vtop env' = grub_vtop env"
    for env' argv' s' s1' elf'
  proof -
    have v': "image_span elf' \<noteq> 0" using valid eq(2) by simp
    note f' = cmd_linux_placed [OF o op' v']
    show ?thesis
      unfolding t z r f'(2) f'(3) f'(4) using eq by simp
  qed
  from w t z b q same show ?thesis by blast
qed

theorem kernel_placement_witness:
  "grub_cmd_linux example_env example_argv initial_state = Some (GRUB_ERR_NONE, example_loaded)
   \<and> target_addr example_loaded = 0x80010000
   \<and> linux_size example_loaded = 0x20000
   \<and> hd (the (relocator example_loaded)) = Alloc_chunk_addr 0x80010000 0x20000
   \<and> (\<exists>s32. grub_cmd_linux example_env32 example_argv initial_state = Some (GRUB_ERR_NONE, s32)
          \<and> target_addr s32 = 0x80010000
          \<and> linux_size s32 = 0x20000
          \<and> hd (the (relocator s32)) = Alloc_chunk_addr 0x80010000 0x20000)"
proof -
  define elf where "elf = example_image"
  have op: "grub_elf_open example_env (example_argv ! 0) = Inr elf"
    unfolding elf_def by (rule example_open)
  have valid: "image_span elf \<noteq> 0"
    unfolding elf_def by (simp add: image_span_def example_image_def)
  from kernel_placement [OF example_load op valid] have
    t: "target_addr example_loaded = image_base elf"
    and z: "linux_size example_loaded = ALIGN_UP (image_span elf) 8"
    and q: "\<exists>args_chunk. relocator example_loaded =
                Some [Alloc_chunk_addr (grub_vtop example_env (image_base elf))
                        (linux_size example_loaded), args_chunk]"
    and same: "\<forall>env' argv' s' s1' elf'.
               grub_cmd_linux env' argv' s' = Some (GRUB_ERR_NONE, s1')
               \<and> grub_elf_open env' (argv' ! 0) = Inr elf'
               \<and> image_base elf' = image_base elf \<and> image_span elf' = image_span elf
               \<and> grub_vtop env' = grub_vtop example_env \<longrightarrow>
                 target_addr s1' = target_addr example_loaded
               \<and> linux_size s1' = linux_size example_loaded
               \<and> hd (the (relocator s1')) = hd (the (relocator example_loaded))"
    by blast+
  note elf = elf_def
  have b: "image_base elf = 0x80010000"
    unfolding elf by (simp add: image_base_def example_image_def)
  have bs: "image_span elf = 0x20000"
    unfolding elf by (simp add: image_span_def example_image_def)
  have sp: "ALIGN_UP (image_span elf) 8 = 0x20000"
    unfolding bs by (simp add: ALIGN_UP_def round_up_def)
  have v: "grub_vtop example_env 0x80010000 = 0x80010000"
    by (simp add: example_env_def)
  have t1: "target_addr example_loaded = 0x80010000" unfolding t b ..
  have z1: "linux_size example_loaded = 0x20000" unfolding z sp ..
  from q have h1: "hd (the (relocator example_loaded)) = Alloc_chunk_addr 0x80010000 0x20000"
    unfolding b z1 v by auto
  from example_load32 obtain s32 where
    l32: "grub_cmd_linux example_env32 example_argv initial_state = Some (GRUB_ERR_NONE, s32)"
    by blast
  have o32: "grub_elf_open example_env32 (example_argv ! 0) = Inr example_image32"
    by (simp add: example_env32_def)
  have e32: "image_base example_image32 = image_base elf" "image_span example_image32 = image_span elf"
    unfolding b bs by (simp_all add: image_base_def image_span_def example_image32_def)
  have v32: "grub_vtop example_env32 = grub_vtop example_env"
    by (simp add: example_env32_def)
  from same l32 o32 e32 v32
  have "target_addr s32 = target_addr example_loaded
               \<and> linux_size s32 = linux_size example_loaded
               \<and> hd (the (relocator s32)) = hd (the (relocator example_loaded))"
    by blast
  then have "target_addr s32 = 0x80010000 \<and> linux_size s32 = 0x20000
          \<and> hd (the (relocator s32)) = Alloc_chunk_addr 0x80010000 0x20000"
    unfolding t1 z1 h1 .
  with l32 have x: "\<exists>s32. grub_cmd_linux example_env32 example_argv initial_state = Some (GRUB_ERR_NONE, s32)
          \<and> target_addr s32 = 0x80010000
          \<and> linux_size s32 = 0x20000
          \<and> hd (the (relocator s32)) = Alloc_chunk_addr 0x80010000 0x20000"
    by blast
  from example_load t1 z1 h1 x show ?thesis by (intro conjI)
qed

subsection \<open>Claim C2\<close>

text \<open>
  C2, as stated, fails twice.  The slots hold the pointer to a string cut to
  32 bits, and the pointer is the one \<^verbatim>\<open>get_virtual_current_address\<close> returns
  for the chunk, which the request does not constrain: with a relocator that
  places the chunk of the example arguments at 0xffffff98, within the range
  asked for, and hands out the pointer 0x98000000ffffff98, the load succeeds,
  the string "a0" is at offset 24, address 0x98000000ffffffb0, and slot 0
  holds 0xffffffb0.  And the size of the ramdisk chunk is a \<^verbatim>\<open>grub_size_t\<close>,
  so \<^verbatim>\<open>(0xffffffff - size) + 1\<close> is computed in 64 bits and, for a ramdisk
  of more than \<open>2 ^ 32\<close> bytes, wraps around to an address far above
  \<open>2 ^ 32\<close>: for a ramdisk of 0x100010000 bytes the highest start address
  asked for is 0xffffffffffff0000; a chunk at 0x200000000 is within the range
  and has the alignment asked for, the command succeeds, and the chunk lies
  above \<open>2 ^ 32\<close>.
\<close>

theorem slot_bits_lost_counterexample:
  "grub_cmd_linux mapped_env example_argv initial_state = Some (GRUB_ERR_NONE, mapped_loaded)
   \<and> grub_relocator_alloc_chunk_align mapped_env 0 0xffffff98 104 8
        GRUB_RELOCATOR_PREFERENCE_HIGH = Inr mapped_chunk
   \<and> ch_target mapped_chunk \<le> 0xffffff98
   \<and> unat (ch_target mapped_chunk) + 104 \<le> 2 ^ 32
   \<and> linux_args_addr mapped_loaded = ch_addr mapped_chunk
   \<and> string_at (args_chunk_bytes mapped_loaded) 24 ''a0''
   \<and> linux_args_addr mapped_loaded + 24 = 0x98000000ffffffb0
   \<and> load_u32 (args_chunk_bytes mapped_loaded) 0 = 0xffffffb0
   \<and> (ucast (load_u32 (args_chunk_bytes mapped_loaded) 0) :: 64 word)
        \<noteq> linux_args_addr mapped_loaded + 24
   \<and> grub_initrd_init big_env [''initrd.img''] = Inr 0x100010000
   \<and> (0xffffffff - 0x100010000) + 1 = (0xffffffffffff0000 :: 64 word)
   \<and> grub_relocator_alloc_chunk_align big_env 0 0xffffffffffff0000 0x100010000 0x10000
        GRUB_RELOCATOR_PREFERENCE_HIGH = Inr high_chunk
   \<and> ch_target high_chunk \<le> 0xffffffffffff0000
   \<and> unat (ch_target high_chunk) mod 0x10000 = 0
   \<and> 2 ^ 32 \<le> unat (ch_target high_chunk)
   \<and> fst (the (grub_cmd_initrd big_env [''initrd.img''] example_loaded)) = GRUB_ERR_NONE
   \<and> initrd_loaded (snd (the (grub_cmd_initrd big_env [''initrd.img''] example_loaded)))"
proof -
  have b: "blob_size_spec example_argv < 2 ^ 31" by (simp add: example_bound)
  have l: "0 < length example_argv" by (simp add: example_argv_def)
  note blob = cmd_linux_success_blob [OF mapped_load b]
  have st: "string_at (args_chunk_bytes mapped_loaded) 24 ''a0''"
    using blob(5) [OF l] by (simp add: example_offsets stored_args_0)
  have sl: "load_u32 (args_chunk_bytes mapped_loaded) 0 = 0xffffffb0"
    using blob(4) [OF l] by (simp add: example_offsets mapped_addr)
  from big_attach obtain s2 where
    a: "grub_cmd_initrd big_env [''initrd.img''] example_loaded = Some (GRUB_ERR_NONE, s2)"
    by blast
  have i: "initrd_loaded s2" using a by (rule attach_fields(2))
  have m: "grub_cmd_linux mapped_env example_argv initial_state = Some (GRUB_ERR_NONE, mapped_loaded)
   \<and> grub_relocator_alloc_chunk_align mapped_env 0 0xffffff98 104 8
        GRUB_RELOCATOR_PREFERENCE_HIGH = Inr mapped_chunk
   \<and> ch_target mapped_chunk \<le> 0xffffff98
   \<and> unat (ch_target mapped_chunk) + 104 \<le> 2 ^ 32
   \<and> linux_args_addr mapped_loaded = ch_addr mapped_chunk
   \<and> string_at (args_chunk_bytes mapped_loaded) 24 ''a0''
   \<and> linux_args_addr mapped_loaded + 24 = 0x98000000ffffffb0
   \<and> load_u32 (args_chunk_bytes mapped_loaded) 0 = 0xffffffb0
   \<and> (ucast (load_u32 (args_chunk_bytes mapped_loaded) 0) :: 64 word)
        \<noteq> linux_args_addr mapped_loaded + 24"
    using mapped_load mapped_alloc st
    unfolding sl mapped_addr by (simp add: mapped_chunk_def)
  have g: "grub_initrd_init big_env [''initrd.img''] = Inr 0x100010000
   \<and> (0xffffffff - 0x100010000) + 1 = (0xffffffffffff0000 :: 64 word)
   \<and> grub_relocator_alloc_chunk_align big_env 0 0xffffffffffff0000 0x100010000 0x10000
        GRUB_RELOCATOR_PREFERENCE_HIGH = Inr high_chunk
   \<and> ch_target high_chunk \<le> 0xffffffffffff0000
   \<and> unat (ch_target high_chunk) mod 0x10000 = 0
   \<and> 2 ^ 32 \<le> unat (ch_target high_chunk)
   \<and> fst (the (grub_cmd_initrd big_env [''initrd.img''] example_loaded)) = GRUB_ERR_NONE
   \<and> initrd_loaded (snd (the (grub_cmd_initrd big_env [''initrd.img''] example_loaded)))"
    unfolding a using i by (simp add: big_env_def high_chunk_def)
  from m g show ?thesis by (elim conjE) (intro conjI; assumption)
qed

text \<open>
  C2, amended: after a successful load of an argument sequence whose blob size
  fits the \<^verbatim>\<open>int\<close>, the argument chunk has been asked for with the highest
  start address \<open>2 ^ 32 - size\<close> and preference HIGH, and a chunk whose
  target address is within that range lies below \<open>2 ^ 32\<close>.  Every table
  slot written (slots 0 to argc - 1 by the load, the two ramdisk slots by a
  successful initrd command, which leaves the others as they are) holds the
  low 32 bits of the address of the string it designates, the address being
  the pointer returned for the chunk plus the offset of the string; when the
  blob, addressed through that pointer, ends at or below \<open>2 ^ 32\<close>, the slot
  widened again to 64 bits is the full address.  The ramdisk chunk is asked
  for with the highest start address \<^verbatim>\<open>(0xffffffff - size) + 1\<close> in 64-bit
  arithmetic and preference HIGH; when the ramdisk has at most \<open>2 ^ 32\<close>
  bytes, a chunk whose target address is within that range lies below
  \<open>2 ^ 32\<close>.  The initrd command may come after commands that failed, which
  change nothing of the state but the recorded error and the relocator.
\<close>

theorem slot_addresses_lossless:
  assumes load: "grub_cmd_linux env argv s = Some (GRUB_ERR_NONE, s1)"
      and bound: "blob_size_spec argv < 2 ^ 31"
  shows "(\<exists>ch. grub_relocator_alloc_chunk_align env 0
                  (of_nat (2 ^ 32 - blob_size_spec argv))
                  (of_nat (blob_size_spec argv)) 8 GRUB_RELOCATOR_PREFERENCE_HIGH = Inr ch
               \<and> linux_args_addr s1 = ch_addr ch
               \<and> (ch_target ch \<le> of_nat (2 ^ 32 - blob_size_spec argv) \<longrightarrow>
                     unat (ch_target ch) + blob_size_spec argv \<le> 2 ^ 32))
       \<and> (\<forall>k. k < length argv \<longrightarrow>
             load_u32 (args_chunk_bytes s1) (4 * k)
               = ucast (linux_args_addr s1 + of_nat (string_offset argv k)))
       \<and> (unat (linux_args_addr s1) + blob_size_spec argv \<le> 2 ^ 32 \<longrightarrow>
             (\<forall>k. k < length argv \<longrightarrow>
                (ucast (load_u32 (args_chunk_bytes s1) (4 * k)) :: 64 word)
                  = linux_args_addr s1 + of_nat (string_offset argv k)))
       \<and> (\<forall>env' rdargv e msg r s2.
             grub_cmd_initrd env' rdargv
               (s1\<lparr>grub_errno := e, grub_errmsg := msg, relocator := r\<rparr>)
             = Some (GRUB_ERR_NONE, s2) \<longrightarrow>
               linux_args_addr s2 = linux_args_addr s1
             \<and> (\<forall>k. k < length argv \<longrightarrow>
                  load_u32 (args_chunk_bytes s2) (4 * k) = load_u32 (args_chunk_bytes s1) (4 * k))
             \<and> load_u32 (args_chunk_bytes s2) (4 * length argv)
                  = ucast (linux_args_addr s2 + rd_addr_arg_off s2)
             \<and> load_u32 (args_chunk_bytes s2) (4 * (length argv + 1))
                  = ucast (linux_args_addr s2 + rd_size_arg_off s2)
             \<and> (unat (linux_args_addr s1) + blob_size_spec argv \<le> 2 ^ 32 \<longrightarrow>
                   (ucast (load_u32 (args_chunk_bytes s2) (4 * length argv)) :: 64 word)
                     = linux_args_addr s2 + rd_addr_arg_off s2
                 \<and> (ucast (load_u32 (args_chunk_bytes s2) (4 * (length argv + 1))) :: 64 word)
                     = linux_args_addr s2 + rd_size_arg_off s2)
             \<and> (\<exists>sz ch.
                   grub_initrd_init env' rdargv = Inr sz
                 \<and> grub_relocator_alloc_chunk_align env' 0 ((0xffffffff - sz) + 1) sz 0x10000
                      GRUB_RELOCATOR_PREFERENCE_HIGH = Inr ch
                 \<and> relocator s2
                      = map_option
                          (\<lambda>chunks. chunks @
                             [Alloc_chunk_align 0 ((0xffffffff - sz) + 1) sz 0x10000
                                GRUB_RELOCATOR_PREFERENCE_HIGH]) r
                 \<and> (unat sz \<le> 2 ^ 32 \<and> ch_target ch \<le> (0xffffffff - sz) + 1
                      \<longrightarrow> unat (ch_target ch) + unat sz \<le> 2 ^ 32)))"
proof -
  define n where "n = length argv"
  define A where "A = string_offset argv n"
  define T where "T = blob_size_spec argv"
  define base where "base = linux_args_addr s1"
  from load obtain elf ch0 where ne: "argv \<noteq> []"
    and al: "grub_relocator_alloc_chunk_align env 0
          (ucast ((0xffffffff - linux_args_size argv) + 1 :: 32 word))
          (scast (linux_args_size argv)) 8 GRUB_RELOCATOR_PREFERENCE_HIGH = Inr ch0"
    and ad: "linux_args_addr s1 = ch_addr ch0"
    by (rule cmd_linux_success_fields)
  have T31: "T < 2 ^ 31" using bound by (simp add: T_def)
  from args_request_value [OF bound]
  have mx: "(ucast ((0xffffffff - linux_args_size argv) + 1 :: 32 word) :: 64 word)
                        = of_nat (2 ^ 32 - T)"
    and sz: "(scast (linux_args_size argv) :: 64 word) = of_nat T"
    unfolding args_request_def T_def by simp_all
  have tg: "ch_target ch0 \<le> of_nat (2 ^ 32 - T) \<longrightarrow> unat (ch_target ch0) + T \<le> 2 ^ 32"
    using target_below [OF T31] by blast
  have g1: "\<exists>ch. grub_relocator_alloc_chunk_align env 0
                  (of_nat (2 ^ 32 - T)) (of_nat T) 8 GRUB_RELOCATOR_PREFERENCE_HIGH = Inr ch
               \<and> linux_args_addr s1 = ch_addr ch
               \<and> (ch_target ch \<le> of_nat (2 ^ 32 - T) \<longrightarrow> unat (ch_target ch) + T \<le> 2 ^ 32)"
    using al ad tg unfolding mx sz by blast
  note r0 = blob_reserved [OF load bound]
  have r: "rd_addr_arg_off s1 = of_nat A" "rd_size_arg_off s1 = of_nat (A + 28)"
    "4 * n + 8 \<le> A"
    unfolding n_def A_def by (rule r0(2), rule r0(3), rule r0(4))
  have AT: "A + 56 \<le> T"
    unfolding A_def n_def T_def by (rule string_offset_bounds(3) [OF ne])
  have offT: "string_offset argv k < T" for k
  proof -
    have "string_offset argv k \<le> A" unfolding A_def n_def by (rule string_offset_bounds(2) [OF ne])
    with AT show ?thesis by simp
  qed
  note blob = cmd_linux_success_blob [OF load bound]
  have g2: "\<forall>k. k < length argv \<longrightarrow>
             load_u32 (args_chunk_bytes s1) (4 * k)
               = ucast (linux_args_addr s1 + of_nat (string_offset argv k))"
    using blob(4) by blast
  have slot1: "(ucast (load_u32 (args_chunk_bytes s1) (4 * k)) :: 64 word)
               = base + of_nat (string_offset argv k)"
    if fit: "unat base + T \<le> 2 ^ 32" and k: "k < length argv" for k
    unfolding blob(4) [OF k] base_def [symmetric]
    using fit offT by (rule slot_address(1))
  have g3: "unat (linux_args_addr s1) + T \<le> 2 ^ 32 \<longrightarrow>
             (\<forall>k. k < length argv \<longrightarrow>
                (ucast (load_u32 (args_chunk_bytes s1) (4 * k)) :: 64 word)
                  = linux_args_addr s1 + of_nat (string_offset argv k))"
    using slot1 unfolding base_def by blast
  have g4: "linux_args_addr s2 = linux_args_addr s1
             \<and> (\<forall>k. k < length argv \<longrightarrow>
                  load_u32 (args_chunk_bytes s2) (4 * k) = load_u32 (args_chunk_bytes s1) (4 * k))
             \<and> load_u32 (args_chunk_bytes s2) (4 * length argv)
                  = ucast (linux_args_addr s2 + rd_addr_arg_off s2)
             \<and> load_u32 (args_chunk_bytes s2) (4 * (length argv + 1))
                  = ucast (linux_args_addr s2 + rd_size_arg_off s2)
             \<and> (unat (linux_args_addr s1) + T \<le> 2 ^ 32 \<longrightarrow>
                   (ucast (load_u32 (args_chunk_bytes s2) (4 * length argv)) :: 64 word)
                     = linux_args_addr s2 + rd_addr_arg_off s2
                 \<and> (ucast (load_u32 (args_chunk_bytes s2) (4 * (length argv + 1))) :: 64 word)
                     = linux_args_addr s2 + rd_size_arg_off s2)
             \<and> (\<exists>sz ch.
                   grub_initrd_init env' rdargv = Inr sz
                 \<and> grub_relocator_alloc_chunk_align env' 0 ((0xffffffff - sz) + 1) sz 0x10000
                      GRUB_RELOCATOR_PREFERENCE_HIGH = Inr ch
                 \<and> relocator s2
                      = map_option
                          (\<lambda>chunks. chunks @
                             [Alloc_chunk_align 0 ((0xffffffff - sz) + 1) sz 0x10000
                                GRUB_RELOCATOR_PREFERENCE_HIGH]) r
                 \<and> (unat sz \<le> 2 ^ 32 \<and> ch_target ch \<le> (0xffffffff - sz) + 1
                      \<longrightarrow> unat (ch_target ch) + unat sz \<le> 2 ^ 32))"
    if attach: "grub_cmd_initrd env' rdargv
               (s1\<lparr>grub_errno := e, grub_errmsg := msg, relocator := r\<rparr>)
             = Some (GRUB_ERR_NONE, s2)" for env' rdargv e msg r s2
  proof -
    from load bound attach obtain sz ch where
      i: "grub_initrd_init env' rdargv = Inr sz"
      and a: "grub_relocator_alloc_chunk_align env' 0 ((0xffffffff - sz) + 1) sz 0x10000
         GRUB_RELOCATOR_PREFERENCE_HIGH = Inr ch"
      and m2': "args_chunk_bytes s2 =
         patched (args_chunk_bytes s1) (linux_args_addr s1) (length argv)
           (string_offset argv (length argv)) (ch_addr ch) sz"
      and b2': "linux_args_addr s2 = linux_args_addr s1"
      and o2': "rd_addr_arg_off s2 = rd_addr_arg_off s1" "rd_size_arg_off s2 = rd_size_arg_off s1"
      and rel2: "relocator s2 = map_option (\<lambda>chunks. chunks @ [initrd_request sz]) r"
      by (rule attach_after_load_gen)
    have m2: "args_chunk_bytes s2 = patched (args_chunk_bytes s1) base n A (ch_addr ch) sz"
      using m2' unfolding n_def A_def base_def .
    have b2: "linux_args_addr s2 = base" using b2' unfolding base_def .
    have o2: "rd_addr_arg_off s2 = of_nat A" "rd_size_arg_off s2 = of_nat (A + 28)"
      unfolding o2' by (rule r(1), rule r(2))
    note p = patched_props [OF r(3), where m = "args_chunk_bytes s1" and base = base
                              and dest = "ch_addr ch" and sz = sz]
    have old: "load_u32 (args_chunk_bytes s2) (4 * k) = load_u32 (args_chunk_bytes s1) (4 * k)"
      if "k < length argv" for k
      unfolding m2 using that by (intro load_u32_cong p(5)) (simp add: n_def)
    have h1: "\<forall>k. k < length argv \<longrightarrow>
                  load_u32 (args_chunk_bytes s2) (4 * k) = load_u32 (args_chunk_bytes s1) (4 * k)"
      using old by blast
    have e4: "4 * (n + 1) = 4 * n + 4" by simp
    have h2: "load_u32 (args_chunk_bytes s2) (4 * n) = ucast (linux_args_addr s2 + rd_addr_arg_off s2)"
      unfolding b2 o2 m2 by (rule p(3))
    have h3: "load_u32 (args_chunk_bytes s2) (4 * (n + 1))
                = ucast (linux_args_addr s2 + rd_size_arg_off s2)"
      unfolding b2 o2 m2 e4 by (rule p(4))
    have h23: "(ucast (load_u32 (args_chunk_bytes s2) (4 * n)) :: 64 word)
                     = linux_args_addr s2 + rd_addr_arg_off s2
                 \<and> (ucast (load_u32 (args_chunk_bytes s2) (4 * (n + 1))) :: 64 word)
                     = linux_args_addr s2 + rd_size_arg_off s2"
      if fit: "unat base + T \<le> 2 ^ 32"
    proof -
      have "(ucast (load_u32 (args_chunk_bytes s2) (4 * n)) :: 64 word)
                     = linux_args_addr s2 + rd_addr_arg_off s2"
        unfolding h2 unfolding b2 o2 using fit by (rule slot_address(1)) (use AT in simp)
      moreover have "(ucast (load_u32 (args_chunk_bytes s2) (4 * (n + 1))) :: 64 word)
                     = linux_args_addr s2 + rd_size_arg_off s2"
        unfolding h3 unfolding b2 o2 using fit by (rule slot_address(1)) (use AT in simp)
      ultimately show ?thesis ..
    qed
    have h4: "relocator s2
                      = map_option
                          (\<lambda>chunks. chunks @
                             [Alloc_chunk_align 0 ((0xffffffff - sz) + 1) sz 0x10000
                                GRUB_RELOCATOR_PREFERENCE_HIGH]) r"
      unfolding rel2 initrd_request_def ..
    have h5: "unat sz \<le> 2 ^ 32 \<and> ch_target ch \<le> (0xffffffff - sz) + 1
                      \<longrightarrow> unat (ch_target ch) + unat sz \<le> 2 ^ 32"
      using initrd_chunk_low [of sz "ch_target ch"] by blast
    from i a h4 h5 have h6: "\<exists>sz ch.
                   grub_initrd_init env' rdargv = Inr sz
                 \<and> grub_relocator_alloc_chunk_align env' 0 ((0xffffffff - sz) + 1) sz 0x10000
                      GRUB_RELOCATOR_PREFERENCE_HIGH = Inr ch
                 \<and> relocator s2
                      = map_option
                          (\<lambda>chunks. chunks @
                             [Alloc_chunk_align 0 ((0xffffffff - sz) + 1) sz 0x10000
                                GRUB_RELOCATOR_PREFERENCE_HIGH]) r
                 \<and> (unat sz \<le> 2 ^ 32 \<and> ch_target ch \<le> (0xffffffff - sz) + 1
                      \<longrightarrow> unat (ch_target ch) + unat sz \<le> 2 ^ 32)"
      by blast
    have h7: "unat (linux_args_addr s1) + T \<le> 2 ^ 32 \<longrightarrow>
                   (ucast (load_u32 (args_chunk_bytes s2) (4 * n)) :: 64 word)
                     = linux_args_addr s2 + rd_addr_arg_off s2
                 \<and> (ucast (load_u32 (args_chunk_bytes s2) (4 * (n + 1))) :: 64 word)
                     = linux_args_addr s2 + rd_size_arg_off s2"
      using h23 unfolding base_def by blast
    from b2' h1 h2 h3 h7 h6 show ?thesis unfolding n_def by (intro conjI)
  qed
  from g1 g2 g3 g4 show ?thesis unfolding T_def by blast
qed

theorem slot_addresses_lossless_witness:
  "grub_cmd_linux example_env example_argv initial_state = Some (GRUB_ERR_NONE, example_loaded)
   \<and> blob_size_spec example_argv < 2 ^ 31
   \<and> unat (linux_args_addr example_loaded) + blob_size_spec example_argv \<le> 2 ^ 32
   \<and> (ucast (load_u32 (args_chunk_bytes example_loaded) 0) :: 64 word) = 0xffffffb0
   \<and> (ucast (load_u32 (args_chunk_bytes example_loaded) 4) :: 64 word) = 0xffffffb4
   \<and> (ucast (load_u32 (args_chunk_bytes example_loaded) 8) :: 64 word) = 0xffffffc0
   \<and> grub_cmd_initrd example_env [''initrd.img''] example_loaded = Some (GRUB_ERR_NONE, example_attached)
   \<and> (ucast (load_u32 (args_chunk_bytes example_attached) 12) :: 64 word) = 0xffffffc4
   \<and> (ucast (load_u32 (args_chunk_bytes example_attached) 16) :: 64 word) = 0xffffffe0"
proof -
  have b: "blob_size_spec example_argv < 2 ^ 31" by (simp add: example_bound)
  have fit: "unat (linux_args_addr example_loaded) + blob_size_spec example_argv \<le> 2 ^ 32"
    by (simp add: example_addr example_bound)
  have l: "length example_argv = 3" by (simp add: example_argv_def)
  note t = slot_addresses_lossless [OF example_load b, unfolded l]
  from t fit have s: "\<forall>k. k < 3 \<longrightarrow>
             (ucast (load_u32 (args_chunk_bytes example_loaded) (4 * k)) :: 64 word)
               = linux_args_addr example_loaded + of_nat (string_offset example_argv k)"
    by blast
  have w0: "(ucast (load_u32 (args_chunk_bytes example_loaded) 0) :: 64 word) = 0xffffffb0"
    using s [rule_format, of 0] by (simp add: example_offsets example_addr)
  have w1: "(ucast (load_u32 (args_chunk_bytes example_loaded) 4) :: 64 word) = 0xffffffb4"
    using s [rule_format, of 1] by (simp add: example_offsets [simplified] example_offsets example_addr)
  have w2: "(ucast (load_u32 (args_chunk_bytes example_loaded) 8) :: 64 word) = 0xffffffc0"
    using s [rule_format, of 2] by (simp add: example_offsets example_addr)
  have same: "example_loaded\<lparr>grub_errno := grub_errno example_loaded,
                 grub_errmsg := grub_errmsg example_loaded,
                 relocator := relocator example_loaded\<rparr> = example_loaded"
    by simp
  have att: "grub_cmd_initrd example_env [''initrd.img'']
               (example_loaded\<lparr>grub_errno := grub_errno example_loaded,
                 grub_errmsg := grub_errmsg example_loaded,
                 relocator := relocator example_loaded\<rparr>)
             = Some (GRUB_ERR_NONE, example_attached)"
    unfolding same by (rule example_attach)
  from t have a: "\<forall>env' rdargv e msg r s2.
             grub_cmd_initrd env' rdargv
               (example_loaded\<lparr>grub_errno := e, grub_errmsg := msg, relocator := r\<rparr>)
             = Some (GRUB_ERR_NONE, s2) \<longrightarrow>
               (unat (linux_args_addr example_loaded) + blob_size_spec example_argv \<le> 2 ^ 32 \<longrightarrow>
                   (ucast (load_u32 (args_chunk_bytes s2) (4 * 3)) :: 64 word)
                     = linux_args_addr s2 + rd_addr_arg_off s2
                 \<and> (ucast (load_u32 (args_chunk_bytes s2) (4 * (3 + 1))) :: 64 word)
                     = linux_args_addr s2 + rd_size_arg_off s2)"
    by blast
  from a att fit have
    "(ucast (load_u32 (args_chunk_bytes example_attached) (4 * 3)) :: 64 word)
        = linux_args_addr example_attached + rd_addr_arg_off example_attached
     \<and> (ucast (load_u32 (args_chunk_bytes example_attached) (4 * (3 + 1))) :: 64 word)
        = linux_args_addr example_attached + rd_size_arg_off example_attached"
    by blast
  then have w3: "(ucast (load_u32 (args_chunk_bytes example_attached) 12) :: 64 word) = 0xffffffc4"
    and w4: "(ucast (load_u32 (args_chunk_bytes example_attached) 16) :: 64 word) = 0xffffffe0"
    by (simp_all add: example_attached_fields)
  from example_load b fit w0 w1 w2 example_attach w3 w4 show ?thesis by (intro conjI)
qed

end
